theory Spec2Isabelle
  imports Main
begin

section \<open>The operating system as process.c sees it\<close>

text \<open>
  \<^verbatim>\<open>src/unix/process.c\<close> is a sequence of system calls whose results decide the
  control flow. The model threads an explicit \<open>world\<close> through every call: the set of
  descriptors open in the calling process, \<open>errno\<close>, the process-wide \<open>environ\<close>, the
  fields of the loop the code touches, and the trace of the calls issued so far, in
  program order. What the kernel answers to a call is an input of the model (a value of
  type \<open>sysret\<close>), so every theorem holds for every behaviour of the kernel.
\<close>

type_synonym fd = int

datatype errno = E0 | EINTR | ENOMEM | EINVAL | EBADF | EMFILE | ENFILE | EAGAIN
  | ESRCH | EPERM | EPIPE | ECHILD | ENOENT | EIO

text \<open>A call either fails (it returns -1 and sets \<open>errno\<close>) or succeeds with a value.\<close>

datatype 'a sysret = Fail errno | Ok 'a

datatype pollflag = POLLIN | POLLHUP | POLLERR | POLLNVAL

text \<open>
  The handle kinds, error codes and stream flags of \<^verbatim>\<open>uv.h\<close> (the header is not
  part of the sources at hand; only the names process.c uses matter).
\<close>

datatype uv_handle_type = UV_UNKNOWN_HANDLE | UV_TCP | UV_UDP | UV_NAMED_PIPE | UV_TTY
  | UV_FILE | UV_TIMER | UV_PROCESS

datatype uv_err_code = UV_ENOBUFS

datatype uv_err = UV_OK | UV_SYS errno | UV_ARTIFICIAL uv_err_code

datatype stream_flag = UV_READABLE | UV_WRITABLE

definition SIGKILL :: int where "SIGKILL = 9"
definition SIGCHLD :: int where "SIGCHLD = 17"
definition SIGTERM :: int where "SIGTERM = 15"
definition STDIN_FILENO :: fd where "STDIN_FILENO = 0"
definition STDOUT_FILENO :: fd where "STDOUT_FILENO = 1"
definition STDERR_FILENO :: fd where "STDERR_FILENO = 2"

datatype event =
    EvPipe "(fd \<times> fd) sysret"
  | EvCloexec fd
  | EvNonblock fd
  | EvClose fd
  | EvDup2 fd fd
  | EvFork "int sysret"
  | EvPoll fd "(int \<times> pollflag set) sysret"
  | EvChdir string
  | EvPerror string
  | EvExecvp string "string list"
  | EvKill int int
  | EvSigaction int
  | EvSelect int "fd set" "fd set" int int "(fd set \<times> fd set) sysret"
  | EvWrite fd int int "nat sysret"
  | EvRead fd int int "nat sysret"
  | EvWait "(int \<times> int) sysret"
  | EvHandleInit uv_handle_type
  | EvSetPid int
  | EvChildInit int
  | EvChildStart int
  | EvChildStop int
  | EvStreamOpen nat fd stream_flag
  | EvExitCb nat int int

record world =
  open_fds :: "fd set"
  errno_var :: errno
  environ :: "string list"
  last_err :: uv_err
  loop_time :: int
  process_init :: nat
  trace :: "event list"

datatype outcome = Return int | Exited int | Execd | AssertFail | Pending

text \<open>
  \<open>Return r\<close>: the function returned \<open>r\<close>. \<open>Exited c\<close>: the (child) process called
  \<^verbatim>\<open>_exit(c)\<close>. \<open>Execd\<close>: \<^verbatim>\<open>execvp\<close> replaced the process image. \<open>AssertFail\<close>: an
  \<^verbatim>\<open>assert\<close> failed (the process aborts). \<open>Pending\<close>: the answers supplied for a
  loop ran out while the loop was still running.
\<close>

definition emit :: "event \<Rightarrow> world \<Rightarrow> world" where
  "emit e w = w\<lparr>trace := trace w @ [e]\<rparr>"

text \<open>
  \<^verbatim>\<open>pipe\<close>: the kernel's answer is an error or two descriptors, which are never
  negative; \<open>as_fds\<close> reads them as the \<^verbatim>\<open>int\<close>s the code stores.
\<close>

definition as_fds :: "nat \<times> nat \<Rightarrow> fd \<times> fd" where
  "as_fds p = (int (fst p), int (snd p))"

definition sys_pipe :: "(nat \<times> nat) sysret \<Rightarrow> world \<Rightarrow> world" where
  "sys_pipe r w =
     (case r of
        Fail e \<Rightarrow> emit (EvPipe (Fail e)) (w\<lparr>errno_var := e\<rparr>)
      | Ok p \<Rightarrow> emit (EvPipe (Ok (as_fds p)))
                 (w\<lparr>open_fds := open_fds w \<union> {fst (as_fds p), snd (as_fds p)}\<rparr>))"

definition sys_close :: "fd \<Rightarrow> world \<Rightarrow> world" where
  "sys_close d w =
     emit (EvClose d)
       (if d \<in> open_fds w then w\<lparr>open_fds := open_fds w - {d}\<rparr>
        else w\<lparr>errno_var := EBADF\<rparr>)"

definition sys_dup2 :: "fd \<Rightarrow> fd \<Rightarrow> world \<Rightarrow> world" where
  "sys_dup2 old new w =
     emit (EvDup2 old new)
       (if old \<in> open_fds w then w\<lparr>open_fds := open_fds w \<union> {new}\<rparr>
        else w\<lparr>errno_var := EBADF\<rparr>)"

definition sys_fork :: "int sysret \<Rightarrow> world \<Rightarrow> world" where
  "sys_fork r w =
     emit (EvFork r) (case r of Fail e \<Rightarrow> w\<lparr>errno_var := e\<rparr> | Ok p \<Rightarrow> w)"

definition sys_poll :: "fd \<Rightarrow> (int \<times> pollflag set) sysret \<Rightarrow> world \<Rightarrow> world" where
  "sys_poll d r w =
     emit (EvPoll d r) (case r of Fail e \<Rightarrow> w\<lparr>errno_var := e\<rparr> | Ok p \<Rightarrow> w)"

definition sys_kill :: "int \<Rightarrow> int \<Rightarrow> unit sysret \<Rightarrow> world \<Rightarrow> world" where
  "sys_kill p sig r w =
     emit (EvKill p sig) (case r of Fail e \<Rightarrow> w\<lparr>errno_var := e\<rparr> | Ok u \<Rightarrow> w)"

definition perror :: "string \<Rightarrow> world \<Rightarrow> world" where
  "perror s w = emit (EvPerror s) w"

text \<open>
  Modelled from the spec: the helpers of \<^verbatim>\<open>internal.h\<close> and of the reactor that
  process.c calls and that are not in the sources at hand. \<open>uv__close\<close> closes a
  descriptor; \<open>uv__cloexec\<close> and \<open>uv__nonblock\<close> set a descriptor flag; \<open>uv_err_new\<close>
  records an OS error code as the loop's last error and \<open>uv_err_new_artificial\<close> records
  a code of the library's own ("generic error-object construction"); \<open>uv__handle_init\<close>
  initialises the generic part of a handle.
\<close>

definition uv__close :: "fd \<Rightarrow> world \<Rightarrow> world" where
  "uv__close d w = sys_close d w"

definition uv__cloexec :: "fd \<Rightarrow> world \<Rightarrow> world" where
  "uv__cloexec d w = emit (EvCloexec d) w"

definition uv__nonblock :: "fd \<Rightarrow> world \<Rightarrow> world" where
  "uv__nonblock d w = emit (EvNonblock d) w"

definition uv_err_new :: "errno \<Rightarrow> world \<Rightarrow> world" where
  "uv_err_new e w = w\<lparr>last_err := UV_SYS e\<rparr>"

definition uv_err_new_artificial :: "uv_err_code \<Rightarrow> world \<Rightarrow> world" where
  "uv_err_new_artificial c w = w\<lparr>last_err := UV_ARTIFICIAL c\<rparr>"

definition uv__handle_init :: "uv_handle_type \<Rightarrow> world \<Rightarrow> world" where
  "uv__handle_init t w = emit (EvHandleInit t) w"

text \<open>Several closes in program order.\<close>

definition closes :: "fd list \<Rightarrow> world \<Rightarrow> world" where
  "closes ds w = fold uv__close ds w"

section \<open>The wait-status macros\<close>

text \<open>
  \<^verbatim>\<open>WIFEXITED\<close>, \<^verbatim>\<open>WEXITSTATUS\<close>, \<^verbatim>\<open>WIFSIGNALED\<close> and \<^verbatim>\<open>WTERMSIG\<close> come from the
  platform's \<^verbatim>\<open>sys/wait.h\<close>. The code is modelled for any such macros; \<open>wait_macros\<close>
  bundles them. \<open>linux_wait\<close> is the usual encoding (low seven bits: the terminating
  signal, zero for a normal exit; bits 8 to 15: the exit status), used for the concrete
  runs below.
\<close>

record wait_macros =
  WIFEXITED :: "int \<Rightarrow> bool"
  WEXITSTATUS :: "int \<Rightarrow> int"
  WIFSIGNALED :: "int \<Rightarrow> bool"
  WTERMSIG :: "int \<Rightarrow> int"

definition linux_wait :: wait_macros where
  "linux_wait =
     \<lparr> WIFEXITED = (\<lambda>s. s mod 128 = 0),
       WEXITSTATUS = (\<lambda>s. (s div 256) mod 256),
       WIFSIGNALED = (\<lambda>s. 0 < s mod 128 \<and> s mod 128 < 127),
       WTERMSIG = (\<lambda>s. s mod 128) \<rparr>"

section \<open>The process handle and the termination reporter\<close>

record ev_child =
  rstatus :: int
  rpid :: int
  ev_active :: bool

record uv_process =
  pid :: int
  exit_cb :: "nat option"
  child_watcher :: ev_child

text \<open>
  \<^verbatim>\<open>uv__chld\<close> (lines 42 to 64). The first assertion compares the watcher with the
  handle's own watcher; the model passes the handle, so it holds by construction. The
  second assertion is on \<open>revents\<close>: \<open>ev_child_bit\<close> says whether \<^verbatim>\<open>EV_CHILD\<close> is
  set. A callback is a \<open>nat\<close> naming it (\<open>None\<close> is the null pointer) and calling it is
  the event \<open>EvExitCb\<close>.
\<close>

definition uv__chld :: "wait_macros \<Rightarrow> bool \<Rightarrow> world \<Rightarrow> uv_process \<Rightarrow> outcome \<times> world \<times> uv_process" where
  "uv__chld M ev_child_bit w process =
     (let status = rstatus (child_watcher process);
          exit_status0 = 0;
          term_signal0 = 0
      in if \<not> ev_child_bit then (AssertFail, w, process)
         else
           let w1 = emit (EvChildStop (rpid (child_watcher process))) w;
               process1 = process\<lparr>child_watcher := (child_watcher process)\<lparr>ev_active := False\<rparr>\<rparr>;
               exit_status = (if WIFEXITED M status then WEXITSTATUS M status else exit_status0);
               term_signal = (if WIFSIGNALED M status then WTERMSIG M status else term_signal0)
           in (case exit_cb process1 of
                 Some cb \<Rightarrow> (Return 0, emit (EvExitCb cb exit_status term_signal) w1, process1)
               | None \<Rightarrow> (Return 0, w1, process1)))"

section \<open>Signal delivery\<close>

text \<open>\<^verbatim>\<open>uv_process_kill\<close> (lines 279 to 288); \<open>r\<close> is what \<^verbatim>\<open>kill\<close> answers.\<close>

definition uv_process_kill :: "unit sysret \<Rightarrow> int \<Rightarrow> world \<Rightarrow> uv_process \<Rightarrow> outcome \<times> world \<times> uv_process" where
  "uv_process_kill r signum w process =
     (let w1 = sys_kill (pid process) signum r w
      in case r of
           Fail e \<Rightarrow> (Return (-1), uv_err_new (errno_var w1) w1, process)
         | Ok u \<Rightarrow> (Return 0, w1, process))"

section \<open>Statements and control flow\<close>

text \<open>
  A block of statements of the source is a function from the function's frame (its local
  variables and the world) to the frame afterwards and a \<open>flow\<close>: \<open>Next\<close> when control
  falls through to the next statement, \<open>Again\<close> for \<^verbatim>\<open>continue\<close>, \<open>Leave r\<close> when the
  function is left with outcome \<open>r\<close> (\<^verbatim>\<open>return\<close>, also after \<^verbatim>\<open>goto error\<close>; \<^verbatim>\<open>_exit\<close>;
  a successful \<^verbatim>\<open>execvp\<close>; a failed assertion). \<open>andthen\<close> is sequencing.
\<close>

datatype flow = Next | Again | Leave outcome

definition andthen :: "('s \<Rightarrow> flow \<times> 's) \<Rightarrow> ('s \<Rightarrow> flow \<times> 's) \<Rightarrow> 's \<Rightarrow> flow \<times> 's" where
  "andthen f g s =
     (case f s of
        (Next, s1) \<Rightarrow> g s1
      | (Again, s1) \<Rightarrow> (Again, s1)
      | (Leave r, s1) \<Rightarrow> (Leave r, s1))"

text \<open>The locals both engines have: the three stdio pipes; and the world.\<close>

record frame =
  stdin_pipe :: "fd \<times> fd"
  stdout_pipe :: "fd \<times> fd"
  stderr_pipe :: "fd \<times> fd"
  wld :: world

definition on_world :: "(world \<Rightarrow> world) \<Rightarrow> 'a frame_scheme \<Rightarrow> 'a frame_scheme" where
  "on_world f s = s\<lparr>wld := f (wld s)\<rparr>"

section \<open>The async spawn engine\<close>

record uv_stream =
  stream_type :: uv_handle_type
  stream_id :: nat

record uv_process_options =
  opt_exit_cb :: "nat option"
  opt_file :: string
  opt_args :: "string list"
  opt_env :: "string list"
  opt_cwd :: "string option"
  stdin_stream :: "uv_stream option"
  stdout_stream :: "uv_stream option"
  stderr_stream :: "uv_stream option"

text \<open>What the kernel answers at each call site of \<^verbatim>\<open>uv_spawn\<close>.\<close>

record spawn_os =
  os_pipe_stdin :: "(nat \<times> nat) sysret"
  os_pipe_stdout :: "(nat \<times> nat) sysret"
  os_pipe_stderr :: "(nat \<times> nat) sysret"
  os_pipe_signal :: "(nat \<times> nat) sysret"
  os_fork :: "int sysret"
  os_polls :: "(int \<times> pollflag set) sysret list"
  os_chdir :: "unit sysret"
  os_execvp :: "unit sysret"

text \<open>The frame of \<^verbatim>\<open>uv_spawn\<close>; \<open>child\<close> is the local \<^verbatim>\<open>pid\<close>.\<close>

record spawn_frame = frame +
  signal_pipe :: "fd \<times> fd"
  save_our_env :: "string list"
  child :: int
  process :: uv_process

text \<open>The \<^verbatim>\<open>error:\<close> label of \<^verbatim>\<open>uv_spawn\<close> (lines 267 to 276).\<close>

definition spawn_error :: "spawn_frame \<Rightarrow> flow \<times> spawn_frame" where
  "spawn_error s =
     (Leave (Return (-1)),
      on_world
        (\<lambda>w. closes [fst (stdin_pipe s), snd (stdin_pipe s),
                      fst (stdout_pipe s), snd (stdout_pipe s),
                      fst (stderr_pipe s), snd (stderr_pipe s)]
                (uv_err_new (errno_var w) w)) s)"

text \<open>
  One of the three blocks of lines 92 to 129 (the source spells the block out for each
  stream): nothing for a null stream; else the kind check, then \<^verbatim>\<open>pipe\<close>, then the two
  close-on-exec flags. \<open>store\<close> writes the local array the block is about.
\<close>

definition spawn_stdio :: "uv_stream option \<Rightarrow> (nat \<times> nat) sysret \<Rightarrow> (fd \<times> fd \<Rightarrow> spawn_frame \<Rightarrow> spawn_frame) \<Rightarrow> spawn_frame \<Rightarrow> flow \<times> spawn_frame" where
  "spawn_stdio strm r store s =
     (case strm of
        None \<Rightarrow> (Next, s)
      | Some st \<Rightarrow>
          if stream_type st \<noteq> UV_NAMED_PIPE
          then spawn_error (on_world (\<lambda>w. w\<lparr>errno_var := EINVAL\<rparr>) s)
          else (case r of
                  Fail e \<Rightarrow> spawn_error (on_world (sys_pipe r) s)
                | Ok p \<Rightarrow>
                    (Next, on_world (uv__cloexec (snd (as_fds p)))
                             (on_world (uv__cloexec (fst (as_fds p)))
                                (store (as_fds p) (on_world (sys_pipe r) s))))))"

definition spawn_stdin :: "spawn_os \<Rightarrow> uv_process_options \<Rightarrow> spawn_frame \<Rightarrow> flow \<times> spawn_frame" where
  "spawn_stdin os options =
     spawn_stdio (stdin_stream options) (os_pipe_stdin os) (\<lambda>p s. s\<lparr>stdin_pipe := p\<rparr>)"

definition spawn_stdout :: "spawn_os \<Rightarrow> uv_process_options \<Rightarrow> spawn_frame \<Rightarrow> flow \<times> spawn_frame" where
  "spawn_stdout os options =
     spawn_stdio (stdout_stream options) (os_pipe_stdout os) (\<lambda>p s. s\<lparr>stdout_pipe := p\<rparr>)"

definition spawn_stderr :: "spawn_os \<Rightarrow> uv_process_options \<Rightarrow> spawn_frame \<Rightarrow> flow \<times> spawn_frame" where
  "spawn_stderr os options =
     spawn_stdio (stderr_stream options) (os_pipe_stderr os) (\<lambda>p s. s\<lparr>stderr_pipe := p\<rparr>)"

text \<open>Lines 151 to 165, the branch without \<^verbatim>\<open>pipe2\<close>: the synchronization pipe.\<close>

definition spawn_signal_pipe :: "spawn_os \<Rightarrow> spawn_frame \<Rightarrow> flow \<times> spawn_frame" where
  "spawn_signal_pipe os s =
     (case os_pipe_signal os of
        Fail e \<Rightarrow> spawn_error (on_world (sys_pipe (os_pipe_signal os)) s)
      | Ok p \<Rightarrow>
          (Next, on_world (uv__nonblock (snd (as_fds p)))
                   (on_world (uv__nonblock (fst (as_fds p)))
                      (on_world (uv__cloexec (snd (as_fds p)))
                         (on_world (uv__cloexec (fst (as_fds p)))
                            ((on_world (sys_pipe (os_pipe_signal os)) s)\<lparr>signal_pipe := as_fds p\<rparr>))))))"

text \<open>The child branch (lines 178 to 205).\<close>

definition child_stdio :: "bool \<Rightarrow> fd \<Rightarrow> fd \<Rightarrow> fd \<Rightarrow> world \<Rightarrow> world" where
  "child_stdio guard unused used target w =
     (if guard then sys_dup2 used target (uv__close unused w) else w)"

definition spawn_exec :: "spawn_os \<Rightarrow> uv_process_options \<Rightarrow> world \<Rightarrow> outcome \<times> world" where
  "spawn_exec os options w =
     (let w1 = emit (EvExecvp (opt_file options) (opt_args options)) (w\<lparr>environ := opt_env options\<rparr>)
      in case os_execvp os of
           Ok u \<Rightarrow> (Execd, w1)
         | Fail e \<Rightarrow> (Exited 127, perror ''execvp()'' (w1\<lparr>errno_var := e\<rparr>)))"

definition spawn_child :: "spawn_os \<Rightarrow> uv_process_options \<Rightarrow> spawn_frame \<Rightarrow> flow \<times> spawn_frame" where
  "spawn_child os options s =
     (let w1 = child_stdio (0 \<le> fst (stdin_pipe s)) (snd (stdin_pipe s)) (fst (stdin_pipe s)) STDIN_FILENO (wld s);
          w2 = child_stdio (0 \<le> snd (stdout_pipe s)) (fst (stdout_pipe s)) (snd (stdout_pipe s)) STDOUT_FILENO w1;
          w3 = child_stdio (0 \<le> snd (stderr_pipe s)) (fst (stderr_pipe s)) (snd (stderr_pipe s)) STDERR_FILENO w2
      in case opt_cwd options of
           None \<Rightarrow> (case spawn_exec os options w3 of (res, w4) \<Rightarrow> (Leave res, s\<lparr>wld := w4\<rparr>))
         | Some dir \<Rightarrow>
             (case os_chdir os of
                Ok u \<Rightarrow>
                  (case spawn_exec os options (emit (EvChdir dir) w3) of
                     (res, w4) \<Rightarrow> (Leave res, s\<lparr>wld := w4\<rparr>))
              | Fail e \<Rightarrow>
                  (Leave (Exited 127),
                   s\<lparr>wld := perror ''chdir()'' (emit (EvChdir dir) (w3\<lparr>errno_var := e\<rparr>))\<rparr>)))"

text \<open>Lines 167 to 210: \<^verbatim>\<open>fork\<close> and its three results.\<close>

definition spawn_fork :: "spawn_os \<Rightarrow> uv_process_options \<Rightarrow> spawn_frame \<Rightarrow> flow \<times> spawn_frame" where
  "spawn_fork os options s =
     (let s1 = on_world (sys_fork (os_fork os)) s
      in case os_fork os of
           Fail e \<Rightarrow>
             spawn_error
               (on_world (\<lambda>w. w\<lparr>environ := save_our_env s\<rparr>)
                  (on_world (uv__close (snd (signal_pipe s)))
                     (on_world (uv__close (fst (signal_pipe s))) (s1\<lparr>child := -1\<rparr>))))
         | Ok p \<Rightarrow>
             if p = 0 then spawn_child os options (s1\<lparr>child := 0\<rparr>)
             else (Next, on_world (\<lambda>w. w\<lparr>environ := save_our_env s\<rparr>) (s1\<lparr>child := p\<rparr>)))"

text \<open>
  The do-while loop of lines 215 to 221: \<^verbatim>\<open>poll\<close> on the read end of the
  synchronization pipe, again while it fails with \<^verbatim>\<open>EINTR\<close> or \<^verbatim>\<open>ENOMEM\<close>. The list holds
  the kernel's successive answers; \<open>None\<close> means the answers ran out with the loop still
  running.
\<close>

fun spawn_poll :: "fd \<Rightarrow> (int \<times> pollflag set) sysret list \<Rightarrow> world \<Rightarrow> (int \<times> pollflag set) sysret option \<times> world" where
  "spawn_poll d [] w = (None, w)"
| "spawn_poll d (r # rs) w =
     (let w1 = sys_poll d r (w\<lparr>errno_var := E0\<rparr>)
      in case r of
           Fail e \<Rightarrow> if e = EINTR \<or> e = ENOMEM then spawn_poll d rs w1 else (Some r, w1)
         | Ok p \<Rightarrow> (Some r, w1))"

text \<open>
  Lines 212 to 230: close the write end, wait, close both ends, and the two assertions
  (a failed \<^verbatim>\<open>poll\<close> leaves \<^verbatim>\<open>status\<close> at -1, so the first assertion fails).
\<close>

definition spawn_wait_exec :: "spawn_os \<Rightarrow> spawn_frame \<Rightarrow> flow \<times> spawn_frame" where
  "spawn_wait_exec os s =
     (let s1 = on_world (uv__close (snd (signal_pipe s))) s
      in case spawn_poll (fst (signal_pipe s)) (os_polls os) (wld s1) of
           (None, w2) \<Rightarrow> (Leave Pending, s1\<lparr>wld := w2\<rparr>)
         | (Some r, w2) \<Rightarrow>
             (let s3 = on_world (uv__close (snd (signal_pipe s)))
                         (on_world (uv__close (fst (signal_pipe s))) (s1\<lparr>wld := w2\<rparr>))
              in case r of
                   Fail e \<Rightarrow> (Leave AssertFail, s3)
                 | Ok a \<Rightarrow>
                     if fst a \<noteq> 1 then (Leave AssertFail, s3)
                     else if POLLHUP \<notin> snd a then (Leave AssertFail, s3)
                     else (Next, s3)))"

text \<open>Lines 232 to 236: the pid goes into the handle and the child watcher is started.\<close>

definition spawn_register :: "spawn_frame \<Rightarrow> flow \<times> spawn_frame" where
  "spawn_register s =
     (Next,
      on_world (emit (EvChildStart (child s)))
        (on_world (emit (EvChildInit (child s)))
           (on_world (emit (EvSetPid (child s)))
              (s\<lparr>process := (process s)\<lparr>pid := child s,
                     child_watcher := \<lparr> rstatus = 0, rpid = child s, ev_active = True \<rparr>\<rparr>\<rparr>))))"

text \<open>
  One of the three blocks of lines 238 to 263: two assertions, close the child's end,
  make the parent's end non-blocking and hand it to the stream.
\<close>

definition spawn_attach :: "fd \<Rightarrow> fd \<Rightarrow> uv_stream option \<Rightarrow> stream_flag \<Rightarrow> spawn_frame \<Rightarrow> flow \<times> spawn_frame" where
  "spawn_attach mine theirs strm flag s =
     (if 0 \<le> mine then
        (case strm of
           None \<Rightarrow> (Leave AssertFail, s)
         | Some st \<Rightarrow>
             if 0 \<le> theirs
             then (Next, on_world (emit (EvStreamOpen (stream_id st) mine flag))
                           (on_world (uv__nonblock mine) (on_world (uv__close theirs) s)))
             else (Leave AssertFail, s))
      else (Next, s))"

definition spawn_attach_stdin :: "uv_process_options \<Rightarrow> spawn_frame \<Rightarrow> flow \<times> spawn_frame" where
  "spawn_attach_stdin options s =
     spawn_attach (snd (stdin_pipe s)) (fst (stdin_pipe s)) (stdin_stream options) UV_WRITABLE s"

definition spawn_attach_stdout :: "uv_process_options \<Rightarrow> spawn_frame \<Rightarrow> flow \<times> spawn_frame" where
  "spawn_attach_stdout options s =
     spawn_attach (fst (stdout_pipe s)) (snd (stdout_pipe s)) (stdout_stream options) UV_READABLE s"

definition spawn_attach_stderr :: "uv_process_options \<Rightarrow> spawn_frame \<Rightarrow> flow \<times> spawn_frame" where
  "spawn_attach_stderr options s =
     spawn_attach (fst (stderr_pipe s)) (snd (stderr_pipe s)) (stderr_stream options) UV_READABLE s"

text \<open>Lines 76 to 90: the initial frame. \<^verbatim>\<open>pid\<close> is not initialised; the model has 0.\<close>

definition spawn_frame0 :: "uv_process_options \<Rightarrow> world \<Rightarrow> uv_process \<Rightarrow> spawn_frame" where
  "spawn_frame0 options w proc =
     \<lparr> stdin_pipe = (-1, -1), stdout_pipe = (-1, -1), stderr_pipe = (-1, -1),
       wld = (uv__handle_init UV_PROCESS w)\<lparr>process_init := process_init w + 1\<rparr>,
       signal_pipe = (-1, -1), save_our_env = environ w, child = 0,
       process = proc\<lparr>exit_cb := opt_exit_cb options\<rparr> \<rparr>"

text \<open>The statements of \<^verbatim>\<open>uv_spawn\<close> after the pipes, then the whole body.\<close>

definition spawn_after_pipes :: "spawn_os \<Rightarrow> uv_process_options \<Rightarrow> spawn_frame \<Rightarrow> flow \<times> spawn_frame" where
  "spawn_after_pipes os options =
     andthen (spawn_fork os options)
       (andthen (spawn_wait_exec os)
          (andthen spawn_register
             (andthen (spawn_attach_stdin options)
                (andthen (spawn_attach_stdout options) (spawn_attach_stderr options)))))"

definition spawn_pipes :: "spawn_os \<Rightarrow> uv_process_options \<Rightarrow> spawn_frame \<Rightarrow> flow \<times> spawn_frame" where
  "spawn_pipes os options =
     andthen (spawn_stdin os options)
       (andthen (spawn_stdout os options)
          (andthen (spawn_stderr os options) (spawn_signal_pipe os)))"

definition spawn_body :: "spawn_os \<Rightarrow> uv_process_options \<Rightarrow> spawn_frame \<Rightarrow> flow \<times> spawn_frame" where
  "spawn_body os options = andthen (spawn_pipes os options) (spawn_after_pipes os options)"

text \<open>
  \<^verbatim>\<open>uv_spawn\<close> (lines 70 to 276): the body, and \<^verbatim>\<open>return 0\<close> when control falls out of
  its last block.
\<close>

definition uv_spawn :: "spawn_os \<Rightarrow> uv_process_options \<Rightarrow> world \<Rightarrow> uv_process \<Rightarrow> outcome \<times> world \<times> uv_process" where
  "uv_spawn os options w proc =
     (case spawn_body os options (spawn_frame0 options w proc) of
        (Leave r, s) \<Rightarrow> (r, wld s, process s)
      | (Next, s) \<Rightarrow> (Return 0, wld s, process s)
      | (Again, s) \<Rightarrow> (Return 0, wld s, process s))"

section \<open>The sync spawn engine\<close>

text \<open>
  The request and result record \<^verbatim>\<open>uv_spawn_sync_t\<close> (declared in \<^verbatim>\<open>uv.h\<close>). A buffer
  pointer is modelled by whether it is non-null; the counts are the code's integers.
  The bytes moved through the pipes are not modelled, only how many there are.
  \<open>spawn_pid\<close>, \<open>spawn_file\<close> and \<open>spawn_args\<close> are the fields \<^verbatim>\<open>pid\<close>, \<^verbatim>\<open>file\<close> and
  \<^verbatim>\<open>args\<close>.
\<close>

record uv_spawn_sync =
  spawn_file :: string
  spawn_args :: "string list"
  stdin_buf :: bool
  stdin_size :: int
  stdin_written :: int
  stdout_buf :: bool
  stdout_size :: int
  stdout_read :: int
  stderr_buf :: bool
  stderr_size :: int
  stderr_read :: int
  combine :: bool
  timeout :: int
  spawn_pid :: int
  exit_code :: int
  exit_signal :: int
  exit_timeout :: int

text \<open>
  What the kernel answers in one pass of the multiplexing loop: to \<^verbatim>\<open>select\<close> (the
  descriptors that are ready), to the \<^verbatim>\<open>write\<close> and the two \<^verbatim>\<open>read\<close>s and to
  \<^verbatim>\<open>wait\<close> (the pid and the raw status) should the pass issue them, and the clock that
  \<^verbatim>\<open>uv_update_time\<close> reads at the end of the pass.
\<close>

record sync_round =
  r_select :: "(fd set \<times> fd set) sysret"
  r_write :: "nat sysret"
  r_read_stdout :: "nat sysret"
  r_read_stderr :: "nat sysret"
  r_wait :: "(int \<times> int) sysret"
  r_clock :: int

record sync_os =
  so_pipe_stdin :: "(nat \<times> nat) sysret"
  so_pipe_stdout :: "(nat \<times> nat) sysret"
  so_pipe_stderr :: "(nat \<times> nat) sysret"
  so_pipe_sigchld :: "(nat \<times> nat) sysret"
  so_fork :: "int sysret"
  so_execvp :: "unit sysret"
  so_sigaction :: "unit sysret"
  so_rounds :: "sync_round list"

text \<open>
  The frame of \<^verbatim>\<open>uv_spawn_sync\<close>: its locals, the static \<^verbatim>\<open>sigchld_pipe\<close> and the
  record the caller passed.
\<close>

record sync_frame = frame +
  sigchld_pipe :: "fd \<times> fd"
  nfds :: int
  start_time :: int
  read_fds :: "fd set"
  write_fds :: "fd set"
  spawn :: uv_spawn_sync

text \<open>
  \<^verbatim>\<open>select\<close> reports only descriptors that were in the sets passed to it; it returns
  how many are left in the two sets, so it returns zero exactly when both come back
  empty. \<^verbatim>\<open>read\<close> and \<^verbatim>\<open>write\<close> transfer at most the length asked for.
\<close>

definition select_answer :: "fd set \<Rightarrow> fd set \<Rightarrow> (fd set \<times> fd set) sysret \<Rightarrow> (fd set \<times> fd set) sysret" where
  "select_answer rd wr r = (case r of Fail e \<Rightarrow> Fail e | Ok p \<Rightarrow> Ok (fst p \<inter> rd, snd p \<inter> wr))"

definition sys_select :: "int \<Rightarrow> fd set \<Rightarrow> fd set \<Rightarrow> int \<Rightarrow> int \<Rightarrow> (fd set \<times> fd set) sysret \<Rightarrow> world \<Rightarrow> world" where
  "sys_select n rd wr sec usec r w =
     emit (EvSelect n rd wr sec usec (select_answer rd wr r))
       (case r of Fail e \<Rightarrow> w\<lparr>errno_var := e\<rparr> | Ok p \<Rightarrow> w)"

definition capped :: "int \<Rightarrow> nat sysret \<Rightarrow> nat sysret" where
  "capped len r = (case r of Fail e \<Rightarrow> Fail e | Ok n \<Rightarrow> Ok (min n (nat len)))"

definition sys_write :: "fd \<Rightarrow> int \<Rightarrow> int \<Rightarrow> nat sysret \<Rightarrow> world \<Rightarrow> world" where
  "sys_write d off len r w =
     emit (EvWrite d off len (capped len r))
       (case r of Fail e \<Rightarrow> w\<lparr>errno_var := e\<rparr> | Ok n \<Rightarrow> w)"

definition sys_read :: "fd \<Rightarrow> int \<Rightarrow> int \<Rightarrow> nat sysret \<Rightarrow> world \<Rightarrow> world" where
  "sys_read d off len r w =
     emit (EvRead d off len (capped len r))
       (case r of Fail e \<Rightarrow> w\<lparr>errno_var := e\<rparr> | Ok n \<Rightarrow> w)"

definition sys_wait :: "(int \<times> int) sysret \<Rightarrow> world \<Rightarrow> world" where
  "sys_wait r w =
     emit (EvWait r) (case r of Fail e \<Rightarrow> w\<lparr>errno_var := e\<rparr> | Ok p \<Rightarrow> w)"

definition sys_sigaction :: "int \<Rightarrow> unit sysret \<Rightarrow> world \<Rightarrow> world" where
  "sys_sigaction sig r w =
     emit (EvSigaction sig) (case r of Fail e \<Rightarrow> w\<lparr>errno_var := e\<rparr> | Ok u \<Rightarrow> w)"

text \<open>
  Modelled from the spec: the reactor's "current time" query. \<open>uv_now\<close> reads the time
  the loop has cached, \<open>uv_update_time\<close> refreshes it from the clock.
\<close>

definition uv_now :: "world \<Rightarrow> int" where
  "uv_now w = loop_time w"

definition uv_update_time :: "int \<Rightarrow> world \<Rightarrow> world" where
  "uv_update_time clock w = w\<lparr>loop_time := clock\<rparr>"

text \<open>Lines 316 to 321: the result fields are reset.\<close>

definition sync_init :: "uv_spawn_sync \<Rightarrow> uv_spawn_sync" where
  "sync_init sp =
     sp\<lparr>spawn_pid := -1, exit_code := -1, exit_signal := -1, exit_timeout := 0,
         stdout_read := 0, stderr_read := 0\<rparr>"

text \<open>
  One of the guarded \<^verbatim>\<open>pipe\<close> calls of lines 323 to 341, each with its own
  \<^verbatim>\<open>return -1\<close>. \<open>store\<close> writes the array the call is about.
\<close>

definition sync_pipe :: "bool \<Rightarrow> (nat \<times> nat) sysret \<Rightarrow> (fd \<times> fd \<Rightarrow> sync_frame \<Rightarrow> sync_frame) \<Rightarrow> sync_frame \<Rightarrow> flow \<times> sync_frame" where
  "sync_pipe buf r store s =
     (if buf then
        (case r of
           Fail e \<Rightarrow>
             (Leave (Return (-1)),
              on_world (\<lambda>w. uv_err_new (errno_var w) w) (on_world (sys_pipe r) s))
         | Ok p \<Rightarrow> (Next, store (as_fds p) (on_world (sys_pipe r) s)))
      else (Next, s))"

definition sync_pipe_stdin :: "sync_os \<Rightarrow> sync_frame \<Rightarrow> flow \<times> sync_frame" where
  "sync_pipe_stdin os s =
     sync_pipe (stdin_buf (spawn s)) (so_pipe_stdin os) (\<lambda>p s. s\<lparr>stdin_pipe := p\<rparr>) s"

definition sync_pipe_stdout :: "sync_os \<Rightarrow> sync_frame \<Rightarrow> flow \<times> sync_frame" where
  "sync_pipe_stdout os s =
     sync_pipe (stdout_buf (spawn s)) (so_pipe_stdout os) (\<lambda>p s. s\<lparr>stdout_pipe := p\<rparr>) s"

definition sync_pipe_stderr :: "sync_os \<Rightarrow> sync_frame \<Rightarrow> flow \<times> sync_frame" where
  "sync_pipe_stderr os s =
     sync_pipe (stderr_buf (spawn s)) (so_pipe_stderr os) (\<lambda>p s. s\<lparr>stderr_pipe := p\<rparr>) s"

definition sync_pipe_sigchld :: "sync_os \<Rightarrow> sync_frame \<Rightarrow> flow \<times> sync_frame" where
  "sync_pipe_sigchld os s =
     sync_pipe True (so_pipe_sigchld os) (\<lambda>p s. s\<lparr>sigchld_pipe := p\<rparr>) s"

text \<open>
  The closing sequence that the timeout exit (lines 451 to 464), the child-exit exit
  (lines 526 to 539) and the \<^verbatim>\<open>error:\<close> label (lines 556 to 569) each spell out.
\<close>

definition sync_close_all :: "sync_frame \<Rightarrow> sync_frame" where
  "sync_close_all s =
     (let s1 = on_world (sys_close (snd (sigchld_pipe s))) (on_world (sys_close (fst (sigchld_pipe s))) s);
          s2 = (if stdin_buf (spawn s) then on_world (sys_close (snd (stdin_pipe s))) s1 else s1);
          s3 = (if stdout_buf (spawn s) then on_world (sys_close (fst (stdout_pipe s))) s2 else s2)
      in if stderr_buf (spawn s) then on_world (sys_close (fst (stderr_pipe s))) s3 else s3)"

text \<open>The \<^verbatim>\<open>error:\<close> label of \<^verbatim>\<open>uv_spawn_sync\<close> (lines 555 to 573).\<close>

definition sync_error :: "sync_frame \<Rightarrow> flow \<times> sync_frame" where
  "sync_error s =
     (Leave (Return (-1)),
      on_world (sys_kill (spawn_pid (spawn s)) SIGKILL (Ok ())) (sync_close_all s))"

text \<open>The child branch (lines 348 to 372).\<close>

definition sync_child :: "sync_os \<Rightarrow> sync_frame \<Rightarrow> flow \<times> sync_frame" where
  "sync_child os s =
     (let s1 = (if stdin_buf (spawn s)
                then on_world (sys_dup2 (fst (stdin_pipe s)) STDIN_FILENO)
                       (on_world (sys_close (snd (stdin_pipe s))) s)
                else s);
          s2 = (if stdout_buf (spawn s)
                then on_world (sys_dup2 (snd (stdout_pipe s)) STDOUT_FILENO)
                       (on_world (sys_close (fst (stdout_pipe s))) s1)
                else s1);
          s3 = (if stdout_buf (spawn s) \<and> combine (spawn s)
                then on_world (sys_dup2 (snd (stdout_pipe s)) STDERR_FILENO) s2
                else s2)
      in if stdout_buf (spawn s) \<and> combine (spawn s) \<and> stderr_buf (spawn s)
         then (Leave AssertFail, s3)
         else
           (let s4 = (if stderr_buf (spawn s)
                      then on_world (sys_dup2 (snd (stderr_pipe s)) STDERR_FILENO)
                             (on_world (sys_close (fst (stderr_pipe s))) s3)
                      else s3);
                s5 = on_world (emit (EvExecvp (spawn_file (spawn s)) (spawn_args (spawn s)))) s4
            in case so_execvp os of
                 Ok u \<Rightarrow> (Leave Execd, s5)
               | Fail e \<Rightarrow>
                   (Leave (Exited 127), on_world (\<lambda>w. uv_err_new e (w\<lparr>errno_var := e\<rparr>)) s5)))"

text \<open>Lines 343 to 373: \<^verbatim>\<open>spawn->pid = fork()\<close> and the switch on it.\<close>

definition sync_fork :: "sync_os \<Rightarrow> sync_frame \<Rightarrow> flow \<times> sync_frame" where
  "sync_fork os s =
     (let s1 = on_world (sys_fork (so_fork os)) s
      in case so_fork os of
           Fail e \<Rightarrow>
             (Leave (Return (-1)),
              on_world (\<lambda>w. uv_err_new (errno_var w) w) (s1\<lparr>spawn := (spawn s)\<lparr>spawn_pid := -1\<rparr>\<rparr>))
         | Ok p \<Rightarrow>
             if p = 0 then sync_child os (s1\<lparr>spawn := (spawn s)\<lparr>spawn_pid := 0\<rparr>\<rparr>)
             else (Next, s1\<lparr>spawn := (spawn s)\<lparr>spawn_pid := p\<rparr>\<rparr>))"

text \<open>
  Lines 375 to 394: the parent closes the child's ends, computes \<open>nfds\<close> with the
  \<^verbatim>\<open>MAX\<close> macro (\<open>MAX_of\<close>) and takes the start time.
\<close>

definition MAX_of :: "int \<Rightarrow> int \<Rightarrow> int" where
  "MAX_of a b = (if a > b then a else b)"

definition sync_parent_ends :: "sync_frame \<Rightarrow> flow \<times> sync_frame" where
  "sync_parent_ends s =
     (let s0 = s\<lparr>nfds := fst (sigchld_pipe s)\<rparr>;
          s1 = (if stdout_buf (spawn s)
                then (on_world (sys_close (snd (stdout_pipe s))) s0)\<lparr>nfds := MAX_of (nfds s0) (fst (stdout_pipe s))\<rparr>
                else s0);
          s2 = (if stderr_buf (spawn s)
                then (on_world (sys_close (snd (stderr_pipe s))) s1)\<lparr>nfds := MAX_of (nfds s1) (fst (stderr_pipe s))\<rparr>
                else s1);
          s3 = (if stdin_buf (spawn s)
                then (on_world (sys_close (fst (stdin_pipe s))) s2)\<lparr>nfds := MAX_of (nfds s2) (snd (stdin_pipe s))\<rparr>
                else s2)
      in (Next, s3\<lparr>nfds := nfds s3 + 1, start_time := uv_now (wld s3)\<rparr>))"

text \<open>Lines 396 to 404: the handler for \<^verbatim>\<open>SIGCHLD\<close> is installed.\<close>

definition sync_sigaction :: "sync_os \<Rightarrow> sync_frame \<Rightarrow> flow \<times> sync_frame" where
  "sync_sigaction os s =
     (let s1 = on_world (sys_sigaction SIGCHLD (so_sigaction os)) s
      in case so_sigaction os of
           Fail e \<Rightarrow> sync_error (on_world (\<lambda>w. uv_err_new (errno_var w) w) s1)
         | Ok u \<Rightarrow> (Next, s1))"

text \<open>The sets built at the top of each pass (lines 411 to 426).\<close>

definition sync_read_set :: "sync_frame \<Rightarrow> fd set" where
  "sync_read_set s =
     (if stdout_buf (spawn s) then {fst (stdout_pipe s)} else {}) \<union>
     (if stderr_buf (spawn s) then {fst (stderr_pipe s)} else {}) \<union>
     {fst (sigchld_pipe s)}"

definition sync_write_set :: "sync_frame \<Rightarrow> fd set" where
  "sync_write_set s = (if stdin_buf (spawn s) then {snd (stdin_pipe s)} else {})"

definition sync_build_sets :: "sync_frame \<Rightarrow> flow \<times> sync_frame" where
  "sync_build_sets s = (Next, s\<lparr>read_fds := sync_read_set s, write_fds := sync_write_set s\<rparr>)"

text \<open>
  Lines 428 to 469: the remaining budget, \<^verbatim>\<open>select\<close>, and its results -1 (again on
  \<^verbatim>\<open>EINTR\<close>, else the error exit) and 0 (the timeout exit).
\<close>

definition sync_select :: "sync_round \<Rightarrow> sync_frame \<Rightarrow> flow \<times> sync_frame" where
  "sync_select rnd s =
     (let elapsed = uv_now (wld s) - start_time s;
          time_to_timeout0 = timeout (spawn s) - elapsed;
          time_to_timeout = (if time_to_timeout0 < 0 then 0 else time_to_timeout0);
          s1 = on_world (sys_select (nfds s) (read_fds s) (write_fds s)
                 (time_to_timeout div 1000) (time_to_timeout mod 1000) (r_select rnd)) s
      in case select_answer (read_fds s) (write_fds s) (r_select rnd) of
           Fail e \<Rightarrow>
             if errno_var (wld s1) = EINTR then (Again, s1)
             else sync_error (on_world (\<lambda>w. uv_err_new (errno_var w) w) s1)
         | Ok ready \<Rightarrow>
             (let s2 = s1\<lparr>read_fds := fst ready, write_fds := snd ready\<rparr>
              in if fst ready = {} \<and> snd ready = {}
                 then (Leave (Return 0),
                       (on_world (sys_kill (spawn_pid (spawn s)) SIGKILL (Ok ())) (sync_close_all s2))
                         \<lparr>spawn := (spawn s)\<lparr>exit_timeout := 1\<rparr>\<rparr>)
                 else (Next, s2)))"

text \<open>
  Lines 471 to 480. \<open>written\<close> is the value \<^verbatim>\<open>write\<close> returned, -1 when it failed.
\<close>

definition sync_feed_stdin :: "sync_round \<Rightarrow> sync_frame \<Rightarrow> flow \<times> sync_frame" where
  "sync_feed_stdin rnd s =
     (if stdin_buf (spawn s) \<and> snd (stdin_pipe s) \<in> write_fds s
         \<and> stdin_written (spawn s) < stdin_size (spawn s)
      then
        (let len = stdin_size (spawn s) - stdin_written (spawn s);
             s1 = on_world (sys_write (snd (stdin_pipe s)) (stdin_written (spawn s)) len (r_write rnd)) s;
             written = (case capped len (r_write rnd) of Fail e \<Rightarrow> -1 | Ok n \<Rightarrow> int n)
         in if written = -1 \<and> errno_var (wld s1) \<noteq> EINTR
            then sync_error (on_world (\<lambda>w. uv_err_new (errno_var w) w) s1)
            else (Next, s1\<lparr>spawn := (spawn s)\<lparr>stdin_written := stdin_written (spawn s) + written\<rparr>\<rparr>))
      else (Next, s))"

text \<open>Lines 482 to 498: the stdout capture.\<close>

definition sync_capture_stdout :: "sync_round \<Rightarrow> sync_frame \<Rightarrow> flow \<times> sync_frame" where
  "sync_capture_stdout rnd s =
     (if stdout_buf (spawn s) \<and> fst (stdout_pipe s) \<in> read_fds s then
        (if stdout_size (spawn s) - stdout_read (spawn s) \<le> 0
         then sync_error (on_world (uv_err_new_artificial UV_ENOBUFS) s)
         else
           (let len = stdout_size (spawn s) - stdout_read (spawn s);
                s1 = on_world (sys_read (fst (stdout_pipe s)) (stdout_read (spawn s)) len (r_read_stdout rnd)) s
            in case capped len (r_read_stdout rnd) of
                 Fail e \<Rightarrow> sync_error (on_world (\<lambda>w. uv_err_new (errno_var w) w) s1)
               | Ok n \<Rightarrow> (Next, s1\<lparr>spawn := (spawn s)\<lparr>stdout_read := stdout_read (spawn s) + int n\<rparr>\<rparr>)))
      else (Next, s))"

text \<open>Lines 500 to 514: the stderr capture.\<close>

definition sync_capture_stderr :: "sync_round \<Rightarrow> sync_frame \<Rightarrow> flow \<times> sync_frame" where
  "sync_capture_stderr rnd s =
     (if stderr_buf (spawn s) \<and> fst (stderr_pipe s) \<in> read_fds s then
        (if stderr_size (spawn s) - stderr_read (spawn s) \<le> 0
         then sync_error (on_world (uv_err_new_artificial UV_ENOBUFS) s)
         else
           (let len = stderr_size (spawn s) - stderr_read (spawn s);
                s1 = on_world (sys_read (fst (stderr_pipe s)) (stderr_read (spawn s)) len (r_read_stderr rnd)) s
            in case capped len (r_read_stderr rnd) of
                 Fail e \<Rightarrow> sync_error (on_world (\<lambda>w. uv_err_new (errno_var w) w) s1)
               | Ok n \<Rightarrow> (Next, s1\<lparr>spawn := (spawn s)\<lparr>stderr_read := stderr_read (spawn s) + int n\<rparr>\<rparr>)))
      else (Next, s))"

text \<open>Lines 516 to 550: the self-pipe is readable, the child has exited.\<close>

definition sync_reap :: "wait_macros \<Rightarrow> sync_round \<Rightarrow> sync_frame \<Rightarrow> flow \<times> sync_frame" where
  "sync_reap M rnd s =
     (if fst (sigchld_pipe s) \<in> read_fds s then
        (let s1 = on_world (sys_wait (r_wait rnd)) s
         in case r_wait rnd of
              Fail e \<Rightarrow> sync_error (on_world (\<lambda>w. uv_err_new (errno_var w) w) s1)
            | Ok ps \<Rightarrow>
                (let status = snd ps;
                     s2 = sync_close_all s1;
                     sp1 = (if WIFEXITED M status
                            then (spawn s)\<lparr>exit_code := WEXITSTATUS M status\<rparr> else spawn s);
                     sp2 = (if WIFSIGNALED M status
                            then sp1\<lparr>exit_signal := WTERMSIG M status\<rparr> else sp1)
                 in (Leave (Return 0), s2\<lparr>spawn := sp2\<rparr>)))
      else (Next, s))"

text \<open>Line 552.\<close>

definition sync_update_time :: "sync_round \<Rightarrow> sync_frame \<Rightarrow> flow \<times> sync_frame" where
  "sync_update_time rnd s = (Next, on_world (uv_update_time (r_clock rnd)) s)"

text \<open>One pass of the loop body (lines 406 to 553).\<close>

definition sync_transfer :: "wait_macros \<Rightarrow> sync_round \<Rightarrow> sync_frame \<Rightarrow> flow \<times> sync_frame" where
  "sync_transfer M rnd =
     andthen (sync_feed_stdin rnd)
       (andthen (sync_capture_stdout rnd)
          (andthen (sync_capture_stderr rnd)
             (andthen (sync_reap M rnd) (sync_update_time rnd))))"

definition sync_iter :: "wait_macros \<Rightarrow> sync_round \<Rightarrow> sync_frame \<Rightarrow> flow \<times> sync_frame" where
  "sync_iter M rnd = andthen sync_build_sets (andthen (sync_select rnd) (sync_transfer M rnd))"

text \<open>
  The \<^verbatim>\<open>while (1)\<close> loop, one pass per answer of the kernel. When the answers run out
  the loop is still running: the outcome is \<open>Pending\<close>.
\<close>

fun sync_loop :: "wait_macros \<Rightarrow> sync_round list \<Rightarrow> sync_frame \<Rightarrow> outcome \<times> sync_frame" where
  "sync_loop M [] s = (Pending, s)"
| "sync_loop M (rnd # rnds) s =
     (case sync_iter M rnd s of
        (Leave r, s1) \<Rightarrow> (r, s1)
      | (Next, s1) \<Rightarrow> sync_loop M rnds s1
      | (Again, s1) \<Rightarrow> sync_loop M rnds s1)"

text \<open>
  Lines 304 to 321: the initial frame. The pipe arrays are not initialised (and never
  read before \<^verbatim>\<open>pipe\<close> fills them); the model has \<open>(-1, -1)\<close> there.
\<close>

definition sync_frame0 :: "world \<Rightarrow> uv_spawn_sync \<Rightarrow> sync_frame" where
  "sync_frame0 w sp =
     \<lparr> stdin_pipe = (-1, -1), stdout_pipe = (-1, -1), stderr_pipe = (-1, -1), wld = w,
       sigchld_pipe = (-1, -1), nfds = 0, start_time = 0, read_fds = {}, write_fds = {},
       spawn = sync_init sp \<rparr>"

text \<open>The statements before the loop (lines 323 to 404).\<close>

definition sync_pipes :: "sync_os \<Rightarrow> sync_frame \<Rightarrow> flow \<times> sync_frame" where
  "sync_pipes os =
     andthen (sync_pipe_stdin os)
       (andthen (sync_pipe_stdout os)
          (andthen (sync_pipe_stderr os) (sync_pipe_sigchld os)))"

definition sync_setup :: "sync_os \<Rightarrow> sync_frame \<Rightarrow> flow \<times> sync_frame" where
  "sync_setup os =
     andthen (sync_pipes os)
       (andthen (sync_fork os) (andthen sync_parent_ends (sync_sigaction os)))"

text \<open>\<^verbatim>\<open>uv_spawn_sync\<close> (lines 303 to 573).\<close>

definition uv_spawn_sync :: "wait_macros \<Rightarrow> sync_os \<Rightarrow> world \<Rightarrow> uv_spawn_sync \<Rightarrow> outcome \<times> world \<times> uv_spawn_sync" where
  "uv_spawn_sync M os w sp =
     (case sync_setup os (sync_frame0 w sp) of
        (Leave r, s) \<Rightarrow> (r, wld s, spawn s)
      | (Next, s) \<Rightarrow> (case sync_loop M (so_rounds os) s of (r, s1) \<Rightarrow> (r, wld s1, spawn s1))
      | (Again, s) \<Rightarrow> (case sync_loop M (so_rounds os) s of (r, s1) \<Rightarrow> (r, wld s1, spawn s1)))"

section \<open>Vocabulary of the proofs\<close>

definition since :: "world \<Rightarrow> world \<Rightarrow> event list" where
  "since w w1 = drop (length (trace w)) (trace w1)"

definition appends :: "(event \<Rightarrow> bool) \<Rightarrow> world \<Rightarrow> world \<Rightarrow> bool" where
  "appends good w w1 = (\<exists>evs. trace w1 = trace w @ evs \<and> list_all good evs)"

definition held :: "sync_frame \<Rightarrow> fd set" where
  "held s = {fst (sigchld_pipe s), snd (sigchld_pipe s)} \<union>
     (if stdin_buf (spawn s) then {snd (stdin_pipe s)} else {}) \<union>
     (if stdout_buf (spawn s) then {fst (stdout_pipe s)} else {}) \<union>
     (if stderr_buf (spawn s) then {fst (stderr_pipe s)} else {})"

definition sync_config where
  "sync_config s = (stdin_pipe s, stdout_pipe s, stderr_pipe s, sigchld_pipe s, nfds s, start_time s,
     stdin_buf (spawn s), stdout_buf (spawn s), stderr_buf (spawn s),
     stdin_size (spawn s), stdout_size (spawn s), stderr_size (spawn s),
     timeout (spawn s), spawn_pid (spawn s), combine (spawn s))"

definition sync_result where
  "sync_result s = (exit_code (spawn s), exit_signal (spawn s), exit_timeout (spawn s))"

definition unchanged :: "sync_frame \<Rightarrow> sync_frame \<Rightarrow> bool" where
  "unchanged s s1 = (sync_config s1 = sync_config s \<and> sync_result s1 = sync_result s \<and>
     open_fds (wld s1) = open_fds (wld s) \<and> last_err (wld s1) = last_err (wld s))"

definition aborted :: "sync_frame \<Rightarrow> sync_frame \<Rightarrow> bool" where
  "aborted s s1 = (sync_config s1 = sync_config s \<and> sync_result s1 = sync_result s \<and>
     open_fds (wld s1) = open_fds (wld s) - held s \<and>
     last (trace (wld s1)) = EvKill (spawn_pid (spawn s)) SIGKILL)"

definition timed_out :: "sync_frame \<Rightarrow> sync_frame \<Rightarrow> bool" where
  "timed_out s s1 = (sync_config s1 = sync_config s \<and>
     exit_code (spawn s1) = exit_code (spawn s) \<and> exit_signal (spawn s1) = exit_signal (spawn s) \<and>
     exit_timeout (spawn s1) = 1 \<and>
     open_fds (wld s1) = open_fds (wld s) - held s \<and> last_err (wld s1) = last_err (wld s) \<and>
     last (trace (wld s1)) = EvKill (spawn_pid (spawn s)) SIGKILL)"

definition reaped :: "wait_macros \<Rightarrow> sync_round \<Rightarrow> sync_frame \<Rightarrow> sync_frame \<Rightarrow> bool" where
  "reaped M rnd s s1 = (\<exists>p st. r_wait rnd = Ok (p, st) \<and> sync_config s1 = sync_config s \<and>
     exit_code (spawn s1) = (if WIFEXITED M st then WEXITSTATUS M st else exit_code (spawn s)) \<and>
     exit_signal (spawn s1) = (if WIFSIGNALED M st then WTERMSIG M st else exit_signal (spawn s)) \<and>
     exit_timeout (spawn s1) = exit_timeout (spawn s) \<and>
     open_fds (wld s1) = open_fds (wld s) - held s \<and> last_err (wld s1) = last_err (wld s))"

definition sync_post :: "wait_macros \<Rightarrow> sync_round \<Rightarrow> flow \<Rightarrow> sync_frame \<Rightarrow> sync_frame \<Rightarrow> bool" where
  "sync_post M rnd fl s s1 =
     (case fl of
        Next \<Rightarrow> unchanged s s1
      | Again \<Rightarrow> unchanged s s1
      | Leave r \<Rightarrow> (r = Return (-1) \<and> aborted s s1) \<or>
                   (r = Return 0 \<and> (timed_out s s1 \<or> reaped M rnd s s1)))"

definition feed_due :: "sync_frame \<Rightarrow> bool" where
  "feed_due s = (stdin_buf (spawn s) \<and> snd (stdin_pipe s) \<in> write_fds s \<and> stdin_written (spawn s) < stdin_size (spawn s))"

definition feed_write :: "sync_round \<Rightarrow> sync_frame \<Rightarrow> sync_frame" where
  "feed_write rnd s = on_world (sys_write (snd (stdin_pipe s)) (stdin_written (spawn s))
      (stdin_size (spawn s) - stdin_written (spawn s)) (r_write rnd)) s"

definition out_due :: "sync_frame \<Rightarrow> bool" where
  "out_due s = (stdout_buf (spawn s) \<and> fst (stdout_pipe s) \<in> read_fds s)"

definition out_full :: "sync_frame \<Rightarrow> bool" where
  "out_full s = (stdout_size (spawn s) - stdout_read (spawn s) \<le> 0)"

definition out_read :: "sync_round \<Rightarrow> sync_frame \<Rightarrow> sync_frame" where
  "out_read rnd s = on_world (sys_read (fst (stdout_pipe s)) (stdout_read (spawn s))
      (stdout_size (spawn s) - stdout_read (spawn s)) (r_read_stdout rnd)) s"

definition err_due :: "sync_frame \<Rightarrow> bool" where
  "err_due s = (stderr_buf (spawn s) \<and> fst (stderr_pipe s) \<in> read_fds s)"

definition err_full :: "sync_frame \<Rightarrow> bool" where
  "err_full s = (stderr_size (spawn s) - stderr_read (spawn s) \<le> 0)"

definition err_read :: "sync_round \<Rightarrow> sync_frame \<Rightarrow> sync_frame" where
  "err_read rnd s = on_world (sys_read (fst (stderr_pipe s)) (stderr_read (spawn s))
      (stderr_size (spawn s) - stderr_read (spawn s)) (r_read_stderr rnd)) s"

definition reap_wait :: "sync_round \<Rightarrow> sync_frame \<Rightarrow> sync_frame" where
  "reap_wait rnd s = on_world (sys_wait (r_wait rnd)) s"

definition decode :: "wait_macros \<Rightarrow> int \<Rightarrow> uv_spawn_sync \<Rightarrow> uv_spawn_sync" where
  "decode M status sp =
     (if WIFSIGNALED M status
      then (if WIFEXITED M status then sp\<lparr>exit_code := WEXITSTATUS M status\<rparr> else sp)\<lparr>exit_signal := WTERMSIG M status\<rparr>
      else (if WIFEXITED M status then sp\<lparr>exit_code := WEXITSTATUS M status\<rparr> else sp))"

definition time_to_timeout :: "sync_frame \<Rightarrow> int" where
  "time_to_timeout s =
     (if timeout (spawn s) - (uv_now (wld s) - start_time s) < 0 then 0
      else timeout (spawn s) - (uv_now (wld s) - start_time s))"

definition sel_call :: "sync_round \<Rightarrow> sync_frame \<Rightarrow> sync_frame" where
  "sel_call rnd s = on_world (sys_select (nfds s) (read_fds s) (write_fds s)
      (time_to_timeout s div 1000) (time_to_timeout s mod 1000) (r_select rnd)) s"

definition world0 :: world where
  "world0 = \<lparr> open_fds = {0, 1, 2}, errno_var = E0, environ = [], last_err = UV_OK,
              loop_time = 0, process_init = 0, trace = [] \<rparr>"

definition req_out :: uv_spawn_sync where
  "req_out = \<lparr> spawn_file = ''/bin/echo'', spawn_args = [''echo'', ''hello''],
       stdin_buf = False, stdin_size = 0, stdin_written = 0,
       stdout_buf = True, stdout_size = 16, stdout_read = 0,
       stderr_buf = False, stderr_size = 0, stderr_read = 0,
       combine = False, timeout = 1000,
       spawn_pid = 0, exit_code = 0, exit_signal = 0, exit_timeout = 0 \<rparr>"

definition rnd_read5 :: sync_round where
  "rnd_read5 = \<lparr> r_select = Ok ({3}, {}), r_write = Ok 0, r_read_stdout = Ok 5,
       r_read_stderr = Ok 0, r_wait = Fail ECHILD, r_clock = 10 \<rparr>"

definition rnd_exit0 :: sync_round where
  "rnd_exit0 = \<lparr> r_select = Ok ({3, 5}, {}), r_write = Ok 0, r_read_stdout = Ok 0,
       r_read_stderr = Ok 0, r_wait = Ok (100, 0), r_clock = 20 \<rparr>"

definition os_hello :: sync_os where
  "os_hello = \<lparr> so_pipe_stdin = Fail EMFILE, so_pipe_stdout = Ok (3, 4), so_pipe_stderr = Fail EMFILE,
       so_pipe_sigchld = Ok (5, 6), so_fork = Ok 100, so_execvp = Ok (), so_sigaction = Ok (),
       so_rounds = [rnd_read5, rnd_exit0] \<rparr>"

definition loop_post :: "wait_macros \<Rightarrow> sync_round list \<Rightarrow> outcome \<Rightarrow> sync_frame \<Rightarrow> sync_frame \<Rightarrow> bool" where
  "loop_post M rnds res s s1 =
     ((res = Pending \<and> unchanged s s1) \<or> (res = Return (-1) \<and> aborted s s1) \<or>
      (res = Return 0 \<and> (timed_out s s1 \<or> (\<exists>rnd\<in>set rnds. reaped M rnd s s1))))"

definition setup_post :: "flow \<Rightarrow> sync_frame \<Rightarrow> sync_frame \<Rightarrow> bool" where
  "setup_post fl s s1 = (sync_result s1 = sync_result s \<and>
     (fl = Next \<or> fl = Leave (Return (-1)) \<or> fl = Leave Execd \<or> fl = Leave (Exited 127) \<or> fl = Leave AssertFail))"

section \<open>Concrete runs\<close>

definition proc0 :: uv_process where
  "proc0 = \<lparr> pid = 0, exit_cb = None, child_watcher = \<lparr> rstatus = 0, rpid = 0, ev_active = False \<rparr> \<rparr>"

definition proc_exited3 :: uv_process where
  "proc_exited3 = \<lparr> pid = 100, exit_cb = Some 7,
      child_watcher = \<lparr> rstatus = 768, rpid = 100, ev_active = True \<rparr> \<rparr>"

definition opts_tcp_stdin :: uv_process_options where
  "opts_tcp_stdin = \<lparr> opt_exit_cb = None, opt_file = ''/bin/cat'', opt_args = [''cat''], opt_env = [],
       opt_cwd = None, stdin_stream = Some \<lparr> stream_type = UV_TCP, stream_id = 1 \<rparr>,
       stdout_stream = None, stderr_stream = None \<rparr>"

definition os_spawn_plain :: spawn_os where
  "os_spawn_plain = \<lparr> os_pipe_stdin = Ok (3, 4), os_pipe_stdout = Ok (5, 6), os_pipe_stderr = Ok (7, 8),
       os_pipe_signal = Ok (9, 10), os_fork = Ok 100, os_polls = [Fail EINTR, Ok (1, {POLLHUP})],
       os_chdir = Ok (), os_execvp = Ok () \<rparr>"

definition slots :: "'a frame_scheme \<Rightarrow> fd set" where
  "slots s = {fst (stdin_pipe s), snd (stdin_pipe s), fst (stdout_pipe s), snd (stdout_pipe s),
              fst (stderr_pipe s), snd (stderr_pipe s)} - {-1}"

definition non_pipe :: "uv_stream option \<Rightarrow> bool" where
  "non_pipe strm = (case strm of None \<Rightarrow> False | Some st \<Rightarrow> stream_type st \<noteq> UV_NAMED_PIPE)"

definition first_is_non_pipe :: "uv_process_options \<Rightarrow> bool" where
  "first_is_non_pipe options =
     (non_pipe (stdin_stream options) \<or>
      (stdin_stream options = None \<and> non_pipe (stdout_stream options)) \<or>
      (stdin_stream options = None \<and> stdout_stream options = None \<and> non_pipe (stderr_stream options)))"

definition pipes_inv :: "fd set \<Rightarrow> uv_process \<Rightarrow> spawn_frame \<Rightarrow> bool" where
  "pipes_inv O0 pr s = (open_fds (wld s) \<subseteq> O0 \<union> slots s \<and> process s = pr \<and> signal_pipe s = (-1, -1))"

definition is_fork :: "event \<Rightarrow> bool" where
  "is_fork ev = (case ev of EvFork r \<Rightarrow> True | _ \<Rightarrow> False)"

definition is_pipe :: "event \<Rightarrow> bool" where
  "is_pipe ev = (case ev of EvPipe r \<Rightarrow> True | _ \<Rightarrow> False)"

definition piped :: "fd set \<Rightarrow> uv_process \<Rightarrow> spawn_os \<Rightarrow> spawn_frame \<Rightarrow> bool" where
  "piped O0 pr os s = (\<exists>sg. os_pipe_signal os = Ok sg \<and> signal_pipe s = as_fds sg \<and>
      open_fds (wld s) \<subseteq> O0 \<union> slots s \<union> {fst (signal_pipe s), snd (signal_pipe s)} \<and> process s = pr)"

definition opts_pipe_then_tcp :: uv_process_options where
  "opts_pipe_then_tcp = \<lparr> opt_exit_cb = None, opt_file = ''/bin/cat'', opt_args = [''cat''], opt_env = [],
       opt_cwd = None, stdin_stream = Some \<lparr> stream_type = UV_NAMED_PIPE, stream_id = 1 \<rparr>,
       stdout_stream = Some \<lparr> stream_type = UV_TCP, stream_id = 2 \<rparr>, stderr_stream = None \<rparr>"

definition os_spawn_no_fds :: spawn_os where
  "os_spawn_no_fds = \<lparr> os_pipe_stdin = Fail EMFILE, os_pipe_stdout = Fail EMFILE, os_pipe_stderr = Fail EMFILE,
       os_pipe_signal = Fail EMFILE, os_fork = Fail EAGAIN, os_polls = [],
       os_chdir = Ok (), os_execvp = Ok () \<rparr>"

definition is_reg :: "event \<Rightarrow> bool" where
  "is_reg ev = (case ev of EvSetPid p \<Rightarrow> True | EvChildInit p \<Rightarrow> True | EvChildStart p \<Rightarrow> True | _ \<Rightarrow> False)"

definition retried :: "errno \<Rightarrow> bool" where
  "retried e = (e = EINTR \<or> e = ENOMEM)"

definition waited :: "spawn_frame \<Rightarrow> spawn_frame \<Rightarrow> bool" where
  "waited s s1 = (\<exists>ints rev.
      trace (wld s1) = trace (wld s) @ [EvClose (snd (signal_pipe s))] @
        map (\<lambda>e. EvPoll (fst (signal_pipe s)) (Fail e)) ints @
        [EvPoll (fst (signal_pipe s)) (Ok (1, rev)), EvClose (fst (signal_pipe s)), EvClose (snd (signal_pipe s))] \<and>
      POLLHUP \<in> rev \<and> list_all retried ints)"

definition registered :: "spawn_os \<Rightarrow> event list \<Rightarrow> bool" where
  "registered os evs = (\<exists>pre p sg ints rev post.
      os_fork os = Ok p \<and> p \<noteq> 0 \<and> os_pipe_signal os = Ok sg \<and>
      evs = pre @ [EvFork (Ok p), EvClose (snd (as_fds sg))] @
            map (\<lambda>e. EvPoll (fst (as_fds sg)) (Fail e)) ints @
            [EvPoll (fst (as_fds sg)) (Ok (1, rev)), EvClose (fst (as_fds sg)), EvClose (snd (as_fds sg)),
             EvSetPid p, EvChildInit p, EvChildStart p] @ post \<and>
      POLLHUP \<in> rev \<and> list_all retried ints \<and>
      list_all (\<lambda>ev. \<not> is_reg ev \<and> \<not> is_fork ev) pre \<and> list_all (\<lambda>ev. \<not> is_reg ev) post)"

definition opts_pipe_stdout :: uv_process_options where
  "opts_pipe_stdout = \<lparr> opt_exit_cb = Some 7, opt_file = ''/bin/ls'', opt_args = [''ls''], opt_env = [],
       opt_cwd = None, stdin_stream = None,
       stdout_stream = Some \<lparr> stream_type = UV_NAMED_PIPE, stream_id = 2 \<rparr>, stderr_stream = None \<rparr>"

section \<open>The passes of the sync loop\<close>

lemmas prim_defs = emit_def as_fds_def sys_pipe_def sys_close_def sys_dup2_def sys_fork_def sys_poll_def
  sys_kill_def perror_def uv__close_def uv__cloexec_def uv__nonblock_def uv_err_new_def
  uv_err_new_artificial_def uv__handle_init_def sys_select_def sys_write_def sys_read_def
  sys_wait_def sys_sigaction_def uv_update_time_def uv_now_def

lemma sys_close_eval: "sys_close d w = w\<lparr>open_fds := open_fds w - {d},
    errno_var := (if d \<in> open_fds w then errno_var w else EBADF), trace := trace w @ [EvClose d]\<rparr>"
  by (simp add: sys_close_def emit_def)

lemma sys_dup2_eval: "sys_dup2 old new w = w\<lparr>open_fds := (if old \<in> open_fds w then open_fds w \<union> {new} else open_fds w),
    errno_var := (if old \<in> open_fds w then errno_var w else EBADF), trace := trace w @ [EvDup2 old new]\<rparr>"
  by (simp add: sys_dup2_def emit_def)

lemmas eval_defs = emit_def as_fds_def sys_pipe_def sys_close_eval sys_dup2_eval sys_fork_def sys_poll_def
  sys_kill_def perror_def uv__close_def uv__cloexec_def uv__nonblock_def uv_err_new_def
  uv_err_new_artificial_def uv__handle_init_def sys_select_def sys_write_def sys_read_def
  sys_wait_def sys_sigaction_def uv_update_time_def uv_now_def

lemma appends_refl: "appends good w w"
  by (simp add: appends_def)

lemma appends_trans: "appends good w w1 \<Longrightarrow> appends good w1 w2 \<Longrightarrow> appends good w w2"
  by (auto simp: appends_def)

lemma appends_same_trace: "trace w1 = trace w \<Longrightarrow> appends good w w1"
  by (simp add: appends_def)

lemma appends_emit: "good e \<Longrightarrow> appends good w w1 \<Longrightarrow> appends good w (emit e w1)"
  by (auto simp: appends_def emit_def)

lemma appends_since: "appends good w w1 \<Longrightarrow> list_all good (since w w1)"
  by (auto simp: appends_def since_def)

lemma andthen_cases:
  "andthen f g s = (fl, s2) \<Longrightarrow>
     (\<exists>s1. f s = (Next, s1) \<and> g s1 = (fl, s2)) \<or> (f s = (fl, s2) \<and> fl \<noteq> Next)"
  by (auto simp: andthen_def split: prod.splits flow.splits)

lemma andthen_Next: "f s = (Next, s1) \<Longrightarrow> andthen f g s = g s1"
  by (simp add: andthen_def)

lemma andthen_Leave: "f s = (Leave r, s1) \<Longrightarrow> andthen f g s = (Leave r, s1)"
  by (simp add: andthen_def)

lemma andthen_Again: "f s = (Again, s1) \<Longrightarrow> andthen f g s = (Again, s1)"
  by (simp add: andthen_def)

lemma sys_close_facts:
  "open_fds (sys_close d w) = open_fds w - {d}"
  "last_err (sys_close d w) = last_err w"
  "loop_time (sys_close d w) = loop_time w"
  "trace (sys_close d w) = trace w @ [EvClose d]"
  by (auto simp: sys_close_def emit_def)

lemma close_all_frame:
  "spawn (sync_close_all s) = spawn s"
  "stdin_pipe (sync_close_all s) = stdin_pipe s"
  "stdout_pipe (sync_close_all s) = stdout_pipe s"
  "stderr_pipe (sync_close_all s) = stderr_pipe s"
  "sigchld_pipe (sync_close_all s) = sigchld_pipe s"
  "last_err (wld (sync_close_all s)) = last_err (wld s)"
  by (simp_all add: sync_close_all_def Let_def on_world_def sys_close_facts)

lemma close_all_open: "open_fds (wld (sync_close_all s)) = open_fds (wld s) - held s"
  by (auto simp add: sync_close_all_def Let_def on_world_def sys_close_facts held_def)

lemma close_all_appends: "(\<And>d. good (EvClose d)) \<Longrightarrow> appends good (wld s) (wld (sync_close_all s))"
  by (simp add: sync_close_all_def Let_def on_world_def sys_close_facts appends_def)

lemma held_config: "sync_config s1 = sync_config s \<Longrightarrow> held s1 = held s"
  by (simp add: sync_config_def held_def)

lemma unchanged_refl: "unchanged s s"
  by (simp add: unchanged_def)

lemma sync_post_comp: "sync_post M rnd Next s s1 \<Longrightarrow> sync_post M rnd fl s1 s2 \<Longrightarrow> sync_post M rnd fl s s2"
proof -
  assume a: "sync_post M rnd Next s s1" and b: "sync_post M rnd fl s1 s2"
  from a have u: "unchanged s s1" by (simp add: sync_post_def)
  from u have c: "sync_config s1 = sync_config s" and r: "sync_result s1 = sync_result s"
    and o: "open_fds (wld s1) = open_fds (wld s)" and l: "last_err (wld s1) = last_err (wld s)"
    by (simp_all add: unchanged_def)
  from c have h: "held s1 = held s" by (rule held_config)
  from c have p: "spawn_pid (spawn s1) = spawn_pid (spawn s)" by (simp add: sync_config_def)
  from r have r3: "exit_code (spawn s1) = exit_code (spawn s)" "exit_signal (spawn s1) = exit_signal (spawn s)"
    "exit_timeout (spawn s1) = exit_timeout (spawn s)" by (simp_all add: sync_result_def)
  show ?thesis
  proof (cases fl)
    case Next
    with b u show ?thesis by (simp add: sync_post_def unchanged_def)
  next
    case Again
    with b u show ?thesis by (simp add: sync_post_def unchanged_def)
  next
    case (Leave x)
    with b have "(x = Return (-1) \<and> aborted s1 s2) \<or> (x = Return 0 \<and> (timed_out s1 s2 \<or> reaped M rnd s1 s2))"
      by (simp add: sync_post_def)
    moreover have "aborted s1 s2 \<Longrightarrow> aborted s s2"
      by (simp only: aborted_def h c r o p)
    moreover have "timed_out s1 s2 \<Longrightarrow> timed_out s s2"
      by (simp only: timed_out_def h c r3 o l p)
    moreover have "reaped M rnd s1 s2 \<Longrightarrow> reaped M rnd s s2"
      by (simp only: reaped_def h c r3 o l p)
    ultimately show ?thesis using Leave by (auto simp: sync_post_def)
  qed
qed

lemma andthen_spec:
  assumes f: "\<And>s fl s1. f s = (fl, s1) \<Longrightarrow> R fl s s1"
      and g: "\<And>s fl s1. g s = (fl, s1) \<Longrightarrow> R fl s s1"
      and comp: "\<And>fl s s1 s2. R Next s s1 \<Longrightarrow> R fl s1 s2 \<Longrightarrow> R fl s s2"
      and run: "andthen f g s = (fl, s2)"
  shows "R fl s s2"
proof -
  from andthen_cases[OF run] show ?thesis
  proof
    assume "\<exists>s1. f s = (Next, s1) \<and> g s1 = (fl, s2)"
    then obtain s1 where a: "f s = (Next, s1)" and b: "g s1 = (fl, s2)" by auto
    from comp[OF f[OF a] g[OF b]] show ?thesis .
  next
    assume "f s = (fl, s2) \<and> fl \<noteq> Next"
    then show ?thesis using f by simp
  qed
qed

lemma config_on_world: "sync_config (on_world f s) = sync_config s" "sync_result (on_world f s) = sync_result s" "held (on_world f s) = held s"
  by (simp_all add: sync_config_def sync_result_def on_world_def held_def)

lemma sync_error_aborted:
  assumes "sync_config s0 = sync_config s" "sync_result s0 = sync_result s" "open_fds (wld s0) = open_fds (wld s)"
  shows "sync_error s0 = (fl, s1) \<Longrightarrow> fl = Leave (Return (-1)) \<and> aborted s s1"
proof -
  assume e: "sync_error s0 = (fl, s1)"
  have h: "held s0 = held s" using assms(1) by (rule held_config)
  have p: "spawn_pid (spawn s0) = spawn_pid (spawn s)" using assms(1) by (simp add: sync_config_def)
  from e have fl: "fl = Leave (Return (-1))"
    and s1: "s1 = on_world (sys_kill (spawn_pid (spawn s0)) SIGKILL (Ok ())) (sync_close_all s0)"
    by (simp_all add: sync_error_def)
  have c1: "sync_config s1 = sync_config s0"
    unfolding s1 by (simp add: sync_config_def on_world_def close_all_frame sync_close_all_def Let_def)
  have r1: "sync_result s1 = sync_result s0"
    unfolding s1 by (simp add: sync_result_def on_world_def close_all_frame)
  have o1: "open_fds (wld s1) = open_fds (wld s0) - held s0"
    unfolding s1 by (simp add: on_world_def close_all_open sys_kill_def emit_def)
  have t1: "last (trace (wld s1)) = EvKill (spawn_pid (spawn s0)) SIGKILL"
    unfolding s1 by (simp add: on_world_def sys_kill_def emit_def)
  show ?thesis using fl c1 r1 o1 t1 h p assms by (simp add: aborted_def)
qed

lemma error_post:
  assumes "sync_config s0 = sync_config s" "sync_result s0 = sync_result s" "open_fds (wld s0) = open_fds (wld s)"
  shows "sync_error s0 = (fl, s1) \<Longrightarrow> sync_post M rnd fl s s1"
proof -
  assume "sync_error s0 = (fl, s1)"
  from sync_error_aborted[OF assms this] show ?thesis by (simp add: sync_post_def)
qed

lemma world_open:
  "open_fds (sys_write d off len r w) = open_fds w"
  "open_fds (sys_read d off len r w) = open_fds w"
  "open_fds (sys_wait rw w) = open_fds w"
  "open_fds (sys_select n rd wr sec usec rs w) = open_fds w"
  "open_fds (uv_err_new e w) = open_fds w"
  "open_fds (uv_err_new_artificial c w) = open_fds w"
  "open_fds (uv_update_time t w) = open_fds w"
  "open_fds (sys_kill p sg rk w) = open_fds w"
  by (simp_all add: prim_defs split: sysret.splits)

lemma world_last_err:
  "last_err (sys_write d off len r w) = last_err w"
  "last_err (sys_read d off len r w) = last_err w"
  "last_err (sys_wait rw w) = last_err w"
  "last_err (sys_select n rd wr sec usec rs w) = last_err w"
  "last_err (uv_update_time t w) = last_err w"
  "last_err (sys_kill p sg rk w) = last_err w"
  by (simp_all add: prim_defs split: sysret.splits)

lemma error_post_fs:
  assumes "sync_config s0 = sync_config s" "sync_result s0 = sync_result s" "open_fds (wld s0) = open_fds (wld s)"
  shows "sync_post M rnd (fst (sync_error s0)) s (snd (sync_error s0))"
  using error_post[OF assms, of "fst (sync_error s0)" "snd (sync_error s0)"] by simp

lemma post_fs: "sync_post M rnd (fst (f s)) s (snd (f s)) \<Longrightarrow> f s = (fl, s1) \<Longrightarrow> sync_post M rnd fl s s1"
  by simp

lemma unchanged_world:
  assumes "open_fds (f (wld s)) = open_fds (wld s)" "last_err (f (wld s)) = last_err (wld s)"
  shows "unchanged s (on_world f s)"
  using assms by (simp add: unchanged_def sync_config_def sync_result_def on_world_def)

lemma feed_skip: "\<not> feed_due s \<Longrightarrow> sync_feed_stdin rnd s = (Next, s)"
  unfolding sync_feed_stdin_def feed_due_def by (rule if_not_P)

lemma feed_fail: "feed_due s \<Longrightarrow> r_write rnd = Fail e \<Longrightarrow> e \<noteq> EINTR \<Longrightarrow>
    sync_feed_stdin rnd s = sync_error (on_world (\<lambda>w. uv_err_new (errno_var w) w) (feed_write rnd s))"
  by (simp add: sync_feed_stdin_def feed_due_def feed_write_def Let_def capped_def on_world_def sys_write_def emit_def)

lemma feed_eintr: "feed_due s \<Longrightarrow> r_write rnd = Fail EINTR \<Longrightarrow>
    sync_feed_stdin rnd s = (Next, (feed_write rnd s)\<lparr>spawn := (spawn s)\<lparr>stdin_written := stdin_written (spawn s) - 1\<rparr>\<rparr>)"
  by (simp add: sync_feed_stdin_def feed_due_def feed_write_def Let_def capped_def on_world_def sys_write_def emit_def)

lemma feed_ok: "feed_due s \<Longrightarrow> r_write rnd = Ok n \<Longrightarrow>
    sync_feed_stdin rnd s = (Next, (feed_write rnd s)\<lparr>spawn := (spawn s)\<lparr>stdin_written := stdin_written (spawn s) + int (min n (nat (stdin_size (spawn s) - stdin_written (spawn s))))\<rparr>\<rparr>)"
  by (simp add: sync_feed_stdin_def feed_due_def feed_write_def Let_def capped_def on_world_def sys_write_def emit_def)

lemma feed_write_frame:
  "sync_config (feed_write rnd s) = sync_config s" "sync_result (feed_write rnd s) = sync_result s"
  "open_fds (wld (feed_write rnd s)) = open_fds (wld s)" "last_err (wld (feed_write rnd s)) = last_err (wld s)"
  by (simp_all add: feed_write_def config_on_world, simp_all add: on_world_def world_open world_last_err)

lemma feed_post: "sync_feed_stdin rnd s = (fl, s1) \<Longrightarrow> sync_post M rnd fl s s1"
proof (rule post_fs, cases "feed_due s")
  case False
  then show "sync_post M rnd (fst (sync_feed_stdin rnd s)) s (snd (sync_feed_stdin rnd s))"
    by (simp add: feed_skip sync_post_def unchanged_refl)
next
  case True
  show "sync_post M rnd (fst (sync_feed_stdin rnd s)) s (snd (sync_feed_stdin rnd s))"
  proof (cases "r_write rnd")
    case (Ok n)
    show ?thesis
      by (simp add: feed_ok[OF True Ok] sync_post_def unchanged_def sync_config_def sync_result_def
          feed_write_def on_world_def world_open world_last_err)
  next
    case (Fail e)
    show ?thesis
    proof (cases "e = EINTR")
      case True
      with Fail have "r_write rnd = Fail EINTR" by simp
      from feed_eintr[OF \<open>feed_due s\<close> this] show ?thesis
        by (simp add: sync_post_def unchanged_def sync_config_def sync_result_def
          feed_write_def on_world_def world_open world_last_err)
    next
      case False
      show ?thesis
        unfolding feed_fail[OF \<open>feed_due s\<close> Fail False]
        by (rule error_post_fs) (simp_all add: config_on_world feed_write_frame, simp add: on_world_def uv_err_new_def feed_write_frame[unfolded on_world_def])
    qed
  qed
qed

lemma config_sets:
  "sync_config (s\<lparr>read_fds := R, write_fds := W\<rparr>) = sync_config s"
  "sync_result (s\<lparr>read_fds := R, write_fds := W\<rparr>) = sync_result s"
  "held (s\<lparr>read_fds := R, write_fds := W\<rparr>) = held s"
  by (simp_all add: sync_config_def sync_result_def held_def)

lemma out_skip: "\<not> out_due s \<Longrightarrow> sync_capture_stdout rnd s = (Next, s)"
  unfolding sync_capture_stdout_def out_due_def by (rule if_not_P)

lemma out_overflow: "out_due s \<Longrightarrow> out_full s \<Longrightarrow>
    sync_capture_stdout rnd s = sync_error (on_world (uv_err_new_artificial UV_ENOBUFS) s)"
  by (simp add: sync_capture_stdout_def out_due_def out_full_def)

lemma out_fail: "out_due s \<Longrightarrow> \<not> out_full s \<Longrightarrow> r_read_stdout rnd = Fail e \<Longrightarrow>
    sync_capture_stdout rnd s = sync_error (on_world (\<lambda>w. uv_err_new (errno_var w) w) (out_read rnd s))"
  by (simp add: sync_capture_stdout_def out_due_def out_full_def out_read_def Let_def capped_def)

lemma out_ok: "out_due s \<Longrightarrow> \<not> out_full s \<Longrightarrow> r_read_stdout rnd = Ok n \<Longrightarrow>
    sync_capture_stdout rnd s = (Next, (out_read rnd s)\<lparr>spawn := (spawn s)\<lparr>stdout_read :=
       stdout_read (spawn s) + int (min n (nat (stdout_size (spawn s) - stdout_read (spawn s))))\<rparr>\<rparr>)"
  by (simp add: sync_capture_stdout_def out_due_def out_full_def out_read_def Let_def capped_def)

lemma out_read_frame:
  "sync_config (out_read rnd s) = sync_config s" "sync_result (out_read rnd s) = sync_result s"
  "open_fds (wld (out_read rnd s)) = open_fds (wld s)" "last_err (wld (out_read rnd s)) = last_err (wld s)"
  by (simp_all add: out_read_def config_on_world, simp_all add: on_world_def world_open world_last_err)

lemma out_post: "sync_capture_stdout rnd s = (fl, s1) \<Longrightarrow> sync_post M rnd fl s s1"
proof (rule post_fs, cases "out_due s")
  case False
  then show "sync_post M rnd (fst (sync_capture_stdout rnd s)) s (snd (sync_capture_stdout rnd s))"
    by (simp add: out_skip sync_post_def unchanged_refl)
next
  case True
  show "sync_post M rnd (fst (sync_capture_stdout rnd s)) s (snd (sync_capture_stdout rnd s))"
  proof (cases "out_full s")
    case True
    show ?thesis
      unfolding out_overflow[OF \<open>out_due s\<close> True]
      by (rule error_post_fs) (simp_all add: config_on_world, simp add: on_world_def world_open)
  next
    case False
    show ?thesis
    proof (cases "r_read_stdout rnd")
      case (Ok n)
      show ?thesis
        by (simp add: out_ok[OF True False Ok] sync_post_def unchanged_def sync_config_def sync_result_def
            out_read_def on_world_def world_open world_last_err)
    next
      case (Fail e)
      show ?thesis
        unfolding out_fail[OF True False Fail]
        by (rule error_post_fs) (simp_all add: config_on_world out_read_frame, simp add: on_world_def uv_err_new_def out_read_frame[unfolded on_world_def])
    qed
  qed
qed

lemma err_skip: "\<not> err_due s \<Longrightarrow> sync_capture_stderr rnd s = (Next, s)"
  unfolding sync_capture_stderr_def err_due_def by (rule if_not_P)

lemma err_overflow: "err_due s \<Longrightarrow> err_full s \<Longrightarrow>
    sync_capture_stderr rnd s = sync_error (on_world (uv_err_new_artificial UV_ENOBUFS) s)"
  by (simp add: sync_capture_stderr_def err_due_def err_full_def)

lemma err_fail: "err_due s \<Longrightarrow> \<not> err_full s \<Longrightarrow> r_read_stderr rnd = Fail e \<Longrightarrow>
    sync_capture_stderr rnd s = sync_error (on_world (\<lambda>w. uv_err_new (errno_var w) w) (err_read rnd s))"
  by (simp add: sync_capture_stderr_def err_due_def err_full_def err_read_def Let_def capped_def)

lemma err_ok: "err_due s \<Longrightarrow> \<not> err_full s \<Longrightarrow> r_read_stderr rnd = Ok n \<Longrightarrow>
    sync_capture_stderr rnd s = (Next, (err_read rnd s)\<lparr>spawn := (spawn s)\<lparr>stderr_read :=
       stderr_read (spawn s) + int (min n (nat (stderr_size (spawn s) - stderr_read (spawn s))))\<rparr>\<rparr>)"
  by (simp add: sync_capture_stderr_def err_due_def err_full_def err_read_def Let_def capped_def)

lemma err_read_frame:
  "sync_config (err_read rnd s) = sync_config s" "sync_result (err_read rnd s) = sync_result s"
  "open_fds (wld (err_read rnd s)) = open_fds (wld s)" "last_err (wld (err_read rnd s)) = last_err (wld s)"
  by (simp_all add: err_read_def config_on_world, simp_all add: on_world_def world_open world_last_err)

lemma err_post: "sync_capture_stderr rnd s = (fl, s1) \<Longrightarrow> sync_post M rnd fl s s1"
proof (rule post_fs, cases "err_due s")
  case False
  then show "sync_post M rnd (fst (sync_capture_stderr rnd s)) s (snd (sync_capture_stderr rnd s))"
    by (simp add: err_skip sync_post_def unchanged_refl)
next
  case True
  show "sync_post M rnd (fst (sync_capture_stderr rnd s)) s (snd (sync_capture_stderr rnd s))"
  proof (cases "err_full s")
    case True
    show ?thesis
      unfolding err_overflow[OF \<open>err_due s\<close> True]
      by (rule error_post_fs) (simp_all add: config_on_world, simp add: on_world_def world_open)
  next
    case False
    show ?thesis
    proof (cases "r_read_stderr rnd")
      case (Ok n)
      show ?thesis
        by (simp add: err_ok[OF True False Ok] sync_post_def unchanged_def sync_config_def sync_result_def
            err_read_def on_world_def world_open world_last_err)
    next
      case (Fail e)
      show ?thesis
        unfolding err_fail[OF True False Fail]
        by (rule error_post_fs) (simp_all add: config_on_world err_read_frame, simp add: on_world_def uv_err_new_def err_read_frame[unfolded on_world_def])
    qed
  qed
qed

lemma reap_skip: "fst (sigchld_pipe s) \<notin> read_fds s \<Longrightarrow> sync_reap M rnd s = (Next, s)"
  unfolding sync_reap_def by (rule if_not_P)

lemma reap_fail: "fst (sigchld_pipe s) \<in> read_fds s \<Longrightarrow> r_wait rnd = Fail e \<Longrightarrow>
    sync_reap M rnd s = sync_error (on_world (\<lambda>w. uv_err_new (errno_var w) w) (reap_wait rnd s))"
  by (simp add: sync_reap_def reap_wait_def Let_def)

lemma reap_ok: "fst (sigchld_pipe s) \<in> read_fds s \<Longrightarrow> r_wait rnd = Ok ps \<Longrightarrow>
    sync_reap M rnd s = (Leave (Return 0), (sync_close_all (reap_wait rnd s))\<lparr>spawn := decode M (snd ps) (spawn s)\<rparr>)"
  by (simp add: sync_reap_def reap_wait_def Let_def decode_def)

lemma reap_wait_frame:
  "sync_config (reap_wait rnd s) = sync_config s" "sync_result (reap_wait rnd s) = sync_result s"
  "open_fds (wld (reap_wait rnd s)) = open_fds (wld s)" "last_err (wld (reap_wait rnd s)) = last_err (wld s)"
  "held (reap_wait rnd s) = held s" "spawn (reap_wait rnd s) = spawn s"
  by (simp_all add: reap_wait_def config_on_world, simp_all add: on_world_def world_open world_last_err)

lemma decode_fields:
  "exit_code (decode M st sp) = (if WIFEXITED M st then WEXITSTATUS M st else exit_code sp)"
  "exit_signal (decode M st sp) = (if WIFSIGNALED M st then WTERMSIG M st else exit_signal sp)"
  "exit_timeout (decode M st sp) = exit_timeout sp"
  "stdin_buf (decode M st sp) = stdin_buf sp" "stdout_buf (decode M st sp) = stdout_buf sp"
  "stderr_buf (decode M st sp) = stderr_buf sp" "spawn_pid (decode M st sp) = spawn_pid sp"
  "stdin_size (decode M st sp) = stdin_size sp" "stdout_size (decode M st sp) = stdout_size sp"
  "stderr_size (decode M st sp) = stderr_size sp" "timeout (decode M st sp) = timeout sp"
  "combine (decode M st sp) = combine sp"
  "stdin_written (decode M st sp) = stdin_written sp" "stdout_read (decode M st sp) = stdout_read sp"
  "stderr_read (decode M st sp) = stderr_read sp"
  by (simp_all add: decode_def)

lemma reap_post: "sync_reap M rnd s = (fl, s1) \<Longrightarrow> sync_post M rnd fl s s1"
proof (rule post_fs, cases "fst (sigchld_pipe s) \<in> read_fds s")
  case False
  then show "sync_post M rnd (fst (sync_reap M rnd s)) s (snd (sync_reap M rnd s))"
    by (simp add: reap_skip sync_post_def unchanged_refl)
next
  case True
  show "sync_post M rnd (fst (sync_reap M rnd s)) s (snd (sync_reap M rnd s))"
  proof (cases "r_wait rnd")
    case (Fail e)
    show ?thesis
      unfolding reap_fail[OF True Fail]
      by (rule error_post_fs) (simp_all add: config_on_world reap_wait_frame, simp add: on_world_def uv_err_new_def reap_wait_frame[unfolded on_world_def])
  next
    case (Ok ps)
    obtain p st where ps: "ps = (p, st)" by (cases ps)
    have "reaped M rnd s ((sync_close_all (reap_wait rnd s))\<lparr>spawn := decode M st (spawn s)\<rparr>)"
      unfolding reaped_def
      apply (rule exI[of _ p], rule exI[of _ st])
      apply (simp add: Ok ps decode_fields close_all_open close_all_frame reap_wait_frame)
      apply (simp add: sync_config_def close_all_frame reap_wait_def decode_fields sync_close_all_def Let_def on_world_def)
      done
    then show ?thesis
      by (simp add: reap_ok[OF True Ok] ps sync_post_def)
  qed
qed

lemma update_post: "sync_update_time rnd s = (fl, s1) \<Longrightarrow> sync_post M rnd fl s s1"
  by (auto simp add: sync_update_time_def sync_post_def unchanged_def sync_config_def sync_result_def on_world_def world_open world_last_err)

lemma build_post: "sync_build_sets s = (fl, s1) \<Longrightarrow> sync_post M rnd fl s s1"
  by (auto simp add: sync_build_sets_def sync_post_def unchanged_def sync_config_def sync_result_def)

lemma sel_eintr: "r_select rnd = Fail EINTR \<Longrightarrow> sync_select rnd s = (Again, sel_call rnd s)"
  by (simp add: sync_select_def sel_call_def time_to_timeout_def Let_def select_answer_def on_world_def sys_select_def emit_def)

lemma sel_fail: "r_select rnd = Fail e \<Longrightarrow> e \<noteq> EINTR \<Longrightarrow>
    sync_select rnd s = sync_error (on_world (\<lambda>w. uv_err_new (errno_var w) w) (sel_call rnd s))"
  by (simp add: sync_select_def sel_call_def time_to_timeout_def Let_def select_answer_def on_world_def sys_select_def emit_def)

lemma sel_timeout: "r_select rnd = Ok p \<Longrightarrow> fst p \<inter> read_fds s = {} \<Longrightarrow> snd p \<inter> write_fds s = {} \<Longrightarrow>
    sync_select rnd s = (Leave (Return 0),
      (on_world (sys_kill (spawn_pid (spawn s)) SIGKILL (Ok ()))
         (sync_close_all ((sel_call rnd s)\<lparr>read_fds := {}, write_fds := {}\<rparr>)))\<lparr>spawn := (spawn s)\<lparr>exit_timeout := 1\<rparr>\<rparr>)"
  by (simp add: sync_select_def sel_call_def time_to_timeout_def Let_def select_answer_def)

lemma sel_ready: "r_select rnd = Ok p \<Longrightarrow> \<not> (fst p \<inter> read_fds s = {} \<and> snd p \<inter> write_fds s = {}) \<Longrightarrow>
    sync_select rnd s = (Next, (sel_call rnd s)\<lparr>read_fds := fst p \<inter> read_fds s, write_fds := snd p \<inter> write_fds s\<rparr>)"
  by (simp add: sync_select_def sel_call_def time_to_timeout_def Let_def select_answer_def)

lemma sel_call_frame:
  "sync_config (sel_call rnd s) = sync_config s" "sync_result (sel_call rnd s) = sync_result s"
  "open_fds (wld (sel_call rnd s)) = open_fds (wld s)" "last_err (wld (sel_call rnd s)) = last_err (wld s)"
  "held (sel_call rnd s) = held s" "spawn (sel_call rnd s) = spawn s"
  by (simp_all add: sel_call_def config_on_world, simp_all add: on_world_def world_open world_last_err)

lemma sel_timed_out: "timed_out s ((on_world (sys_kill (spawn_pid (spawn s)) SIGKILL (Ok ()))
         (sync_close_all ((sel_call rnd s)\<lparr>read_fds := {}, write_fds := {}\<rparr>)))\<lparr>spawn := (spawn s)\<lparr>exit_timeout := 1\<rparr>\<rparr>)"
  unfolding timed_out_def
  apply (simp add: on_world_def close_all_open close_all_frame config_sets sel_call_frame world_open world_last_err)
  apply (simp add: sync_config_def close_all_frame sel_call_def sync_close_all_def Let_def on_world_def sys_kill_def emit_def)
  done

lemma select_post: "sync_select rnd s = (fl, s1) \<Longrightarrow> sync_post M rnd fl s s1"
proof (rule post_fs, cases "r_select rnd")
  case (Fail e)
  show "sync_post M rnd (fst (sync_select rnd s)) s (snd (sync_select rnd s))"
  proof (cases "e = EINTR")
    case True
    with Fail have "r_select rnd = Fail EINTR" by simp
    from sel_eintr[OF this] show ?thesis
      by (simp add: sync_post_def unchanged_def sel_call_frame)
  next
    case False
    show ?thesis
      unfolding sel_fail[OF Fail False]
      by (rule error_post_fs) (simp_all add: config_on_world sel_call_frame, simp add: on_world_def uv_err_new_def sel_call_frame[unfolded on_world_def])
  qed
next
  case (Ok p)
  show "sync_post M rnd (fst (sync_select rnd s)) s (snd (sync_select rnd s))"
  proof (cases "fst p \<inter> read_fds s = {} \<and> snd p \<inter> write_fds s = {}")
    case True
    then have "sync_select rnd s = (Leave (Return 0),
      (on_world (sys_kill (spawn_pid (spawn s)) SIGKILL (Ok ()))
         (sync_close_all ((sel_call rnd s)\<lparr>read_fds := {}, write_fds := {}\<rparr>)))\<lparr>spawn := (spawn s)\<lparr>exit_timeout := 1\<rparr>\<rparr>)"
      using sel_timeout[OF Ok] by simp
    then show ?thesis using sel_timed_out[of s rnd] by (simp add: sync_post_def)
  next
    case False
    from sel_ready[OF Ok False] show ?thesis
      by (simp add: sync_post_def unchanged_def config_sets sel_call_frame)
  qed
qed

lemma transfer_post: "sync_transfer M rnd s = (fl, s1) \<Longrightarrow> sync_post M rnd fl s s1"
  unfolding sync_transfer_def
  apply (erule andthen_spec[where R="sync_post M rnd", rotated 3])
    apply (erule feed_post)
   apply (erule andthen_spec[where R="sync_post M rnd", rotated 3])
     apply (erule out_post)
    apply (erule andthen_spec[where R="sync_post M rnd", rotated 3])
      apply (erule err_post)
     apply (erule andthen_spec[where R="sync_post M rnd", rotated 3])
       apply (erule reap_post)
      apply (erule update_post)
     apply (erule (1) sync_post_comp)
    apply (erule (1) sync_post_comp)
   apply (erule (1) sync_post_comp)
  apply (erule (1) sync_post_comp)
  done

lemma iter_post: "sync_iter M rnd s = (fl, s1) \<Longrightarrow> sync_post M rnd fl s s1"
  unfolding sync_iter_def
  apply (erule andthen_spec[where R="sync_post M rnd", rotated 3])
    apply (erule build_post)
   apply (erule andthen_spec[where R="sync_post M rnd", rotated 3])
     apply (erule select_post)
    apply (erule transfer_post)
   apply (erule (1) sync_post_comp)
  apply (erule (1) sync_post_comp)
  done

lemmas sync_defs = uv_spawn_sync_def sync_setup_def sync_pipes_def sync_frame0_def sync_init_def
  sync_pipe_stdin_def sync_pipe_stdout_def sync_pipe_stderr_def sync_pipe_sigchld_def sync_pipe_def
  sync_fork_def sync_child_def sync_parent_ends_def MAX_of_def sync_sigaction_def sync_iter_def sync_transfer_def
  sync_build_sets_def sync_read_set_def sync_write_set_def sync_select_def select_answer_def
  sync_feed_stdin_def sync_capture_stdout_def sync_capture_stderr_def sync_reap_def sync_update_time_def
  sync_error_def sync_close_all_def capped_def andthen_def on_world_def Let_def

lemma unchanged_trans: "unchanged s s1 \<Longrightarrow> unchanged s1 s2 \<Longrightarrow> unchanged s s2"
  by (simp add: unchanged_def)

lemma unchanged_aborted: "unchanged s s1 \<Longrightarrow> aborted s1 s2 \<Longrightarrow> aborted s s2"
  using sync_post_comp[of M rnd s s1 "Leave (Return (-1))" s2] by (simp add: sync_post_def)

lemma unchanged_timed_out: "unchanged s s1 \<Longrightarrow> timed_out s1 s2 \<Longrightarrow> timed_out s s2"
proof -
  assume u: "unchanged s s1" and t: "timed_out s1 s2"
  from u have c: "sync_config s1 = sync_config s" and r: "sync_result s1 = sync_result s"
    and o: "open_fds (wld s1) = open_fds (wld s)" and l: "last_err (wld s1) = last_err (wld s)"
    by (simp_all add: unchanged_def)
  from c have h: "held s1 = held s" by (rule held_config)
  from c have p: "spawn_pid (spawn s1) = spawn_pid (spawn s)" by (simp add: sync_config_def)
  from r have r3: "exit_code (spawn s1) = exit_code (spawn s)" "exit_signal (spawn s1) = exit_signal (spawn s)"
    "exit_timeout (spawn s1) = exit_timeout (spawn s)" by (simp_all add: sync_result_def)
  from t show ?thesis by (simp only: timed_out_def h c r3 o l p)
qed

lemma unchanged_reaped: "unchanged s s1 \<Longrightarrow> reaped M rnd s1 s2 \<Longrightarrow> reaped M rnd s s2"
proof -
  assume u: "unchanged s s1" and t: "reaped M rnd s1 s2"
  from u have c: "sync_config s1 = sync_config s" and r: "sync_result s1 = sync_result s"
    and o: "open_fds (wld s1) = open_fds (wld s)" and l: "last_err (wld s1) = last_err (wld s)"
    by (simp_all add: unchanged_def)
  from c have h: "held s1 = held s" by (rule held_config)
  from c have p: "spawn_pid (spawn s1) = spawn_pid (spawn s)" by (simp add: sync_config_def)
  from r have r3: "exit_code (spawn s1) = exit_code (spawn s)" "exit_signal (spawn s1) = exit_signal (spawn s)"
    "exit_timeout (spawn s1) = exit_timeout (spawn s)" by (simp_all add: sync_result_def)
  from t show ?thesis by (simp only: reaped_def h c r3 o l p)
qed

lemma loop_post_step: "unchanged s s1 \<Longrightarrow> loop_post M rnds res s1 s2 \<Longrightarrow> loop_post M (rnd # rnds) res s s2"
  unfolding loop_post_def
  using unchanged_trans[of s s1 s2] unchanged_aborted[of s s1 s2] unchanged_timed_out[of s s1 s2]
    unchanged_reaped[of s s1 M _ s2]
  by auto

lemma sync_loop_post: "sync_loop M rnds s = (res, s1) \<Longrightarrow> loop_post M rnds res s s1"
proof (induction rnds arbitrary: s)
  case Nil
  then show ?case by (auto simp: loop_post_def unchanged_refl)
next
  case (Cons rnd rnds)
  obtain fl s' where it: "sync_iter M rnd s = (fl, s')" by (cases "sync_iter M rnd s")
  from iter_post[OF it] have post: "sync_post M rnd fl s s'" .
  show ?case
  proof (cases fl)
    case Next
    with Cons.prems it have "sync_loop M rnds s' = (res, s1)" by simp
    from Cons.IH[OF this] post Next show ?thesis by (simp add: sync_post_def loop_post_step)
  next
    case Again
    with Cons.prems it have "sync_loop M rnds s' = (res, s1)" by simp
    from Cons.IH[OF this] post Again show ?thesis by (simp add: sync_post_def loop_post_step)
  next
    case (Leave r)
    with Cons.prems it have "res = r" "s1 = s'" by simp_all
    with post Leave show ?thesis by (auto simp: sync_post_def loop_post_def)
  qed
qed

lemma setup_post_comp: "setup_post Next s s1 \<Longrightarrow> setup_post fl s1 s2 \<Longrightarrow> setup_post fl s s2"
  by (simp add: setup_post_def)

lemma sync_pipe_result: "sync_pipe buf r (\<lambda>p s. s\<lparr>stdin_pipe := p\<rparr>) s = (fl, s1) \<Longrightarrow> setup_post fl s s1"
  "sync_pipe buf r (\<lambda>p s. s\<lparr>stdout_pipe := p\<rparr>) s = (fl, s1) \<Longrightarrow> setup_post fl s s1"
  "sync_pipe buf r (\<lambda>p s. s\<lparr>stderr_pipe := p\<rparr>) s = (fl, s1) \<Longrightarrow> setup_post fl s s1"
  "sync_pipe buf r (\<lambda>p s. s\<lparr>sigchld_pipe := p\<rparr>) s = (fl, s1) \<Longrightarrow> setup_post fl s s1"
  by (auto simp: sync_pipe_def setup_post_def sync_result_def on_world_def split: if_splits sysret.splits)

lemma sync_child_result: "sync_child os s = (fl, s1) \<Longrightarrow> setup_post fl s s1"
  by (auto simp: sync_child_def setup_post_def sync_result_def on_world_def Let_def split: if_splits sysret.splits)

lemma sync_fork_result: "sync_fork os s = (fl, s1) \<Longrightarrow> setup_post fl s s1"
  unfolding sync_fork_def Let_def
  by (auto simp: setup_post_def sync_result_def on_world_def split: if_splits sysret.splits dest!: sync_child_result)

lemma sync_parent_ends_result: "sync_parent_ends s = (fl, s1) \<Longrightarrow> setup_post fl s s1"
  by (auto simp: sync_parent_ends_def setup_post_def sync_result_def on_world_def Let_def)

lemma sync_sigaction_result: "sync_sigaction os s = (fl, s1) \<Longrightarrow> setup_post fl s s1"
  unfolding sync_sigaction_def Let_def
  by (auto simp: sync_error_def setup_post_def sync_result_def on_world_def close_all_frame split: sysret.splits)

lemma sync_setup_result: "sync_setup os s = (fl, s1) \<Longrightarrow> setup_post fl s s1"
  unfolding sync_setup_def sync_pipes_def sync_pipe_stdin_def sync_pipe_stdout_def sync_pipe_stderr_def sync_pipe_sigchld_def
  apply (erule andthen_spec[where R="setup_post", rotated 3])
    apply (erule andthen_spec[where R="setup_post", rotated 3])
      apply (erule sync_pipe_result)
     apply (erule andthen_spec[where R="setup_post", rotated 3])
       apply (erule sync_pipe_result)
      apply (erule andthen_spec[where R="setup_post", rotated 3])
        apply (erule sync_pipe_result)
       apply (erule sync_pipe_result)
      apply (erule (1) setup_post_comp)
     apply (erule (1) setup_post_comp)
    apply (erule (1) setup_post_comp)
   apply (erule andthen_spec[where R="setup_post", rotated 3])
     apply (erule sync_fork_result)
    apply (erule andthen_spec[where R="setup_post", rotated 3])
      apply (erule sync_parent_ends_result)
     apply (erule sync_sigaction_result)
    apply (erule (1) setup_post_comp)
   apply (erule (1) setup_post_comp)
  apply (erule (1) setup_post_comp)
  done

lemma frame0_result: "sync_result (sync_frame0 w sp) = (-1, -1, 0)"
  by (simp add: sync_result_def sync_frame0_def sync_init_def)

lemma chld_decode:
  "uv__chld M True w proc = (res, w1, proc1) \<Longrightarrow> exit_cb proc = Some cb \<Longrightarrow>
     since w w1 = [EvChildStop (rpid (child_watcher proc)),
       EvExitCb cb (if WIFEXITED M (rstatus (child_watcher proc)) then WEXITSTATUS M (rstatus (child_watcher proc)) else 0)
                   (if WIFSIGNALED M (rstatus (child_watcher proc)) then WTERMSIG M (rstatus (child_watcher proc)) else 0)]"
  by (auto simp add: uv__chld_def Let_def emit_def since_def)

lemma sync_decode:
  assumes run: "uv_spawn_sync M os w sp = (Return r, w2, sp2)"
  shows "(r = 0 \<and> exit_timeout sp2 = 0 \<longrightarrow>
           (\<exists>rnd\<in>set (so_rounds os). \<exists>p st. r_wait rnd = Ok (p, st) \<and>
              exit_code sp2 = (if WIFEXITED M st then WEXITSTATUS M st else -1) \<and>
              exit_signal sp2 = (if WIFSIGNALED M st then WTERMSIG M st else -1))) \<and>
         (r \<noteq> 0 \<or> exit_timeout sp2 \<noteq> 0 \<longrightarrow> exit_code sp2 = -1 \<and> exit_signal sp2 = -1)"
proof -
  obtain fl s where pre: "sync_setup os (sync_frame0 w sp) = (fl, s)"
    by (cases "sync_setup os (sync_frame0 w sp)")
  from sync_setup_result[OF pre] have res0: "sync_result s = (-1, -1, 0)"
    and fl: "fl = Next \<or> fl = Leave (Return (-1)) \<or> fl = Leave Execd \<or> fl = Leave (Exited 127) \<or> fl = Leave AssertFail"
    by (simp_all add: frame0_result setup_post_def)
  show ?thesis
  proof (cases "\<exists>x. fl = Leave x")
    case True
    then obtain x where "fl = Leave x" by auto
    with run pre have "x = Return r" "sp2 = spawn s" by (simp_all add: uv_spawn_sync_def)
    with res0 fl \<open>fl = Leave x\<close> show ?thesis by (auto simp add: sync_result_def)
  next
    case False
    obtain res s1 where loop: "sync_loop M (so_rounds os) s = (res, s1)"
      by (cases "sync_loop M (so_rounds os) s")
    from False run pre loop have eq: "res = Return r" "sp2 = spawn s1"
      by (cases fl; simp add: uv_spawn_sync_def)+
    from res0 have f0: "exit_code (spawn s) = -1" "exit_signal (spawn s) = -1" "exit_timeout (spawn s) = 0"
      by (simp_all add: sync_result_def)
    from sync_loop_post[OF loop] eq
    consider (ab) "r = -1" "aborted s s1" | (to) "r = 0" "timed_out s s1"
      | (rp) rnd where "r = 0" "rnd \<in> set (so_rounds os)" "reaped M rnd s s1"
      by (auto simp: loop_post_def)
    then show ?thesis
    proof cases
      case ab
      then show ?thesis using f0 eq by (simp add: aborted_def sync_result_def)
    next
      case to
      then show ?thesis using f0 eq by (simp add: timed_out_def)
    next
      case rp
      from rp(3) obtain p st where w: "r_wait rnd = Ok (p, st)"
        and c: "exit_code (spawn s1) = (if WIFEXITED M st then WEXITSTATUS M st else exit_code (spawn s))"
        and g: "exit_signal (spawn s1) = (if WIFSIGNALED M st then WTERMSIG M st else exit_signal (spawn s))"
        and t: "exit_timeout (spawn s1) = exit_timeout (spawn s)"
        unfolding reaped_def by blast
      have "\<exists>rnd\<in>set (so_rounds os). \<exists>p st. r_wait rnd = Ok (p, st) \<and>
              exit_code sp2 = (if WIFEXITED M st then WEXITSTATUS M st else -1) \<and>
              exit_signal sp2 = (if WIFSIGNALED M st then WTERMSIG M st else -1)"
        apply (rule bexI[OF _ rp(2)])
        apply (rule exI[of _ p], rule exI[of _ st])
        using w c g f0 eq apply simp
        done
      moreover have "r = 0 \<and> exit_timeout sp2 = 0" using rp(1) t f0 eq by simp
      ultimately show ?thesis by simp
    qed
  qed
qed

lemmas spawn_defs = uv_spawn_def spawn_body_def spawn_pipes_def spawn_after_pipes_def spawn_frame0_def
  spawn_stdin_def spawn_stdout_def spawn_stderr_def spawn_stdio_def spawn_signal_pipe_def spawn_error_def
  spawn_fork_def spawn_child_def spawn_exec_def child_stdio_def spawn_wait_exec_def spawn_register_def
  spawn_attach_def spawn_attach_stdin_def spawn_attach_stdout_def spawn_attach_stderr_def closes_def
  andthen_def on_world_def Let_def

lemmas hello_defs = os_hello_def world0_def req_out_def rnd_read5_def rnd_exit0_def linux_wait_def
  SIGKILL_def SIGCHLD_def

lemma hello_outcome: "uv_spawn_sync linux_wait os_hello world0 req_out =
    (Return 0,
     \<lparr> open_fds = {0, 1, 2}, errno_var = E0, environ = [], last_err = UV_OK, loop_time = 10,
       process_init = 0,
       trace = [EvPipe (Ok (3, 4)), EvPipe (Ok (5, 6)), EvFork (Ok 100), EvClose 4, EvSigaction 17,
                EvSelect 6 {5, 3} {} 1 0 (Ok ({3}, {})), EvRead 3 0 16 (Ok 5),
                EvSelect 6 {5, 3} {} 0 990 (Ok ({5, 3}, {})), EvRead 3 5 11 (Ok 0),
                EvWait (Ok (100, 0)), EvClose 5, EvClose 6, EvClose 3] \<rparr>,
     req_out\<lparr>spawn_pid := 100, exit_code := 0, exit_signal := -1, exit_timeout := 0,
             stdout_read := 5, stderr_read := 0\<rparr>)"
  by (simp add: sync_defs eval_defs hello_defs insert_Diff_if)

text \<open>
  Claim C1, as amended. The termination reporter of the async engine calls the exit
  callback with the exit status only if \<^verbatim>\<open>WIFEXITED\<close> holds of the raw status and with
  the terminating signal only if \<^verbatim>\<open>WIFSIGNALED\<close> holds, and with 0 in the other case.
  When \<^verbatim>\<open>uv_spawn_sync\<close> returns 0 without the timeout flag, its result record is
  filled the same way from the status that \<^verbatim>\<open>wait\<close> returned in one of the passes, but
  a field whose condition fails keeps -1, the value stored at entry; on every other
  return both fields are -1.
\<close>

theorem C1_wait_status_decode:
  "(uv__chld M True w proc = (res, w1, proc1) \<longrightarrow> exit_cb proc = Some cb \<longrightarrow>
      since w w1 =
        [EvChildStop (rpid (child_watcher proc)),
         EvExitCb cb
           (if WIFEXITED M (rstatus (child_watcher proc)) then WEXITSTATUS M (rstatus (child_watcher proc)) else 0)
           (if WIFSIGNALED M (rstatus (child_watcher proc)) then WTERMSIG M (rstatus (child_watcher proc)) else 0)]) \<and>
   (uv_spawn_sync M os w sp = (Return r, w2, sp2) \<longrightarrow>
      (r = 0 \<and> exit_timeout sp2 = 0 \<longrightarrow>
         (\<exists>rnd\<in>set (so_rounds os). \<exists>p st. r_wait rnd = Ok (p, st) \<and>
            exit_code sp2 = (if WIFEXITED M st then WEXITSTATUS M st else -1) \<and>
            exit_signal sp2 = (if WIFSIGNALED M st then WTERMSIG M st else -1))) \<and>
      (r \<noteq> 0 \<or> exit_timeout sp2 \<noteq> 0 \<longrightarrow> exit_code sp2 = -1 \<and> exit_signal sp2 = -1))"
  using chld_decode[of M w proc res w1 proc1 cb] sync_decode[of M os w sp r w2 sp2] by blast

text \<open>
  The theorem at a child that exited with status 3 (async) and at a child that wrote five
  bytes and exited with status 0 (sync).
\<close>

theorem C1_wait_status_decode_witness:
  "since world0 (fst (snd (uv__chld linux_wait True world0 proc_exited3))) = [EvChildStop 100, EvExitCb 7 3 0] \<and>
   fst (uv_spawn_sync linux_wait os_hello world0 req_out) = Return 0 \<and>
   exit_timeout (snd (snd (uv_spawn_sync linux_wait os_hello world0 req_out))) = 0 \<and>
   (\<exists>rnd\<in>set (so_rounds os_hello). \<exists>p st. r_wait rnd = Ok (p, st) \<and>
      exit_code (snd (snd (uv_spawn_sync linux_wait os_hello world0 req_out))) =
        (if WIFEXITED linux_wait st then WEXITSTATUS linux_wait st else -1) \<and>
      exit_signal (snd (snd (uv_spawn_sync linux_wait os_hello world0 req_out))) =
        (if WIFSIGNALED linux_wait st then WTERMSIG linux_wait st else -1))"
proof -
  let ?a = "uv__chld linux_wait True world0 proc_exited3"
  let ?b = "uv_spawn_sync linux_wait os_hello world0 req_out"
  have a: "?a = (fst ?a, fst (snd ?a), snd (snd ?a))" by simp
  have cb: "exit_cb proc_exited3 = Some 7" by (simp add: proc_exited3_def)
  have b1: "fst ?b = Return 0" by (simp add: hello_outcome)
  then have b: "?b = (Return 0, fst (snd ?b), snd (snd ?b))" by (metis prod.collapse)
  have t: "exit_timeout (snd (snd ?b)) = 0" by (simp add: hello_outcome)
  have st: "rstatus (child_watcher proc_exited3) = 768" "rpid (child_watcher proc_exited3) = 100"
    by (simp_all add: proc_exited3_def)
  have m: "WIFEXITED linux_wait 768" "WEXITSTATUS linux_wait 768 = 3" "\<not> WIFSIGNALED linux_wait 768"
    by (simp_all add: linux_wait_def)
  note inst = C1_wait_status_decode[of linux_wait world0 proc_exited3 "fst ?a" "fst (snd ?a)" "snd (snd ?a)" 7
      os_hello req_out 0 "fst (snd ?b)" "snd (snd ?b)"]
  from inst a cb have A: "since world0 (fst (snd ?a)) = [EvChildStop 100, EvExitCb 7 3 0]"
    by (simp only: st m if_True if_False simp_thms)
  from inst b t have B: "\<exists>rnd\<in>set (so_rounds os_hello). \<exists>p st. r_wait rnd = Ok (p, st) \<and>
      exit_code (snd (snd ?b)) = (if WIFEXITED linux_wait st then WEXITSTATUS linux_wait st else -1) \<and>
      exit_signal (snd (snd ?b)) = (if WIFSIGNALED linux_wait st then WTERMSIG linux_wait st else -1)"
    by (simp only: simp_thms)
  from A b1 t B show ?thesis by (simp only: simp_thms)
qed

text \<open>
  The claim as stated fails for the sync engine: after a normal exit with status 0 the
  termination signal of the result record is -1, not 0.
\<close>

theorem C1_sync_default_counterexample:
  "fst (uv_spawn_sync linux_wait os_hello world0 req_out) = Return 0 \<and>
   EvWait (Ok (100, 0)) \<in> set (trace (fst (snd (uv_spawn_sync linux_wait os_hello world0 req_out)))) \<and>
   WIFEXITED linux_wait 0 \<and> \<not> WIFSIGNALED linux_wait 0 \<and>
   exit_code (snd (snd (uv_spawn_sync linux_wait os_hello world0 req_out))) = 0 \<and>
   exit_signal (snd (snd (uv_spawn_sync linux_wait os_hello world0 req_out))) = -1"
proof -
  have m: "WIFEXITED linux_wait 0" "\<not> WIFSIGNALED linux_wait 0" by (simp_all add: linux_wait_def)
  show ?thesis by (simp add: hello_outcome m)
qed

lemma tcp_spawn: "uv_spawn os_spawn_plain opts_tcp_stdin world0 proc0 =
   (Return (-1),
    \<lparr> open_fds = {0, 1, 2}, errno_var = EBADF, environ = [], last_err = UV_SYS EINVAL, loop_time = 0,
      process_init = 1,
      trace = [EvHandleInit UV_PROCESS, EvClose (-1), EvClose (-1), EvClose (-1), EvClose (-1),
               EvClose (-1), EvClose (-1)] \<rparr>,
    proc0)"
  by (simp add: spawn_defs eval_defs os_spawn_plain_def opts_tcp_stdin_def world0_def proc0_def insert_Diff_if)

text \<open>
  Claim C9, as amended. \<^verbatim>\<open>uv_process_kill\<close> issues exactly one \<^verbatim>\<open>kill\<close> on the pid
  stored in the handle, whatever that pid is, and does nothing else: the handle and the
  open descriptors are unchanged. It returns -1 with the \<^verbatim>\<open>errno\<close> of \<^verbatim>\<open>kill\<close> as the
  loop's last error exactly when \<^verbatim>\<open>kill\<close> fails, and 0 with the last error untouched
  when \<^verbatim>\<open>kill\<close> succeeds. Whether a pid without a live process is rejected is the
  kernel's answer, not a check of the function.
\<close>

theorem C9_kill_result:
  "uv_process_kill r signum w proc = (res, w1, proc1) \<Longrightarrow>
     proc1 = proc \<and> since w w1 = [EvKill (pid proc) signum] \<and> open_fds w1 = open_fds w \<and>
     (case r of Fail e \<Rightarrow> res = Return (-1) \<and> last_err w1 = UV_SYS e
              | Ok u \<Rightarrow> res = Return 0 \<and> last_err w1 = last_err w)"
  by (cases r) (auto simp: uv_process_kill_def Let_def sys_kill_def emit_def uv_err_new_def since_def)

text \<open>The theorem at a handle whose child (pid 100) is gone: \<^verbatim>\<open>kill\<close> fails with \<^verbatim>\<open>ESRCH\<close>.\<close>

theorem C9_kill_result_witness:
  "snd (snd (uv_process_kill (Fail ESRCH) SIGTERM world0 proc_exited3)) = proc_exited3 \<and>
   since world0 (fst (snd (uv_process_kill (Fail ESRCH) SIGTERM world0 proc_exited3))) = [EvKill 100 SIGTERM] \<and>
   open_fds (fst (snd (uv_process_kill (Fail ESRCH) SIGTERM world0 proc_exited3))) = open_fds world0 \<and>
   fst (uv_process_kill (Fail ESRCH) SIGTERM world0 proc_exited3) = Return (-1) \<and>
   last_err (fst (snd (uv_process_kill (Fail ESRCH) SIGTERM world0 proc_exited3))) = UV_SYS ESRCH"
proof -
  let ?k = "uv_process_kill (Fail ESRCH) SIGTERM world0 proc_exited3"
  have k: "?k = (fst ?k, fst (snd ?k), snd (snd ?k))" by simp
  have p: "pid proc_exited3 = 100" by (simp add: proc_exited3_def)
  from C9_kill_result[OF k] show ?thesis by (simp add: p)
qed

text \<open>
  The claim as stated fails: a handle whose spawn was rejected (no \<^verbatim>\<open>fork\<close> was issued,
  the pid field still holds the 0 it held before) has no live process identifier, and
  \<^verbatim>\<open>uv_process_kill\<close> on it returns 0 as soon as the kernel accepts \<^verbatim>\<open>kill(0, sig)\<close>,
  which addresses the caller's process group.
\<close>

theorem C9_no_live_pid_counterexample:
  "fst (uv_spawn os_spawn_plain opts_tcp_stdin world0 proc0) = Return (-1) \<and>
   trace (fst (snd (uv_spawn os_spawn_plain opts_tcp_stdin world0 proc0))) =
     [EvHandleInit UV_PROCESS, EvClose (-1), EvClose (-1), EvClose (-1), EvClose (-1), EvClose (-1), EvClose (-1)] \<and>
   pid (snd (snd (uv_spawn os_spawn_plain opts_tcp_stdin world0 proc0))) = 0 \<and>
   fst (uv_process_kill (Ok ()) SIGTERM
          (fst (snd (uv_spawn os_spawn_plain opts_tcp_stdin world0 proc0)))
          (snd (snd (uv_spawn os_spawn_plain opts_tcp_stdin world0 proc0)))) = Return 0"
proof -
  have p: "pid proc0 = 0" by (simp add: proc0_def)
  show ?thesis by (simp add: tcp_spawn uv_process_kill_def Let_def p)
qed

lemma sys_pipe_facts:
  "open_fds (sys_pipe (Ok p) w) = open_fds w \<union> {int (fst p), int (snd p)}"
  "open_fds (sys_pipe (Fail e) w) = open_fds w"
  "errno_var (sys_pipe (Fail e) w) = e"
  "last_err (sys_pipe r w) = last_err w"
  by (auto simp: sys_pipe_def emit_def as_fds_def split: sysret.splits)

lemma closes_open: "open_fds (closes ds w) = open_fds w - set ds"
  unfolding closes_def
  by (induction ds arbitrary: w) (auto simp: uv__close_def sys_close_facts)

lemma closes_last_err: "last_err (closes ds w) = last_err w"
  unfolding closes_def
  by (induction ds arbitrary: w) (auto simp: uv__close_def sys_close_facts)

lemma closes_appends: "(\<And>d. good (EvClose d)) \<Longrightarrow> appends good w (closes ds w)"
  unfolding closes_def
proof (induction ds arbitrary: w)
  case Nil
  show ?case by (simp add: appends_refl)
next
  case (Cons d ds)
  have "appends good w (uv__close d w)"
    by (simp add: appends_def uv__close_def sys_close_facts Cons.prems)
  from appends_trans[OF this Cons.IH[OF Cons.prems]] show ?case by simp
qed

lemma spawn_error_facts:
  "fst (spawn_error s) = Leave (Return (-1))"
  "open_fds (wld (snd (spawn_error s))) \<subseteq> open_fds (wld s) - slots s"
  "last_err (wld (snd (spawn_error s))) = UV_SYS (errno_var (wld s))"
  "process (snd (spawn_error s)) = process s"
  "signal_pipe (snd (spawn_error s)) = signal_pipe s"
  by (auto simp: spawn_error_def on_world_def closes_open closes_last_err uv_err_new_def slots_def)

lemma spawn_error_appends: "(\<And>d. good (EvClose d)) \<Longrightarrow> appends good (wld s) (wld (snd (spawn_error s)))"
proof -
  assume g: "\<And>d. good (EvClose d)"
  have "appends good (uv_err_new (errno_var (wld s)) (wld s)) (wld (snd (spawn_error s)))"
    unfolding spawn_error_def by (simp add: on_world_def closes_appends[of good, OF g])
  moreover have "appends good (wld s) (uv_err_new (errno_var (wld s)) (wld s))"
    by (simp add: appends_def uv_err_new_def)
  ultimately show ?thesis by (rule appends_trans[rotated])
qed

text \<open>branches of a stdio block\<close>

lemma stdio_none: "spawn_stdio None r store s = (Next, s)"
  by (simp add: spawn_stdio_def)

lemma stdio_bad: "non_pipe strm \<Longrightarrow>
    spawn_stdio strm r store s = spawn_error (on_world (\<lambda>w. w\<lparr>errno_var := EINVAL\<rparr>) s)"
  by (cases strm) (simp_all add: spawn_stdio_def non_pipe_def)

lemma stdio_fail: "strm \<noteq> None \<Longrightarrow> \<not> non_pipe strm \<Longrightarrow>
    spawn_stdio strm (Fail e) store s = spawn_error (on_world (sys_pipe (Fail e)) s)"
  by (cases strm) (simp_all add: spawn_stdio_def non_pipe_def)

lemma stdio_ok: "strm \<noteq> None \<Longrightarrow> \<not> non_pipe strm \<Longrightarrow>
    spawn_stdio strm (Ok p) store s =
      (Next, on_world (uv__cloexec (snd (as_fds p))) (on_world (uv__cloexec (fst (as_fds p)))
               (store (as_fds p) (on_world (sys_pipe (Ok p)) s))))"
  by (cases strm) (simp_all add: spawn_stdio_def non_pipe_def)

lemma stdio_flow: "spawn_stdio strm r store s = (fl, s1) \<Longrightarrow>
    fl = Leave (Return (-1)) \<or> (fl = Next \<and> \<not> non_pipe strm)"
  by (cases strm; cases r)
     (auto simp: spawn_stdio_def non_pipe_def spawn_error_def split: if_splits)

lemma slots_on_world: "slots (on_world f s) = slots s"
  by (simp add: slots_def on_world_def)

lemma spawn_on_world:
  "wld (on_world f s) = f (wld s)"
  "process (on_world f s) = process s"
  "signal_pipe (on_world f s) = signal_pipe s"
  "child (on_world f s) = child s"
  "save_our_env (on_world f s) = save_our_env s"
  "stdin_pipe (on_world f s) = stdin_pipe s"
  "stdout_pipe (on_world f s) = stdout_pipe s"
  "stderr_pipe (on_world f s) = stderr_pipe s"
  by (simp_all add: on_world_def)

lemma spawn_error_inv:
  assumes "pipes_inv O0 pr s0"
  shows "fst (spawn_error s0) = Leave (Return (-1)) \<and> open_fds (wld (snd (spawn_error s0))) \<subseteq> O0 \<and>
         process (snd (spawn_error s0)) = pr"
proof -
  have a: "open_fds (wld (snd (spawn_error s0))) \<subseteq> open_fds (wld s0) - slots s0"
    by (rule spawn_error_facts(2))
  have b: "open_fds (wld s0) \<subseteq> O0 \<union> slots s0" and c: "process s0 = pr"
    using assms by (simp_all add: pipes_inv_def)
  from a b have "open_fds (wld (snd (spawn_error s0))) \<subseteq> O0" by blast
  then show ?thesis using c by (simp add: spawn_error_facts(1,4))
qed

lemma stdio_step:
  assumes inv: "pipes_inv O0 pr s"
      and st: "\<And>p f. slots (store (as_fds p) (on_world f s)) = slots s \<union> {int (fst p), int (snd p)}"
              "\<And>p f. wld (store p (on_world f s)) = f (wld s)"
              "\<And>p f. process (store p (on_world f s)) = process s"
              "\<And>p f. signal_pipe (store p (on_world f s)) = signal_pipe s"
  shows "(fst (spawn_stdio strm r store s) = Next \<and> pipes_inv O0 pr (snd (spawn_stdio strm r store s))) \<or>
         (fst (spawn_stdio strm r store s) = Leave (Return (-1)) \<and>
          open_fds (wld (snd (spawn_stdio strm r store s))) \<subseteq> O0 \<and>
          process (snd (spawn_stdio strm r store s)) = pr)"
proof (cases "strm = None")
  case True
  then show ?thesis using inv by (simp add: stdio_none)
next
  case False
  show ?thesis
  proof (cases "non_pipe strm")
    case True
    have "pipes_inv O0 pr (on_world (\<lambda>w. w\<lparr>errno_var := EINVAL\<rparr>) s)"
      using inv by (simp add: pipes_inv_def slots_on_world, simp add: on_world_def)
    from spawn_error_inv[OF this] show ?thesis unfolding stdio_bad[OF True] by simp
  next
    case np: False
    show ?thesis
    proof (cases r)
      case (Fail e)
      have "pipes_inv O0 pr (on_world (sys_pipe (Fail e)) s)"
        using inv by (simp add: pipes_inv_def slots_on_world, simp add: on_world_def sys_pipe_facts)
      from spawn_error_inv[OF this] show ?thesis unfolding Fail stdio_fail[OF False np] by simp
    next
      case (Ok p)
      have "pipes_inv O0 pr (on_world (uv__cloexec (snd (as_fds p))) (on_world (uv__cloexec (fst (as_fds p)))
               (store (as_fds p) (on_world (sys_pipe (Ok p)) s))))"
        using inv
        by (auto simp add: pipes_inv_def slots_on_world st spawn_on_world uv__cloexec_def emit_def sys_pipe_facts)
      then show ?thesis unfolding Ok stdio_ok[OF False np] by simp
    qed
  qed
qed

lemma stdin_keeps:
  "stdout_pipe (snd (spawn_stdin os options s)) = stdout_pipe s"
  "stderr_pipe (snd (spawn_stdin os options s)) = stderr_pipe s"
  by (auto simp: spawn_stdin_def spawn_stdio_def spawn_error_def spawn_on_world split: option.splits sysret.splits)

lemma stdout_keeps:
  "stderr_pipe (snd (spawn_stdout os options s)) = stderr_pipe s"
  by (auto simp: spawn_stdout_def spawn_stdio_def spawn_error_def spawn_on_world split: option.splits sysret.splits)

lemma stdin_step:
  assumes "pipes_inv O0 pr s" "stdin_pipe s = (-1, -1)"
  shows "(fst (spawn_stdin os options s) = Next \<and> pipes_inv O0 pr (snd (spawn_stdin os options s))) \<or>
         (fst (spawn_stdin os options s) = Leave (Return (-1)) \<and>
          open_fds (wld (snd (spawn_stdin os options s))) \<subseteq> O0 \<and>
          process (snd (spawn_stdin os options s)) = pr)"
  unfolding spawn_stdin_def
  by (rule stdio_step[OF assms(1)]) (auto simp: slots_def on_world_def as_fds_def assms(2))

lemma stdout_step:
  assumes "pipes_inv O0 pr s" "stdout_pipe s = (-1, -1)"
  shows "(fst (spawn_stdout os options s) = Next \<and> pipes_inv O0 pr (snd (spawn_stdout os options s))) \<or>
         (fst (spawn_stdout os options s) = Leave (Return (-1)) \<and>
          open_fds (wld (snd (spawn_stdout os options s))) \<subseteq> O0 \<and>
          process (snd (spawn_stdout os options s)) = pr)"
  unfolding spawn_stdout_def
  by (rule stdio_step[OF assms(1)]) (auto simp: slots_def on_world_def as_fds_def assms(2))

lemma stderr_step:
  assumes "pipes_inv O0 pr s" "stderr_pipe s = (-1, -1)"
  shows "(fst (spawn_stderr os options s) = Next \<and> pipes_inv O0 pr (snd (spawn_stderr os options s))) \<or>
         (fst (spawn_stderr os options s) = Leave (Return (-1)) \<and>
          open_fds (wld (snd (spawn_stderr os options s))) \<subseteq> O0 \<and>
          process (snd (spawn_stderr os options s)) = pr)"
  unfolding spawn_stderr_def
  by (rule stdio_step[OF assms(1)]) (auto simp: slots_def on_world_def as_fds_def assms(2))

lemma signal_step:
  assumes "pipes_inv O0 pr s"
  shows "(fst (spawn_signal_pipe os s) = Next \<and> piped O0 pr os (snd (spawn_signal_pipe os s))) \<or>
         (fst (spawn_signal_pipe os s) = Leave (Return (-1)) \<and>
          open_fds (wld (snd (spawn_signal_pipe os s))) \<subseteq> O0 \<and>
          process (snd (spawn_signal_pipe os s)) = pr)"
proof (cases "os_pipe_signal os")
  case (Fail e)
  have "pipes_inv O0 pr (on_world (sys_pipe (Fail e)) s)"
    using assms by (simp add: pipes_inv_def slots_on_world spawn_on_world sys_pipe_facts)
  from spawn_error_inv[OF this] show ?thesis by (simp add: spawn_signal_pipe_def Fail)
next
  case (Ok sg)
  then show ?thesis using assms
    by (auto simp: spawn_signal_pipe_def piped_def pipes_inv_def slots_def on_world_def uv__cloexec_def
        uv__nonblock_def emit_def sys_pipe_facts as_fds_def)
qed

lemma andthen_fs:
  "fst (f s) = Next \<Longrightarrow> andthen f g s = g (snd (f s))"
  "fst (f s) = Leave r \<Longrightarrow> andthen f g s = (Leave r, snd (f s))"
  by (cases "f s"; simp add: andthen_def)+

lemma spawn_pipes_result:
  assumes inv: "pipes_inv O0 pr s"
      and unset: "stdin_pipe s = (-1, -1)" "stdout_pipe s = (-1, -1)" "stderr_pipe s = (-1, -1)"
  shows "(fst (spawn_pipes os options s) = Next \<and> piped O0 pr os (snd (spawn_pipes os options s))) \<or>
         (fst (spawn_pipes os options s) = Leave (Return (-1)) \<and>
          open_fds (wld (snd (spawn_pipes os options s))) \<subseteq> O0 \<and>
          process (snd (spawn_pipes os options s)) = pr)"
proof -
  let ?s1 = "snd (spawn_stdin os options s)"
  let ?s2 = "snd (spawn_stdout os options ?s1)"
  let ?s3 = "snd (spawn_stderr os options ?s2)"
  from stdin_step[OF inv unset(1)] show ?thesis
  proof
    assume "fst (spawn_stdin os options s) = Leave (Return (-1)) \<and>
          open_fds (wld ?s1) \<subseteq> O0 \<and> process ?s1 = pr"
    then show ?thesis by (simp add: spawn_pipes_def andthen_fs)
  next
    assume a1: "fst (spawn_stdin os options s) = Next \<and> pipes_inv O0 pr ?s1"
    have u1: "stdout_pipe ?s1 = (-1, -1)" "stderr_pipe ?s1 = (-1, -1)" by (simp_all add: stdin_keeps unset)
    from a1 have e1: "spawn_pipes os options s =
        andthen (spawn_stdout os options) (andthen (spawn_stderr os options) (spawn_signal_pipe os)) ?s1"
      by (simp add: spawn_pipes_def andthen_fs)
    from a1 have i1: "pipes_inv O0 pr ?s1" by simp
    from stdout_step[OF i1 u1(1)] show ?thesis
    proof
      assume "fst (spawn_stdout os options ?s1) = Leave (Return (-1)) \<and>
          open_fds (wld ?s2) \<subseteq> O0 \<and> process ?s2 = pr"
      then show ?thesis by (simp add: e1 andthen_fs)
    next
      assume a2: "fst (spawn_stdout os options ?s1) = Next \<and> pipes_inv O0 pr ?s2"
      have u2: "stderr_pipe ?s2 = (-1, -1)" by (simp add: stdout_keeps u1)
      from a2 have e2: "spawn_pipes os options s =
          andthen (spawn_stderr os options) (spawn_signal_pipe os) ?s2"
        by (simp add: e1 andthen_fs)
      from a2 have i2: "pipes_inv O0 pr ?s2" by simp
      from stderr_step[OF i2 u2] show ?thesis
      proof
        assume "fst (spawn_stderr os options ?s2) = Leave (Return (-1)) \<and>
            open_fds (wld ?s3) \<subseteq> O0 \<and> process ?s3 = pr"
        then show ?thesis by (simp add: e2 andthen_fs)
      next
        assume a3: "fst (spawn_stderr os options ?s2) = Next \<and> pipes_inv O0 pr ?s3"
        then have e3: "spawn_pipes os options s = spawn_signal_pipe os ?s3"
          by (simp add: e2 andthen_fs)
        from a3 have i3: "pipes_inv O0 pr ?s3" by simp
        from signal_step[OF i3] show ?thesis by (simp add: e3)
      qed
    qed
  qed
qed

lemma appends_on_world:
  "appends good (wld s) (f (wld s)) \<Longrightarrow> appends good (wld s) (wld (on_world f s))"
  by (simp add: on_world_def)

lemma stdio_appends:
  assumes g: "\<And>r. good (EvPipe r)" "\<And>d. good (EvCloexec d)" "\<And>d. good (EvClose d)"
      and st: "\<And>p x. wld (store p x) = wld x"
  shows "appends good (wld s) (wld (snd (spawn_stdio strm r store s)))"
proof (cases "strm = None")
  case True
  then show ?thesis by (simp add: stdio_none appends_refl)
next
  case False
  show ?thesis
  proof (cases "non_pipe strm")
    case True
    have "appends good (wld s) (wld (on_world (\<lambda>w. w\<lparr>errno_var := EINVAL\<rparr>) s))"
      by (simp add: spawn_on_world appends_def)
    from appends_trans[OF this spawn_error_appends[of good, OF g(3)]]
    show ?thesis unfolding stdio_bad[OF True] .
  next
    case np: False
    show ?thesis
    proof (cases r)
      case (Fail e)
      have "appends good (wld s) (wld (on_world (sys_pipe (Fail e)) s))"
        by (simp add: spawn_on_world appends_def sys_pipe_def emit_def g)
      from appends_trans[OF this spawn_error_appends[of good, OF g(3)]]
      show ?thesis unfolding Fail stdio_fail[OF False np] .
    next
      case (Ok p)
      show ?thesis unfolding Ok stdio_ok[OF False np]
        by (simp add: spawn_on_world st appends_def sys_pipe_def uv__cloexec_def emit_def g)
    qed
  qed
qed

lemma signal_appends:
  assumes g: "\<And>r. good (EvPipe r)" "\<And>d. good (EvCloexec d)" "\<And>d. good (EvClose d)" "\<And>d. good (EvNonblock d)"
  shows "appends good (wld s) (wld (snd (spawn_signal_pipe os s)))"
proof (cases "os_pipe_signal os")
  case (Fail e)
  have "appends good (wld s) (wld (on_world (sys_pipe (Fail e)) s))"
    by (simp add: spawn_on_world appends_def sys_pipe_def emit_def g)
  from appends_trans[OF this spawn_error_appends[of good, OF g(3)]]
  show ?thesis by (simp add: spawn_signal_pipe_def Fail)
next
  case (Ok p)
  show ?thesis
    by (simp add: spawn_signal_pipe_def Ok on_world_def appends_def sys_pipe_def uv__cloexec_def
        uv__nonblock_def emit_def g)
qed

lemma andthen_appends:
  assumes "\<And>s. appends good (wld s) (wld (snd (f s)))" "\<And>s. appends good (wld s) (wld (snd (g s)))"
  shows "appends good (wld s) (wld (snd (andthen f g s)))"
proof (cases "f s")
  case (Pair fl s1)
  have a: "appends good (wld s) (wld s1)" using assms(1)[of s] Pair by simp
  show ?thesis
  proof (cases fl)
    case Next
    then have "andthen f g s = g s1" using Pair by (simp add: andthen_def)
    with appends_trans[OF a assms(2)[of s1]] show ?thesis by simp
  next
    case Again
    then show ?thesis using Pair a by (simp add: andthen_def)
  next
    case (Leave r)
    then show ?thesis using Pair a by (simp add: andthen_def)
  qed
qed

lemma pipes_appends:
  assumes g: "\<And>r. good (EvPipe r)" "\<And>d. good (EvCloexec d)" "\<And>d. good (EvClose d)" "\<And>d. good (EvNonblock d)"
  shows "appends good (wld s) (wld (snd (spawn_pipes os options s)))"
  unfolding spawn_pipes_def spawn_stdin_def spawn_stdout_def spawn_stderr_def
  apply (rule andthen_appends)
   apply (rule stdio_appends[of good]; simp add: g)
  apply (rule andthen_appends)
   apply (rule stdio_appends[of good]; simp add: g)
  apply (rule andthen_appends)
   apply (rule stdio_appends[of good]; simp add: g)
  apply (rule signal_appends[of good]; simp add: g)
  done

lemma stdio_fst:
  "non_pipe strm \<Longrightarrow> fst (spawn_stdio strm r store s) = Leave (Return (-1))"
  "fst (spawn_stdio strm r store s) = Leave (Return (-1)) \<or> fst (spawn_stdio strm r store s) = Next"
  "\<not> non_pipe strm \<Longrightarrow> \<forall>e. r \<noteq> Fail e \<Longrightarrow> fst (spawn_stdio strm r store s) = Next"
  by (cases strm; cases r; simp add: spawn_stdio_def non_pipe_def spawn_error_def)+

lemma signal_fst:
  "fst (spawn_signal_pipe os s) = Leave (Return (-1)) \<or> fst (spawn_signal_pipe os s) = Next"
  by (cases "os_pipe_signal os"; simp add: spawn_signal_pipe_def spawn_error_def)

lemma stdio_bad_err:
  "non_pipe strm \<Longrightarrow> last_err (wld (snd (spawn_stdio strm r store s))) = UV_SYS EINVAL"
  by (simp add: stdio_bad spawn_error_facts spawn_on_world)

lemma stdio_bad_trace:
  "non_pipe strm \<Longrightarrow> (\<And>d. good (EvClose d)) \<Longrightarrow> appends good (wld s) (wld (snd (spawn_stdio strm r store s)))"
proof -
  assume np: "non_pipe strm" and g: "\<And>d. good (EvClose d)"
  have "appends good (wld s) (wld (on_world (\<lambda>w. w\<lparr>errno_var := EINVAL\<rparr>) s))"
    by (simp add: spawn_on_world appends_def)
  from appends_trans[OF this spawn_error_appends[of good, OF g]]
  show ?thesis unfolding stdio_bad[OF np] .
qed

lemma pipes_bad_flow:
  assumes "non_pipe (stdin_stream options) \<or> non_pipe (stdout_stream options) \<or> non_pipe (stderr_stream options)"
  shows "fst (spawn_pipes os options s) = Leave (Return (-1))"
proof -
  let ?f1 = "spawn_stdio (stdin_stream options) (os_pipe_stdin os) (\<lambda>p s. s\<lparr>stdin_pipe := p\<rparr>)"
  let ?f2 = "spawn_stdio (stdout_stream options) (os_pipe_stdout os) (\<lambda>p s. s\<lparr>stdout_pipe := p\<rparr>)"
  let ?f3 = "spawn_stdio (stderr_stream options) (os_pipe_stderr os) (\<lambda>p s. s\<lparr>stderr_pipe := p\<rparr>)"
  have e: "spawn_pipes os options = andthen ?f1 (andthen ?f2 (andthen ?f3 (spawn_signal_pipe os)))"
    by (simp add: spawn_pipes_def spawn_stdin_def spawn_stdout_def spawn_stderr_def)
  show ?thesis
  proof (cases "fst (?f1 s) = Next")
    case False
    with stdio_fst(2)[of "stdin_stream options" "os_pipe_stdin os" _ s]
    have "fst (?f1 s) = Leave (Return (-1))" by blast
    then show ?thesis by (simp add: e andthen_fs)
  next
    case n1: True
    then have b1: "\<not> non_pipe (stdin_stream options)" using stdio_fst(1)[of "stdin_stream options"] by fastforce
    let ?s1 = "snd (?f1 s)"
    show ?thesis
    proof (cases "fst (?f2 ?s1) = Next")
      case False
      with stdio_fst(2)[of "stdout_stream options" "os_pipe_stdout os" _ ?s1]
      have "fst (?f2 ?s1) = Leave (Return (-1))" by blast
      then show ?thesis using n1 by (simp add: e andthen_fs)
    next
      case n2: True
      then have b2: "\<not> non_pipe (stdout_stream options)" using stdio_fst(1)[of "stdout_stream options"] by fastforce
      let ?s2 = "snd (?f2 ?s1)"
      from assms b1 b2 have "non_pipe (stderr_stream options)" by simp
      from stdio_fst(1)[OF this] show ?thesis using n1 n2 by (simp add: e andthen_fs)
    qed
  qed
qed

lemma pipes_bad_einval:
  assumes bad: "non_pipe (stdin_stream options) \<or> non_pipe (stdout_stream options) \<or> non_pipe (stderr_stream options)"
      and ok: "\<forall>e. os_pipe_stdin os \<noteq> Fail e" "\<forall>e. os_pipe_stdout os \<noteq> Fail e"
  shows "last_err (wld (snd (spawn_pipes os options s))) = UV_SYS EINVAL"
proof -
  let ?f1 = "spawn_stdio (stdin_stream options) (os_pipe_stdin os) (\<lambda>p s. s\<lparr>stdin_pipe := p\<rparr>)"
  let ?f2 = "spawn_stdio (stdout_stream options) (os_pipe_stdout os) (\<lambda>p s. s\<lparr>stdout_pipe := p\<rparr>)"
  let ?f3 = "spawn_stdio (stderr_stream options) (os_pipe_stderr os) (\<lambda>p s. s\<lparr>stderr_pipe := p\<rparr>)"
  have e: "spawn_pipes os options = andthen ?f1 (andthen ?f2 (andthen ?f3 (spawn_signal_pipe os)))"
    by (simp add: spawn_pipes_def spawn_stdin_def spawn_stdout_def spawn_stderr_def)
  show ?thesis
  proof (cases "non_pipe (stdin_stream options)")
    case True
    from stdio_fst(1)[OF True] stdio_bad_err[OF True] show ?thesis by (simp add: e andthen_fs)
  next
    case b1: False
    from stdio_fst(3)[OF b1 ok(1)] have n1: "fst (?f1 s) = Next" .
    let ?s1 = "snd (?f1 s)"
    show ?thesis
    proof (cases "non_pipe (stdout_stream options)")
      case True
      from stdio_fst(1)[OF True] stdio_bad_err[OF True] n1 show ?thesis by (simp add: e andthen_fs)
    next
      case b2: False
      from stdio_fst(3)[OF b2 ok(2)] have n2: "fst (?f2 ?s1) = Next" .
      from bad b1 b2 have b3: "non_pipe (stderr_stream options)" by simp
      from stdio_fst(1)[OF b3] stdio_bad_err[OF b3] n1 n2 show ?thesis by (simp add: e andthen_fs)
    qed
  qed
qed

lemma pipes_first_bad_trace:
  assumes first: "first_is_non_pipe options" and g: "\<And>d. good (EvClose d)"
  shows "appends good (wld s) (wld (snd (spawn_pipes os options s)))"
proof -
  let ?f1 = "spawn_stdio (stdin_stream options) (os_pipe_stdin os) (\<lambda>p s. s\<lparr>stdin_pipe := p\<rparr>)"
  let ?f2 = "spawn_stdio (stdout_stream options) (os_pipe_stdout os) (\<lambda>p s. s\<lparr>stdout_pipe := p\<rparr>)"
  let ?f3 = "spawn_stdio (stderr_stream options) (os_pipe_stderr os) (\<lambda>p s. s\<lparr>stderr_pipe := p\<rparr>)"
  have e: "spawn_pipes os options = andthen ?f1 (andthen ?f2 (andthen ?f3 (spawn_signal_pipe os)))"
    by (simp add: spawn_pipes_def spawn_stdin_def spawn_stdout_def spawn_stderr_def)
  from first[unfolded first_is_non_pipe_def] consider (a) "non_pipe (stdin_stream options)"
    | (b) "stdin_stream options = None" "non_pipe (stdout_stream options)"
    | (c) "stdin_stream options = None" "stdout_stream options = None" "non_pipe (stderr_stream options)"
    by auto
  then show ?thesis
  proof cases
    case a
    from stdio_fst(1)[OF a] stdio_bad_trace[of _ good, OF a g] show ?thesis by (simp add: e andthen_fs)
  next
    case b
    from stdio_fst(1)[OF b(2)] stdio_bad_trace[of _ good, OF b(2) g] show ?thesis
      by (simp add: e b(1) stdio_none andthen_fs)
  next
    case c
    from stdio_fst(1)[OF c(3)] stdio_bad_trace[of _ good, OF c(3) g] show ?thesis
      by (simp add: e c(1,2) stdio_none andthen_fs)
  qed
qed

lemma frame0_facts:
  "open_fds (wld (spawn_frame0 options w proc)) = open_fds w"
  "last_err (wld (spawn_frame0 options w proc)) = last_err w"
  "trace (wld (spawn_frame0 options w proc)) = trace w @ [EvHandleInit UV_PROCESS]"
  "stdin_pipe (spawn_frame0 options w proc) = (-1, -1)"
  "stdout_pipe (spawn_frame0 options w proc) = (-1, -1)"
  "stderr_pipe (spawn_frame0 options w proc) = (-1, -1)"
  "pid (process (spawn_frame0 options w proc)) = pid proc"
  "pipes_inv (open_fds w) (proc\<lparr>exit_cb := opt_exit_cb options\<rparr>) (spawn_frame0 options w proc)"
  by (simp_all add: spawn_frame0_def uv__handle_init_def emit_def pipes_inv_def slots_def)

lemma frame0_appends: "good (EvHandleInit UV_PROCESS) \<Longrightarrow> appends good w (wld (spawn_frame0 options w proc))"
  by (simp add: appends_def frame0_facts)

lemma uv_spawn_pipes_leave:
  assumes "fst (spawn_pipes os options (spawn_frame0 options w proc)) = Leave r"
  shows "uv_spawn os options w proc =
           (r, wld (snd (spawn_pipes os options (spawn_frame0 options w proc))),
               process (snd (spawn_pipes os options (spawn_frame0 options w proc))))"
  using assms by (simp add: uv_spawn_def spawn_body_def andthen_fs)

text \<open>
  Claim C5, as amended. When some stdio binding of an async spawn request targets a
  stream that is not of the pipe kind, \<^verbatim>\<open>uv_spawn\<close> returns -1, never calls \<^verbatim>\<open>fork\<close>,
  leaves the pid of the handle as it was, and every descriptor that is open afterwards
  was open before the call (the pipes opened for the bindings checked earlier are closed
  again). The bindings are checked in the order stdin, stdout, stderr, each just before
  its own \<^verbatim>\<open>pipe\<close> call: the error is \<^verbatim>\<open>EINVAL\<close> when no earlier \<^verbatim>\<open>pipe\<close> call fails, and
  no \<^verbatim>\<open>pipe\<close> call is made when the first binding supplied is the one that is not a pipe.
\<close>

theorem C5_non_pipe_binding_rejected:
  assumes bad: "non_pipe (stdin_stream options) \<or> non_pipe (stdout_stream options) \<or> non_pipe (stderr_stream options)"
      and run: "uv_spawn os options w proc = (res, w1, proc1)"
  shows "res = Return (-1) \<and> list_all (\<lambda>ev. \<not> is_fork ev) (since w w1) \<and> pid proc1 = pid proc \<and>
         open_fds w1 \<subseteq> open_fds w \<and>
         ((\<forall>e. os_pipe_stdin os \<noteq> Fail e) \<and> (\<forall>e. os_pipe_stdout os \<noteq> Fail e) \<longrightarrow> last_err w1 = UV_SYS EINVAL) \<and>
         (first_is_non_pipe options \<longrightarrow> list_all (\<lambda>ev. \<not> is_pipe ev) (since w w1))"
proof -
  let ?s0 = "spawn_frame0 options w proc"
  let ?s1 = "snd (spawn_pipes os options ?s0)"
  from pipes_bad_flow[OF bad] have fl: "fst (spawn_pipes os options ?s0) = Leave (Return (-1))" .
  from uv_spawn_pipes_leave[OF fl] run have eq: "res = Return (-1)" "w1 = wld ?s1" "proc1 = process ?s1"
    by simp_all
  have inv0: "pipes_inv (open_fds w) (proc\<lparr>exit_cb := opt_exit_cb options\<rparr>) ?s0"
    by (rule frame0_facts(8))
  have u: "stdin_pipe ?s0 = (-1, -1)" "stdout_pipe ?s0 = (-1, -1)" "stderr_pipe ?s0 = (-1, -1)"
    by (simp_all add: frame0_facts)
  from spawn_pipes_result[OF inv0 u, of os options] fl
  have o: "open_fds (wld ?s1) \<subseteq> open_fds w" and p: "process ?s1 = proc\<lparr>exit_cb := opt_exit_cb options\<rparr>"
    by simp_all
  have "appends (\<lambda>ev. \<not> is_fork ev) w (wld ?s1)"
    by (rule appends_trans[OF frame0_appends pipes_appends]) (simp_all add: is_fork_def)
  then have nf: "list_all (\<lambda>ev. \<not> is_fork ev) (since w w1)" unfolding eq by (rule appends_since)
  have np: "list_all (\<lambda>ev. \<not> is_pipe ev) (since w w1)" if "first_is_non_pipe options"
  proof -
    have "appends (\<lambda>ev. \<not> is_pipe ev) w (wld ?s1)"
      by (rule appends_trans[OF frame0_appends pipes_first_bad_trace[OF that]]) (simp_all add: is_pipe_def)
    then show ?thesis unfolding eq by (rule appends_since)
  qed
  have le: "last_err w1 = UV_SYS EINVAL" if "\<forall>e. os_pipe_stdin os \<noteq> Fail e" "\<forall>e. os_pipe_stdout os \<noteq> Fail e"
    unfolding eq using pipes_bad_einval[OF bad that] .
  from eq(1) nf o p np le show ?thesis by (simp add: eq)
qed

lemmas pipes_defs = spawn_pipes_def spawn_stdin_def spawn_stdout_def spawn_stderr_def spawn_stdio_def
  spawn_signal_pipe_def spawn_error_def spawn_frame0_def closes_def andthen_def on_world_def

lemma pipe_then_tcp_run: "uv_spawn os_spawn_plain opts_pipe_then_tcp world0 proc0 =
   (Return (-1),
    \<lparr> open_fds = {0, 1, 2}, errno_var = EBADF, environ = [], last_err = UV_SYS EINVAL, loop_time = 0,
      process_init = 1,
      trace = [EvHandleInit UV_PROCESS, EvPipe (Ok (3, 4)), EvCloexec 3, EvCloexec 4,
               EvClose 3, EvClose 4, EvClose (-1), EvClose (-1), EvClose (-1), EvClose (-1)] \<rparr>,
    proc0)"
proof -
  let ?p = "spawn_pipes os_spawn_plain opts_pipe_then_tcp (spawn_frame0 opts_pipe_then_tcp world0 proc0)"
  have fl: "fst ?p = Leave (Return (-1))"
    by (rule pipes_bad_flow) (simp add: opts_pipe_then_tcp_def non_pipe_def)
  have w: "wld (snd ?p) = \<lparr> open_fds = {0, 1, 2}, errno_var = EBADF, environ = [], last_err = UV_SYS EINVAL,
      loop_time = 0, process_init = 1,
      trace = [EvHandleInit UV_PROCESS, EvPipe (Ok (3, 4)), EvCloexec 3, EvCloexec 4,
               EvClose 3, EvClose 4, EvClose (-1), EvClose (-1), EvClose (-1), EvClose (-1)] \<rparr>"
    by (simp add: pipes_defs eval_defs os_spawn_plain_def opts_pipe_then_tcp_def world0_def insert_Diff_if)
  have p: "process (snd ?p) = proc0"
    by (simp add: pipes_defs os_spawn_plain_def opts_pipe_then_tcp_def proc0_def)
  show ?thesis unfolding uv_spawn_pipes_leave[OF fl] by (simp add: w p)
qed

lemma pipe_then_tcp_no_fds: "uv_spawn os_spawn_no_fds opts_pipe_then_tcp world0 proc0 =
   (Return (-1),
    \<lparr> open_fds = {0, 1, 2}, errno_var = EBADF, environ = [], last_err = UV_SYS EMFILE, loop_time = 0,
      process_init = 1,
      trace = [EvHandleInit UV_PROCESS, EvPipe (Fail EMFILE),
               EvClose (-1), EvClose (-1), EvClose (-1), EvClose (-1), EvClose (-1), EvClose (-1)] \<rparr>,
    proc0)"
proof -
  let ?p = "spawn_pipes os_spawn_no_fds opts_pipe_then_tcp (spawn_frame0 opts_pipe_then_tcp world0 proc0)"
  have fl: "fst ?p = Leave (Return (-1))"
    by (rule pipes_bad_flow) (simp add: opts_pipe_then_tcp_def non_pipe_def)
  have w: "wld (snd ?p) = \<lparr> open_fds = {0, 1, 2}, errno_var = EBADF, environ = [], last_err = UV_SYS EMFILE,
      loop_time = 0, process_init = 1,
      trace = [EvHandleInit UV_PROCESS, EvPipe (Fail EMFILE),
               EvClose (-1), EvClose (-1), EvClose (-1), EvClose (-1), EvClose (-1), EvClose (-1)] \<rparr>"
    by (simp add: pipes_defs eval_defs os_spawn_no_fds_def opts_pipe_then_tcp_def world0_def insert_Diff_if)
  have p: "process (snd ?p) = proc0"
    by (simp add: pipes_defs os_spawn_no_fds_def opts_pipe_then_tcp_def proc0_def)
  show ?thesis unfolding uv_spawn_pipes_leave[OF fl] by (simp add: w p)
qed

text \<open>
  The theorem at a request whose stdin is a pipe stream and whose stdout is a TCP stream
  (the stdin pipe 3, 4 is opened and closed again, the error is \<^verbatim>\<open>EINVAL\<close>), and at a
  request whose only binding, stdin, is a TCP stream (no \<^verbatim>\<open>pipe\<close> call at all).
\<close>

theorem C5_non_pipe_binding_rejected_witness:
  "fst (uv_spawn os_spawn_plain opts_pipe_then_tcp world0 proc0) = Return (-1) \<and>
   list_all (\<lambda>ev. \<not> is_fork ev) (since world0 (fst (snd (uv_spawn os_spawn_plain opts_pipe_then_tcp world0 proc0)))) \<and>
   open_fds (fst (snd (uv_spawn os_spawn_plain opts_pipe_then_tcp world0 proc0))) \<subseteq> open_fds world0 \<and>
   last_err (fst (snd (uv_spawn os_spawn_plain opts_pipe_then_tcp world0 proc0))) = UV_SYS EINVAL \<and>
   first_is_non_pipe opts_tcp_stdin \<and>
   list_all (\<lambda>ev. \<not> is_pipe ev) (since world0 (fst (snd (uv_spawn os_spawn_plain opts_tcp_stdin world0 proc0))))"
proof -
  let ?a = "uv_spawn os_spawn_plain opts_pipe_then_tcp world0 proc0"
  let ?b = "uv_spawn os_spawn_plain opts_tcp_stdin world0 proc0"
  have bad_a: "non_pipe (stdin_stream opts_pipe_then_tcp) \<or> non_pipe (stdout_stream opts_pipe_then_tcp) \<or>
      non_pipe (stderr_stream opts_pipe_then_tcp)"
    by (simp add: opts_pipe_then_tcp_def non_pipe_def)
  have bad_b: "non_pipe (stdin_stream opts_tcp_stdin) \<or> non_pipe (stdout_stream opts_tcp_stdin) \<or>
      non_pipe (stderr_stream opts_tcp_stdin)"
    by (simp add: opts_tcp_stdin_def non_pipe_def)
  have first_b: "first_is_non_pipe opts_tcp_stdin"
    by (simp add: first_is_non_pipe_def opts_tcp_stdin_def non_pipe_def)
  have ok: "\<forall>e. os_pipe_stdin os_spawn_plain \<noteq> Fail e" "\<forall>e. os_pipe_stdout os_spawn_plain \<noteq> Fail e"
    by (simp_all add: os_spawn_plain_def)
  have a: "?a = (fst ?a, fst (snd ?a), snd (snd ?a))" and b: "?b = (fst ?b, fst (snd ?b), snd (snd ?b))"
    by simp_all
  note ia = C5_non_pipe_binding_rejected[OF bad_a a]
  note ib = C5_non_pipe_binding_rejected[OF bad_b b]
  from ia have a1: "fst ?a = Return (-1)" and a2: "list_all (\<lambda>ev. \<not> is_fork ev) (since world0 (fst (snd ?a)))"
    and a3: "open_fds (fst (snd ?a)) \<subseteq> open_fds world0" by simp_all
  from ia ok have a4: "last_err (fst (snd ?a)) = UV_SYS EINVAL" by simp
  from ib first_b have b1: "list_all (\<lambda>ev. \<not> is_pipe ev) (since world0 (fst (snd ?b)))" by simp
  from a1 a2 a3 a4 first_b b1 show ?thesis by (simp only: simp_thms)
qed

text \<open>
  The claim as stated fails twice. With stdin bound to a pipe stream and stdout to a TCP
  stream, the stdin pipe is created (descriptors 3 and 4) before stdout is rejected, so
  the rejection does not come before any OS resource is allocated. And when that first
  \<^verbatim>\<open>pipe\<close> call fails, the error reported is the kernel's \<^verbatim>\<open>EMFILE\<close>, not \<^verbatim>\<open>EINVAL\<close>.
\<close>

theorem C5_pipe_before_rejection_counterexample:
  "non_pipe (stdout_stream opts_pipe_then_tcp) \<and>
   fst (uv_spawn os_spawn_plain opts_pipe_then_tcp world0 proc0) = Return (-1) \<and>
   trace (fst (snd (uv_spawn os_spawn_plain opts_pipe_then_tcp world0 proc0))) =
     [EvHandleInit UV_PROCESS, EvPipe (Ok (3, 4)), EvCloexec 3, EvCloexec 4,
      EvClose 3, EvClose 4, EvClose (-1), EvClose (-1), EvClose (-1), EvClose (-1)] \<and>
   last_err (fst (snd (uv_spawn os_spawn_no_fds opts_pipe_then_tcp world0 proc0))) = UV_SYS EMFILE"
proof -
  have "non_pipe (stdout_stream opts_pipe_then_tcp)" by (simp add: opts_pipe_then_tcp_def non_pipe_def)
  then show ?thesis by (simp add: pipe_then_tcp_run pipe_then_tcp_no_fds)
qed

lemma spawn_poll_trace:
  "spawn_poll d rs w = (res, w1) \<Longrightarrow>
     (\<exists>ints. trace w1 = trace w @ map (\<lambda>e. EvPoll d (Fail e)) ints @ (case res of None \<Rightarrow> [] | Some r \<Rightarrow> [EvPoll d r]) \<and>
        list_all retried ints) \<and>
     open_fds w1 = open_fds w \<and> last_err w1 = last_err w \<and>
     (\<forall>e. res = Some (Fail e) \<longrightarrow> \<not> retried e)"
proof (induction rs arbitrary: w)
  case Nil
  then show ?case by auto
next
  case (Cons r rs)
  let ?w1 = "sys_poll d r (w\<lparr>errno_var := E0\<rparr>)"
  have t: "trace ?w1 = trace w @ [EvPoll d r]" "open_fds ?w1 = open_fds w" "last_err ?w1 = last_err w"
    by (simp_all add: sys_poll_def emit_def split: sysret.splits)
  show ?case
  proof (cases "\<exists>e. r = Fail e \<and> retried e")
    case True
    then obtain e where r: "r = Fail e" and re: "retried e" by blast
    with Cons.prems have "spawn_poll d rs ?w1 = (res, w1)" by (simp add: retried_def Let_def)
    from Cons.IH[OF this] obtain ints where
      a: "trace w1 = trace ?w1 @ map (\<lambda>e. EvPoll d (Fail e)) ints @ (case res of None \<Rightarrow> [] | Some r \<Rightarrow> [EvPoll d r])"
      and b: "list_all retried ints" and c: "open_fds w1 = open_fds ?w1" "last_err w1 = last_err ?w1"
      and dd: "\<forall>e. res = Some (Fail e) \<longrightarrow> \<not> retried e" by blast
    have "trace w1 = trace w @ map (\<lambda>e. EvPoll d (Fail e)) (e # ints) @ (case res of None \<Rightarrow> [] | Some r \<Rightarrow> [EvPoll d r])"
      using a t r by simp
    moreover have "list_all retried (e # ints)" using b re by simp
    ultimately have "\<exists>ints. trace w1 = trace w @ map (\<lambda>e. EvPoll d (Fail e)) ints @ (case res of None \<Rightarrow> [] | Some r \<Rightarrow> [EvPoll d r]) \<and> list_all retried ints"
      by (intro exI[of _ "e # ints"] conjI)
    then show ?thesis using c t dd by simp
  next
    case False
    with Cons.prems have eq: "res = Some r" "w1 = ?w1"
      by (cases r; auto simp: retried_def Let_def)+
    have "trace w1 = trace w @ map (\<lambda>e. EvPoll d (Fail e)) [] @ (case res of None \<Rightarrow> [] | Some r \<Rightarrow> [EvPoll d r])"
      using eq t by simp
    moreover have "list_all retried []" by simp
    ultimately have "\<exists>ints. trace w1 = trace w @ map (\<lambda>e. EvPoll d (Fail e)) ints @ (case res of None \<Rightarrow> [] | Some r \<Rightarrow> [EvPoll d r]) \<and> list_all retried ints"
      by (intro exI[of _ "[]"] conjI)
    then show ?thesis using eq t False by simp
  qed
qed

lemma noreg_simps:
  "\<not> is_reg (EvClose d)" "\<not> is_reg (EvPoll d r)" "\<not> is_reg (EvFork rf)" "\<not> is_reg (EvPipe rp)"
  "\<not> is_reg (EvCloexec d)" "\<not> is_reg (EvNonblock d)" "\<not> is_reg (EvDup2 a b)" "\<not> is_reg (EvChdir x)"
  "\<not> is_reg (EvPerror x)" "\<not> is_reg (EvExecvp x xs)" "\<not> is_reg (EvHandleInit t)" "\<not> is_reg (EvStreamOpen n d fl)"
  by (simp_all add: is_reg_def)

lemma list_all_polls: "list_all (\<lambda>ev. \<not> is_reg ev) (map (\<lambda>e. EvPoll d (Fail e)) ints)"
  by (induction ints) (simp_all add: noreg_simps)

lemma wait_exec_result:
  "(fst (spawn_wait_exec os s) = Next \<and> waited s (snd (spawn_wait_exec os s)) \<and>
      child (snd (spawn_wait_exec os s)) = child s) \<or>
   ((fst (spawn_wait_exec os s) = Leave Pending \<or> fst (spawn_wait_exec os s) = Leave AssertFail) \<and>
      appends (\<lambda>ev. \<not> is_reg ev) (wld s) (wld (snd (spawn_wait_exec os s))))"
proof -
  let ?s1 = "on_world (uv__close (snd (signal_pipe s))) s"
  obtain res w2 where p: "spawn_poll (fst (signal_pipe s)) (os_polls os) (wld ?s1) = (res, w2)"
    by (cases "spawn_poll (fst (signal_pipe s)) (os_polls os) (wld ?s1)")
  from spawn_poll_trace[OF p] obtain ints where
    t2: "trace w2 = trace (wld ?s1) @ map (\<lambda>e. EvPoll (fst (signal_pipe s)) (Fail e)) ints @
            (case res of None \<Rightarrow> [] | Some r \<Rightarrow> [EvPoll (fst (signal_pipe s)) r])"
    and ri: "list_all retried ints" by blast
  have t1: "trace (wld ?s1) = trace (wld s) @ [EvClose (snd (signal_pipe s))]"
    by (simp add: on_world_def uv__close_def sys_close_facts)
  let ?s3 = "on_world (uv__close (snd (signal_pipe s))) (on_world (uv__close (fst (signal_pipe s))) (?s1\<lparr>wld := w2\<rparr>))"
  have t3: "trace (wld ?s3) = trace w2 @ [EvClose (fst (signal_pipe s)), EvClose (snd (signal_pipe s))]"
    by (simp add: on_world_def uv__close_def sys_close_facts)
  show ?thesis
  proof (cases res)
    case None
    with p have e: "spawn_wait_exec os s = (Leave Pending, ?s1\<lparr>wld := w2\<rparr>)"
      by (simp add: spawn_wait_exec_def Let_def)
    have "appends (\<lambda>ev. \<not> is_reg ev) (wld s) w2"
      unfolding appends_def using t2 t1 None list_all_polls by (auto simp: noreg_simps)
    then show ?thesis by (simp add: e)
  next
    case (Some r)
    have ap: "appends (\<lambda>ev. \<not> is_reg ev) (wld s) (wld ?s3)"
      unfolding appends_def using t3 t2 t1 Some list_all_polls by (auto simp: noreg_simps)
    show ?thesis
    proof (cases "\<exists>rev. r = Ok (1, rev) \<and> POLLHUP \<in> rev")
      case True
      then obtain rev where r: "r = Ok (1, rev)" and h: "POLLHUP \<in> rev" by blast
      from p Some r h have e: "spawn_wait_exec os s = (Next, ?s3)"
        by (simp add: spawn_wait_exec_def Let_def)
      have "waited s ?s3" unfolding waited_def
        apply (rule exI[of _ ints], rule exI[of _ rev])
        using t3 t2 t1 Some r h ri apply simp
        done
      moreover have "child ?s3 = child s" by (simp add: on_world_def)
      ultimately show ?thesis by (simp add: e)
    next
      case False
      with p Some have e: "spawn_wait_exec os s = (Leave AssertFail, ?s3)"
        by (cases r) (auto simp add: spawn_wait_exec_def Let_def)
      with ap show ?thesis by simp
    qed
  qed
qed

lemma child_stdio_appends:
  "(\<And>d. good (EvClose d)) \<Longrightarrow> (\<And>a b. good (EvDup2 a b)) \<Longrightarrow> appends good w (child_stdio g u v t w)"
  by (simp add: child_stdio_def appends_def uv__close_def sys_close_eval sys_dup2_eval)

lemma spawn_exec_appends:
  "(\<And>x xs. good (EvExecvp x xs)) \<Longrightarrow> (\<And>x. good (EvPerror x)) \<Longrightarrow>
     appends good w (snd (spawn_exec os options w))"
  by (simp add: spawn_exec_def appends_def emit_def perror_def Let_def split: sysret.splits)

lemma spawn_exec_fst: "fst (spawn_exec os options w) = Execd \<or> fst (spawn_exec os options w) = Exited 127"
  by (simp add: spawn_exec_def Let_def split: sysret.splits)

lemma spawn_child_result:
  assumes g: "\<And>d. good (EvClose d)" "\<And>a b. good (EvDup2 a b)" "\<And>x xs. good (EvExecvp x xs)"
             "\<And>x. good (EvPerror x)" "\<And>x. good (EvChdir x)"
  shows "appends good (wld s) (wld (snd (spawn_child os options s))) \<and>
         (fst (spawn_child os options s) = Leave Execd \<or> fst (spawn_child os options s) = Leave (Exited 127)) \<and>
         process (snd (spawn_child os options s)) = process s"
proof -
  let ?w1 = "child_stdio (0 \<le> fst (stdin_pipe s)) (snd (stdin_pipe s)) (fst (stdin_pipe s)) STDIN_FILENO (wld s)"
  let ?w2 = "child_stdio (0 \<le> snd (stdout_pipe s)) (fst (stdout_pipe s)) (snd (stdout_pipe s)) STDOUT_FILENO ?w1"
  let ?w3 = "child_stdio (0 \<le> snd (stderr_pipe s)) (fst (stderr_pipe s)) (snd (stderr_pipe s)) STDERR_FILENO ?w2"
  have a3: "appends good (wld s) ?w3"
    by (rule appends_trans[OF appends_trans[OF child_stdio_appends[of good] child_stdio_appends[of good]]
          child_stdio_appends[of good]]) (rule g)+
  show ?thesis
  proof (cases "opt_cwd options")
    case None
    have e: "spawn_child os options s = (Leave (fst (spawn_exec os options ?w3)), s\<lparr>wld := snd (spawn_exec os options ?w3)\<rparr>)"
      by (simp add: spawn_child_def None Let_def split: prod.splits)
    have "appends good ?w3 (snd (spawn_exec os options ?w3))"
      by (rule spawn_exec_appends[of good]) (rule g)+
    from appends_trans[OF a3 this] spawn_exec_fst[of os options ?w3] show ?thesis by (simp add: e)
  next
    case (Some dir)
    show ?thesis
    proof (cases "os_chdir os")
      case (Fail e)
      have e: "spawn_child os options s = (Leave (Exited 127),
           s\<lparr>wld := perror ''chdir()'' (emit (EvChdir dir) (?w3\<lparr>errno_var := e\<rparr>))\<rparr>)"
        by (simp add: spawn_child_def Some Fail Let_def)
      have "appends good ?w3 (perror ''chdir()'' (emit (EvChdir dir) (?w3\<lparr>errno_var := e\<rparr>)))"
        by (simp add: appends_def perror_def emit_def g)
      from appends_trans[OF a3 this] show ?thesis by (simp add: e)
    next
      case (Ok u)
      let ?w4 = "emit (EvChdir dir) ?w3"
      have e: "spawn_child os options s = (Leave (fst (spawn_exec os options ?w4)), s\<lparr>wld := snd (spawn_exec os options ?w4)\<rparr>)"
        by (simp add: spawn_child_def Some Ok Let_def split: prod.splits)
      have a4: "appends good ?w3 ?w4" by (simp add: appends_def emit_def g)
      have "appends good ?w4 (snd (spawn_exec os options ?w4))"
        by (rule spawn_exec_appends[of good]) (rule g)+
      from appends_trans[OF a3 appends_trans[OF a4 this]] spawn_exec_fst[of os options ?w4]
      show ?thesis by (simp add: e)
    qed
  qed
qed

lemma fork_parent:
  assumes "os_fork os = Ok p" "p \<noteq> 0"
  shows "fst (spawn_fork os options s) = Next"
        "trace (wld (snd (spawn_fork os options s))) = trace (wld s) @ [EvFork (Ok p)]"
        "child (snd (spawn_fork os options s)) = p"
        "signal_pipe (snd (spawn_fork os options s)) = signal_pipe s"
        "process (snd (spawn_fork os options s)) = process s"
        "open_fds (wld (snd (spawn_fork os options s))) = open_fds (wld s)"
        "stdin_pipe (snd (spawn_fork os options s)) = stdin_pipe s"
        "stdout_pipe (snd (spawn_fork os options s)) = stdout_pipe s"
        "stderr_pipe (snd (spawn_fork os options s)) = stderr_pipe s"
  using assms by (simp_all add: spawn_fork_def Let_def on_world_def sys_fork_def emit_def)

lemma fork_child:
  assumes "os_fork os = Ok 0"
  shows "(fst (spawn_fork os options s) = Leave Execd \<or> fst (spawn_fork os options s) = Leave (Exited 127)) \<and>
         appends (\<lambda>ev. \<not> is_reg ev) (wld s) (wld (snd (spawn_fork os options s))) \<and>
         process (snd (spawn_fork os options s)) = process s"
proof -
  let ?s1 = "(on_world (sys_fork (os_fork os)) s)\<lparr>child := 0\<rparr>"
  have e: "spawn_fork os options s = spawn_child os options ?s1"
    using assms by (simp add: spawn_fork_def Let_def)
  have a: "appends (\<lambda>ev. \<not> is_reg ev) (wld s) (wld ?s1)"
    using assms by (simp add: on_world_def sys_fork_def emit_def appends_def noreg_simps)
  have b: "appends (\<lambda>ev. \<not> is_reg ev) (wld ?s1) (wld (snd (spawn_child os options ?s1))) \<and>
         (fst (spawn_child os options ?s1) = Leave Execd \<or> fst (spawn_child os options ?s1) = Leave (Exited 127)) \<and>
         process (snd (spawn_child os options ?s1)) = process ?s1"
    by (rule spawn_child_result) (simp_all add: noreg_simps)
  have p: "process ?s1 = process s" by (simp add: on_world_def)
  from b appends_trans[OF a] p show ?thesis by (simp add: e)
qed

lemma fork_failed:
  assumes "os_fork os = Fail e"
  shows "fst (spawn_fork os options s) = Leave (Return (-1))"
        "appends (\<lambda>ev. \<not> is_reg ev) (wld s) (wld (snd (spawn_fork os options s)))"
        "process (snd (spawn_fork os options s)) = process s"
        "piped O0 pr os s \<Longrightarrow> open_fds (wld (snd (spawn_fork os options s))) \<subseteq> O0"
proof -
  let ?s1 = "on_world (\<lambda>w. w\<lparr>environ := save_our_env s\<rparr>)
                  (on_world (uv__close (snd (signal_pipe s)))
                     (on_world (uv__close (fst (signal_pipe s))) ((on_world (sys_fork (os_fork os)) s)\<lparr>child := -1\<rparr>)))"
  have e: "spawn_fork os options s = spawn_error ?s1"
    using assms by (simp add: spawn_fork_def Let_def)
  show "fst (spawn_fork os options s) = Leave (Return (-1))" by (simp add: e spawn_error_facts)
  have a: "appends (\<lambda>ev. \<not> is_reg ev) (wld s) (wld ?s1)"
    using assms by (simp add: on_world_def sys_fork_def emit_def appends_def noreg_simps uv__close_def sys_close_eval)
  have b: "appends (\<lambda>ev. \<not> is_reg ev) (wld ?s1) (wld (snd (spawn_error ?s1)))"
    by (rule spawn_error_appends) (simp add: noreg_simps)
  from appends_trans[OF a b] show "appends (\<lambda>ev. \<not> is_reg ev) (wld s) (wld (snd (spawn_fork os options s)))"
    by (simp add: e)
  show "process (snd (spawn_fork os options s)) = process s"
    by (simp add: e spawn_error_facts on_world_def)
  show "piped O0 pr os s \<Longrightarrow> open_fds (wld (snd (spawn_fork os options s))) \<subseteq> O0"
  proof -
    assume "piped O0 pr os s"
    then have o: "open_fds (wld s) \<subseteq> O0 \<union> slots s \<union> {fst (signal_pipe s), snd (signal_pipe s)}"
      by (auto simp: piped_def)
    have o1: "open_fds (wld ?s1) = open_fds (wld s) - {fst (signal_pipe s), snd (signal_pipe s)}"
      using assms by (auto simp: on_world_def sys_fork_def emit_def uv__close_def sys_close_eval)
    have sl: "slots ?s1 = slots s" by (simp add: slots_def on_world_def)
    have "open_fds (wld (snd (spawn_error ?s1))) \<subseteq> open_fds (wld ?s1) - slots ?s1"
      by (rule spawn_error_facts(2))
    with o o1 sl show ?thesis unfolding e by blast
  qed
qed

lemma register_result:
  "fst (spawn_register s) = Next"
  "trace (wld (snd (spawn_register s))) = trace (wld s) @ [EvSetPid (child s), EvChildInit (child s), EvChildStart (child s)]"
  "pid (process (snd (spawn_register s))) = child s"
  by (simp_all add: spawn_register_def on_world_def emit_def)

lemma attach_result:
  "(fst (spawn_attach mine theirs strm flag s) = Next \<or> fst (spawn_attach mine theirs strm flag s) = Leave AssertFail) \<and>
   appends (\<lambda>ev. \<not> is_reg ev) (wld s) (wld (snd (spawn_attach mine theirs strm flag s))) \<and>
   process (snd (spawn_attach mine theirs strm flag s)) = process s"
  by (cases strm)
     (simp_all add: spawn_attach_def on_world_def emit_def uv__nonblock_def uv__close_def sys_close_eval
        appends_def noreg_simps)

lemma andthen_result:
  assumes f: "\<And>s. P (fst (f s)) \<and> appends good (wld s) (wld (snd (f s))) \<and> process (snd (f s)) = process s"
      and g: "\<And>s. P (fst (g s)) \<and> appends good (wld s) (wld (snd (g s))) \<and> process (snd (g s)) = process s"
  shows "P (fst (andthen f g s)) \<and> appends good (wld s) (wld (snd (andthen f g s))) \<and>
         process (snd (andthen f g s)) = process s"
proof (cases "fst (f s) = Next")
  case True
  then have e: "andthen f g s = g (snd (f s))" by (simp add: andthen_fs)
  from f[of s] g[of "snd (f s)"] appends_trans show ?thesis unfolding e by metis
next
  case False
  then have e: "andthen f g s = f s" by (cases "f s"; cases "fst (f s)"; simp add: andthen_def)
  from f[of s] show ?thesis unfolding e by simp
qed

lemma attach_all_result:
  "(fst (andthen (spawn_attach_stdin options)
                (andthen (spawn_attach_stdout options) (spawn_attach_stderr options)) s) = Next \<or>
    fst (andthen (spawn_attach_stdin options)
                (andthen (spawn_attach_stdout options) (spawn_attach_stderr options)) s) = Leave AssertFail) \<and>
   appends (\<lambda>ev. \<not> is_reg ev) (wld s) (wld (snd (andthen (spawn_attach_stdin options)
                (andthen (spawn_attach_stdout options) (spawn_attach_stderr options)) s))) \<and>
   process (snd (andthen (spawn_attach_stdin options)
                (andthen (spawn_attach_stdout options) (spawn_attach_stderr options)) s)) = process s"
  unfolding spawn_attach_stdin_def spawn_attach_stdout_def spawn_attach_stderr_def
  by (rule andthen_result[where P = "\<lambda>fl. fl = Next \<or> fl = Leave AssertFail"] attach_result)+

lemma uv_spawn_after:
  assumes "fst (spawn_pipes os options (spawn_frame0 options w proc)) = Next"
  shows "uv_spawn os options w proc =
     (case spawn_after_pipes os options (snd (spawn_pipes os options (spawn_frame0 options w proc))) of
        (Leave r, s) \<Rightarrow> (r, wld s, process s)
      | (Next, s) \<Rightarrow> (Return 0, wld s, process s)
      | (Again, s) \<Rightarrow> (Return 0, wld s, process s))"
  using assms by (simp add: uv_spawn_def spawn_body_def andthen_fs)

lemma uv_spawn_after_fs:
  assumes "fst (spawn_pipes os options (spawn_frame0 options w proc)) = Next"
  shows "fst (spawn_after_pipes os options (snd (spawn_pipes os options (spawn_frame0 options w proc)))) = Next \<Longrightarrow>
           uv_spawn os options w proc =
             (Return 0, wld (snd (spawn_after_pipes os options (snd (spawn_pipes os options (spawn_frame0 options w proc))))),
              process (snd (spawn_after_pipes os options (snd (spawn_pipes os options (spawn_frame0 options w proc))))))"
        "fst (spawn_after_pipes os options (snd (spawn_pipes os options (spawn_frame0 options w proc)))) = Leave r \<Longrightarrow>
           uv_spawn os options w proc =
             (r, wld (snd (spawn_after_pipes os options (snd (spawn_pipes os options (spawn_frame0 options w proc))))),
              process (snd (spawn_after_pipes os options (snd (spawn_pipes os options (spawn_frame0 options w proc))))))"
  unfolding uv_spawn_after[OF assms]
  by (cases "spawn_after_pipes os options (snd (spawn_pipes os options (spawn_frame0 options w proc)))"; simp)+

lemma since_appends: "trace w1 = trace w @ evs \<Longrightarrow> since w w1 = evs"
  by (simp add: since_def)

lemma after_pipes_result:
  assumes pd: "piped O0 pr os s"
  shows "(\<exists>r. fst (spawn_after_pipes os options s) = Leave r \<and> r \<noteq> Return 0 \<and>
            appends (\<lambda>ev. \<not> is_reg ev) (wld s) (wld (snd (spawn_after_pipes os options s))) \<and>
            process (snd (spawn_after_pipes os options s)) = pr \<and>
            (r = Return (-1) \<longrightarrow> open_fds (wld (snd (spawn_after_pipes os options s))) \<subseteq> O0)) \<or>
         ((fst (spawn_after_pipes os options s) = Next \<or> fst (spawn_after_pipes os options s) = Leave AssertFail) \<and>
          (\<exists>p ints rev post. os_fork os = Ok p \<and> p \<noteq> 0 \<and>
             trace (wld (snd (spawn_after_pipes os options s))) = trace (wld s) @
               [EvFork (Ok p), EvClose (snd (signal_pipe s))] @
               map (\<lambda>e. EvPoll (fst (signal_pipe s)) (Fail e)) ints @
               [EvPoll (fst (signal_pipe s)) (Ok (1, rev)), EvClose (fst (signal_pipe s)), EvClose (snd (signal_pipe s)),
                EvSetPid p, EvChildInit p, EvChildStart p] @ post \<and>
             POLLHUP \<in> rev \<and> list_all retried ints \<and> list_all (\<lambda>ev. \<not> is_reg ev) post \<and>
             pid (process (snd (spawn_after_pipes os options s))) = p))"
proof -
  have pr: "process s = pr" using pd by (auto simp: piped_def)
  let ?rest2 = "andthen (spawn_attach_stdin options)
                (andthen (spawn_attach_stdout options) (spawn_attach_stderr options))"
  let ?rest1 = "andthen spawn_register ?rest2"
  let ?rest0 = "andthen (spawn_wait_exec os) ?rest1"
  have ap: "spawn_after_pipes os options s = andthen (spawn_fork os options) ?rest0 s"
    by (simp add: spawn_after_pipes_def)
  show ?thesis
  proof (cases "os_fork os")
    case (Fail e)
    from fork_failed(1-3)[OF Fail] fork_failed(4)[OF Fail pd]
    show ?thesis by (simp add: ap andthen_fs pr)
  next
    case (Ok p)
    show ?thesis
    proof (cases "p = 0")
      case True
      with Ok have "os_fork os = Ok 0" by simp
      from fork_child[OF this, of options s]
      show ?thesis by (auto simp: ap andthen_fs pr)
    next
      case False
      note fp = fork_parent[OF Ok False, of options s]
      let ?s2 = "snd (spawn_fork os options s)"
      have e2: "spawn_after_pipes os options s = ?rest0 ?s2" by (simp add: ap andthen_fs fp(1))
      have a2: "appends (\<lambda>ev. \<not> is_reg ev) (wld s) (wld ?s2)"
        by (simp add: appends_def fp(2) noreg_simps)
      let ?s3 = "snd (spawn_wait_exec os ?s2)"
      from wait_exec_result[of os ?s2] show ?thesis
      proof
        assume l: "(fst (spawn_wait_exec os ?s2) = Leave Pending \<or> fst (spawn_wait_exec os ?s2) = Leave AssertFail) \<and>
            appends (\<lambda>ev. \<not> is_reg ev) (wld ?s2) (wld ?s3)"
        then have a3: "appends (\<lambda>ev. \<not> is_reg ev) (wld s) (wld ?s3)" using appends_trans[OF a2] by simp
        have p3: "process ?s3 = pr"
          by (simp add: spawn_wait_exec_def Let_def on_world_def fp(5) pr split: prod.splits option.splits sysret.splits)
        from l a3 p3 show ?thesis by (auto simp: e2 andthen_fs)
      next
        assume n: "fst (spawn_wait_exec os ?s2) = Next \<and> waited ?s2 ?s3 \<and> child ?s3 = child ?s2"
        then have e3: "spawn_after_pipes os options s = ?rest1 ?s3" by (simp add: e2 andthen_fs)
        let ?s4 = "snd (spawn_register ?s3)"
        have e4: "spawn_after_pipes os options s = ?rest2 ?s4" by (simp add: e3 andthen_fs register_result(1))
        let ?s5 = "snd (?rest2 ?s4)"
        from n obtain ints rev where
          t3: "trace (wld ?s3) = trace (wld ?s2) @ [EvClose (snd (signal_pipe ?s2))] @
                 map (\<lambda>e. EvPoll (fst (signal_pipe ?s2)) (Fail e)) ints @
                 [EvPoll (fst (signal_pipe ?s2)) (Ok (1, rev)), EvClose (fst (signal_pipe ?s2)), EvClose (snd (signal_pipe ?s2))]"
          and hup: "POLLHUP \<in> rev" and ri: "list_all retried ints"
          unfolding waited_def by blast
        have c3: "child ?s3 = p" using n fp(3) by simp
        have t4: "trace (wld ?s4) = trace (wld ?s3) @ [EvSetPid p, EvChildInit p, EvChildStart p]"
          using register_result(2)[of ?s3] c3 by simp
        have p4: "pid (process ?s4) = p" using register_result(3)[of ?s3] c3 by simp
        note at = attach_all_result[of options ?s4]
        from at obtain post where t5: "trace (wld ?s5) = trace (wld ?s4) @ post"
          and np: "list_all (\<lambda>ev. \<not> is_reg ev) post" unfolding appends_def by blast
        have p5: "pid (process ?s5) = p" using at p4 by simp
        have tr: "trace (wld ?s5) = trace (wld s) @
               [EvFork (Ok p), EvClose (snd (signal_pipe s))] @
               map (\<lambda>e. EvPoll (fst (signal_pipe s)) (Fail e)) ints @
               [EvPoll (fst (signal_pipe s)) (Ok (1, rev)), EvClose (fst (signal_pipe s)), EvClose (snd (signal_pipe s)),
                EvSetPid p, EvChildInit p, EvChildStart p] @ post"
          by (simp add: t5 t4 t3 fp(2) fp(4))
        have "\<exists>p ints rev post. os_fork os = Ok p \<and> p \<noteq> 0 \<and>
             trace (wld ?s5) = trace (wld s) @
               [EvFork (Ok p), EvClose (snd (signal_pipe s))] @
               map (\<lambda>e. EvPoll (fst (signal_pipe s)) (Fail e)) ints @
               [EvPoll (fst (signal_pipe s)) (Ok (1, rev)), EvClose (fst (signal_pipe s)), EvClose (snd (signal_pipe s)),
                EvSetPid p, EvChildInit p, EvChildStart p] @ post \<and>
             POLLHUP \<in> rev \<and> list_all retried ints \<and> list_all (\<lambda>ev. \<not> is_reg ev) post \<and>
             pid (process ?s5) = p"
          apply (rule exI[of _ p], rule exI[of _ ints], rule exI[of _ rev], rule exI[of _ post])
          apply (intro conjI Ok False tr hup ri np p5)
          done
        moreover have "fst (?rest2 ?s4) = Next \<or> fst (?rest2 ?s4) = Leave AssertFail" using at by simp
        ultimately show ?thesis unfolding e4 by blast
      qed
    qed
  qed
qed

lemma uv_spawn_run:
  assumes run: "uv_spawn os options w proc = (res, w1, proc1)"
  shows "(res \<noteq> Return 0 \<and> list_all (\<lambda>ev. \<not> is_reg ev) (since w w1) \<and> pid proc1 = pid proc \<and>
          (res = Return (-1) \<longrightarrow> open_fds w1 \<subseteq> open_fds w)) \<or>
         ((res = Return 0 \<or> res = AssertFail) \<and> registered os (since w w1) \<and> os_fork os = Ok (pid proc1))"
proof -
  let ?s0 = "spawn_frame0 options w proc"
  let ?pr = "proc\<lparr>exit_cb := opt_exit_cb options\<rparr>"
  let ?good = "\<lambda>ev. \<not> is_reg ev \<and> \<not> is_fork ev"
  let ?s1 = "snd (spawn_pipes os options ?s0)"
  have inv0: "pipes_inv (open_fds w) ?pr ?s0" by (rule frame0_facts(8))
  have a0: "appends ?good w (wld ?s0)"
    by (rule frame0_appends) (simp add: is_reg_def is_fork_def)
  have a1: "appends ?good (wld ?s0) (wld ?s1)"
    by (rule pipes_appends) (simp_all add: is_reg_def is_fork_def)
  note a01 = appends_trans[OF a0 a1]
  have weak: "\<And>wa wb. appends ?good wa wb \<Longrightarrow> appends (\<lambda>ev. \<not> is_reg ev) wa wb"
    by (auto simp: appends_def list_all_iff)
  from spawn_pipes_result[OF inv0 frame0_facts(4,5,6), of os] show ?thesis
  proof
    assume l: "fst (spawn_pipes os options ?s0) = Leave (Return (-1)) \<and>
               open_fds (wld ?s1) \<subseteq> open_fds w \<and> process ?s1 = ?pr"
    with uv_spawn_pipes_leave[of os options w proc "Return (-1)"] run
    have r: "res = Return (-1)" "w1 = wld ?s1" "proc1 = process ?s1" by simp_all
    have "list_all (\<lambda>ev. \<not> is_reg ev) (since w w1)"
      unfolding r by (rule appends_since[OF weak[OF a01]])
    with l r show ?thesis by simp
  next
    assume n: "fst (spawn_pipes os options ?s0) = Next \<and> piped (open_fds w) ?pr os ?s1"
    then have pd: "piped (open_fds w) ?pr os ?s1" by simp
    then obtain sg where sg: "os_pipe_signal os = Ok sg" "signal_pipe ?s1 = as_fds sg"
      by (auto simp: piped_def)
    let ?fl = "fst (spawn_after_pipes os options ?s1)"
    let ?s5 = "snd (spawn_after_pipes os options ?s1)"
    from n have n1: "fst (spawn_pipes os options ?s0) = Next" by simp
    note e = uv_spawn_after_fs[OF n1]
    from after_pipes_result[OF pd, of options] show ?thesis
    proof
      assume "\<exists>r. ?fl = Leave r \<and> r \<noteq> Return 0 \<and> appends (\<lambda>ev. \<not> is_reg ev) (wld ?s1) (wld ?s5) \<and>
            process ?s5 = ?pr \<and> (r = Return (-1) \<longrightarrow> open_fds (wld ?s5) \<subseteq> open_fds w)"
      then obtain r where l: "?fl = Leave r" "r \<noteq> Return 0" "appends (\<lambda>ev. \<not> is_reg ev) (wld ?s1) (wld ?s5)"
            "process ?s5 = ?pr" "r = Return (-1) \<longrightarrow> open_fds (wld ?s5) \<subseteq> open_fds w" by blast
      from run e(2)[OF l(1)] have r: "res = r" "w1 = wld ?s5" "proc1 = process ?s5" by simp_all
      have "list_all (\<lambda>ev. \<not> is_reg ev) (since w w1)"
        unfolding r by (rule appends_since[OF appends_trans[OF weak[OF a01] l(3)]])
      with l r show ?thesis by simp
    next
      assume "(?fl = Next \<or> ?fl = Leave AssertFail) \<and>
          (\<exists>p ints rev post. os_fork os = Ok p \<and> p \<noteq> 0 \<and>
             trace (wld ?s5) = trace (wld ?s1) @
               [EvFork (Ok p), EvClose (snd (signal_pipe ?s1))] @
               map (\<lambda>e. EvPoll (fst (signal_pipe ?s1)) (Fail e)) ints @
               [EvPoll (fst (signal_pipe ?s1)) (Ok (1, rev)), EvClose (fst (signal_pipe ?s1)), EvClose (snd (signal_pipe ?s1)),
                EvSetPid p, EvChildInit p, EvChildStart p] @ post \<and>
             POLLHUP \<in> rev \<and> list_all retried ints \<and> list_all (\<lambda>ev. \<not> is_reg ev) post \<and>
             pid (process ?s5) = p)"
      then obtain p ints rev post where
        fl: "?fl = Next \<or> ?fl = Leave AssertFail" and fk: "os_fork os = Ok p" "p \<noteq> 0"
        and t5: "trace (wld ?s5) = trace (wld ?s1) @
               [EvFork (Ok p), EvClose (snd (as_fds sg))] @
               map (\<lambda>e. EvPoll (fst (as_fds sg)) (Fail e)) ints @
               [EvPoll (fst (as_fds sg)) (Ok (1, rev)), EvClose (fst (as_fds sg)), EvClose (snd (as_fds sg)),
                EvSetPid p, EvChildInit p, EvChildStart p] @ post"
        and rest: "POLLHUP \<in> rev" "list_all retried ints" "list_all (\<lambda>ev. \<not> is_reg ev) post"
        and p5: "pid (process ?s5) = p" unfolding sg(2) by blast
      from run fl e(1) e(2)[of AssertFail]
      have r: "res = Return 0 \<or> res = AssertFail" "w1 = wld ?s5" "proc1 = process ?s5"
        by auto
      from a01 obtain pre where t1: "trace (wld ?s1) = trace w @ pre" and gp: "list_all ?good pre"
        unfolding appends_def by blast
      have sn: "since w w1 = pre @ [EvFork (Ok p), EvClose (snd (as_fds sg))] @
               map (\<lambda>e. EvPoll (fst (as_fds sg)) (Fail e)) ints @
               [EvPoll (fst (as_fds sg)) (Ok (1, rev)), EvClose (fst (as_fds sg)), EvClose (snd (as_fds sg)),
                EvSetPid p, EvChildInit p, EvChildStart p] @ post"
        unfolding r by (rule since_appends) (simp add: t5 t1)
      have "registered os (since w w1)" unfolding registered_def
        apply (rule exI[of _ pre], rule exI[of _ p], rule exI[of _ sg], rule exI[of _ ints],
               rule exI[of _ rev], rule exI[of _ post])
        apply (intro conjI fk sg(1) sn rest gp)
        done
      with r p5 fk show ?thesis by simp
    qed
  qed
qed

lemma registered_has_reg: "registered os evs \<Longrightarrow> \<not> list_all (\<lambda>ev. \<not> is_reg ev) evs"
  by (auto simp: registered_def is_reg_def)

lemma uv_spawn_failure_releases:
  assumes "uv_spawn os options w proc = (Return (-1), w1, proc1)"
  shows "open_fds w1 \<subseteq> open_fds w" "pid proc1 = pid proc" "list_all (\<lambda>ev. \<not> is_reg ev) (since w w1)"
  using uv_spawn_run[OF assms] by simp_all

text \<open>
  Claim C8. Whenever a run of \<^verbatim>\<open>uv_spawn\<close> records the pid in the handle or hands the
  child to the reactor (\<^verbatim>\<open>ev_child_init\<close>, \<^verbatim>\<open>ev_child_start\<close>), and in particular whenever
  it returns 0, the events of the run are, in this order: a successful \<^verbatim>\<open>fork\<close> with a
  non-zero pid, the \<^verbatim>\<open>close\<close> of the write end of the synchronization pipe, any number of
  \<^verbatim>\<open>poll\<close> calls on its read end that fail with \<^verbatim>\<open>EINTR\<close> or \<^verbatim>\<open>ENOMEM\<close>, one \<^verbatim>\<open>poll\<close> that
  returns 1 with \<^verbatim>\<open>POLLHUP\<close>, the \<^verbatim>\<open>close\<close> of both ends, and only then the three
  registration steps, all for the pid that \<^verbatim>\<open>fork\<close> returned. No registration step occurs
  anywhere else in the run. A \<^verbatim>\<open>poll\<close> answer without \<^verbatim>\<open>POLLHUP\<close> stops at an assertion.
\<close>

theorem C8_register_after_exec_wait:
  assumes run: "uv_spawn os options w proc = (res, w1, proc1)"
      and reg: "res = Return 0 \<or> (\<exists>ev \<in> set (since w w1). is_reg ev)"
  shows "registered os (since w w1) \<and> os_fork os = Ok (pid proc1)"
proof -
  from reg have "res = Return 0 \<or> \<not> list_all (\<lambda>ev. \<not> is_reg ev) (since w w1)"
    by (auto simp: list_all_iff)
  with uv_spawn_run[OF run] show ?thesis by blast
qed

lemma pipe_stdout_spawn: "uv_spawn os_spawn_plain opts_pipe_stdout world0 proc0 =
   (Return 0,
    \<lparr> open_fds = {5, 0, 1, 2}, errno_var = EBADF, environ = [], last_err = UV_OK, loop_time = 0,
      process_init = 1,
      trace = [EvHandleInit UV_PROCESS, EvPipe (Ok (5, 6)), EvCloexec 5, EvCloexec 6,
               EvPipe (Ok (9, 10)), EvCloexec 9, EvCloexec 10, EvNonblock 9, EvNonblock 10,
               EvFork (Ok 100), EvClose 10, EvPoll 9 (Fail EINTR), EvPoll 9 (Ok (1, {POLLHUP})),
               EvClose 9, EvClose 10, EvSetPid 100, EvChildInit 100, EvChildStart 100,
               EvClose 6, EvNonblock 5, EvStreamOpen 2 5 UV_READABLE] \<rparr>,
    \<lparr> pid = 100, exit_cb = Some 7, child_watcher = \<lparr> rstatus = 0, rpid = 100, ev_active = True \<rparr> \<rparr>)"
  by (simp add: spawn_defs eval_defs os_spawn_plain_def opts_pipe_stdout_def world0_def proc0_def insert_Diff_if)

text \<open>
  The theorem at a request with a stdout pipe, where the first \<^verbatim>\<open>poll\<close> is interrupted
  and the second reports \<^verbatim>\<open>POLLHUP\<close>: the call returns 0 and the handle carries pid 100.
\<close>

theorem C8_register_after_exec_wait_witness:
  "fst (uv_spawn os_spawn_plain opts_pipe_stdout world0 proc0) = Return 0 \<and>
   registered os_spawn_plain (since world0 (fst (snd (uv_spawn os_spawn_plain opts_pipe_stdout world0 proc0)))) \<and>
   os_fork os_spawn_plain = Ok (pid (snd (snd (uv_spawn os_spawn_plain opts_pipe_stdout world0 proc0))))"
  using C8_register_after_exec_wait[OF pipe_stdout_spawn] by (simp add: pipe_stdout_spawn)

end
